theory Spec2Isabelle
  imports Complex_Main
begin

section \<open>Python values and runtime functions\<close>

text \<open>
  Bytes and text. The codec is used with the \<^verbatim>\<open>latin-1\<close> encoding, under which every
  byte is one code point below 256 and back. A \<^verbatim>\<open>bytes\<close> object is a list of 8-bit
  characters, and so is a \<^verbatim>\<open>str\<close> all of whose code points are below 256 (the type
  \<open>string\<close>): \<^verbatim>\<open>decode\<close> and \<^verbatim>\<open>encode\<close> are the identity on these, and every text
  that the program decodes from a frame is one of them. A \<^verbatim>\<open>str\<close> with a code point above
  255, on which \<^verbatim>\<open>encode\<close> raises \<^verbatim>\<open>UnicodeEncodeError\<close>, can reach the encoder in a field
  (\<open>FText\<close> below), given by the list of its code points.
\<close>

type_synonym bytes = "char list"

definition NUL :: char where
  "NUL = CHR 0x00"

text \<open>
  The exceptions that the modelled code can raise. \<open>ValueError s\<close> is the \<^verbatim>\<open>ValueError\<close> of
  \<^verbatim>\<open>int(s)\<close>, \<open>ValueError_str\<close> the \<^verbatim>\<open>ValueError\<close> of \<^verbatim>\<open>str(i)\<close> for an integer \<open>i\<close> with
  too many digits.
\<close>

datatype py_error =
    StructError
  | ValueError string
  | ValueError_str
  | UnicodeEncodeError
  | TypeError
  | IndexError
  | KeyError string

text \<open>
  Python floats are modelled by the rational number they denote; rounding, infinities
  and NaN are outside the model, as are the texts \<^verbatim>\<open>str(x)\<close> and \<^verbatim>\<open>float(s)\<close> of a
  float and the text \<^verbatim>\<open>str(e)\<close> of an exception: these three functions of the Python
  runtime are parameters of the model.
\<close>

type_synonym pyfloat = rat

record runtime =
  float_str :: "pyfloat \<Rightarrow> string"
  float_parse :: "string \<Rightarrow> pyfloat option"
  exc_str :: "py_error \<Rightarrow> string"

subsection \<open>\<^verbatim>\<open>str(int)\<close> and \<^verbatim>\<open>int(str)\<close>\<close>

definition digit_char :: "nat \<Rightarrow> char" where
  "digit_char d = char_of (48 + d)"

fun show_nat :: "nat \<Rightarrow> string" where
  "show_nat n = (if n < 10 then [digit_char n] else show_nat (n div 10) @ [digit_char (n mod 10)])"

declare show_nat.simps [simp del]

definition show_int :: "int \<Rightarrow> string" where
  "show_int i = (if i < 0 then CHR ''-'' # show_nat (nat (- i)) else show_nat (nat i))"

text \<open>
  The interpreter limits the conversions between \<^verbatim>\<open>int\<close> and decimal text
  (\<^verbatim>\<open>sys.int_max_str_digits\<close>, which the program leaves at its default): \<^verbatim>\<open>str(i)\<close>, and the
  formatting of \<open>i\<close> in an f-string, raise \<^verbatim>\<open>ValueError\<close> when \<open>i\<close> has more than 4300
  digits, the sign not counted, and so does \<^verbatim>\<open>int(s)\<close> when \<open>s\<close> has more than 4300 digits,
  leading zeros counted, sign and underscores not.
\<close>

definition int_max_str_digits :: nat where
  "int_max_str_digits = 4300"

definition int_digits :: "int \<Rightarrow> nat" where
  "int_digits i = length (show_nat (nat \<bar>i\<bar>))"

definition str_int :: "int \<Rightarrow> py_error + string" where
  "str_int i = (if int_digits i > int_max_str_digits then Inl ValueError_str else Inr (show_int i))"

text \<open>
  \<^verbatim>\<open>int(s)\<close> on a string of code points below 256: surrounding whitespace is skipped
  (the ASCII whitespace and, among the others, U+0085 and U+00A0), one sign is allowed,
  and the digits may be separated by single underscores. Everything else raises
  \<^verbatim>\<open>ValueError\<close> (\<open>None\<close> here), and so does a text with more digits than the limit.
\<close>

definition py_isspace :: "char \<Rightarrow> bool" where
  "py_isspace c \<longleftrightarrow> (let n = (of_char c :: nat) in (9 \<le> n \<and> n \<le> 13) \<or> n = 32 \<or> n = 133 \<or> n = 160)"

definition py_isdigit :: "char \<Rightarrow> bool" where
  "py_isdigit c \<longleftrightarrow> (let n = (of_char c :: nat) in 48 \<le> n \<and> n \<le> 57)"

definition digit_val :: "char \<Rightarrow> nat" where
  "digit_val c = of_char c - 48"

fun digits_ok :: "string \<Rightarrow> bool" where
  "digits_ok [] = False"
| "digits_ok [c] = py_isdigit c"
| "digits_ok (c # d # cs) =
     (if py_isdigit c then (if d = CHR ''_'' then digits_ok cs else digits_ok (d # cs))
      else False)"

definition digits_value :: "string \<Rightarrow> nat" where
  "digits_value s = foldl (\<lambda>acc c. 10 * acc + digit_val c) 0 (filter py_isdigit s)"

definition py_strip :: "string \<Rightarrow> string" where
  "py_strip s = rev (dropWhile py_isspace (rev (dropWhile py_isspace s)))"

definition py_int :: "string \<Rightarrow> int option" where
  "py_int s =
     (let t = py_strip s;
          neg = (t \<noteq> [] \<and> hd t = CHR ''-'');
          u = (if t \<noteq> [] \<and> (hd t = CHR ''-'' \<or> hd t = CHR ''+'') then tl t else t)
      in if digits_ok u \<and> length (filter py_isdigit u) \<le> int_max_str_digits
         then Some (if neg then - int (digits_value u) else int (digits_value u))
         else None)"

section \<open>Frame codec\<close>

subsection \<open>\<^verbatim>\<open>struct.pack('>I', n)\<close> and \<^verbatim>\<open>struct.unpack('>I', b)[0]\<close>\<close>

definition struct_pack_I :: "nat \<Rightarrow> py_error + bytes" where
  "struct_pack_I n =
     (if n < 2 ^ 32
      then Inr [char_of (n div 16777216), char_of (n div 65536 mod 256),
                char_of (n div 256 mod 256), char_of (n mod 256)]
      else Inl StructError)"

definition struct_unpack_I :: "bytes \<Rightarrow> nat" where
  "struct_unpack_I b =
     ((of_char (b ! 0) * 256 + of_char (b ! 1)) * 256 + of_char (b ! 2)) * 256 + of_char (b ! 3)"

subsection \<open>\<^verbatim>\<open>MessageEncoder\<close>\<close>

text \<open>
  What a field vector holds: \<^verbatim>\<open>None\<close>, a Boolean, an integer, a float, a
  \<^verbatim>\<open>datetime\<close> (given by its \<^verbatim>\<open>strftime('%Y%m%d %H:%M:%S')\<close> text) or a string: \<open>FStr\<close> is
  a string of code points below 256, \<open>FText\<close> a string given by the list of its code
  points, whatever they are. The texts of a float and of a \<^verbatim>\<open>datetime\<close> have their code
  points below 256.
\<close>

datatype field =
    FNone
  | FBool bool
  | FInt int
  | FFloat pyfloat
  | FDatetime string
  | FStr string
  | FText "nat list"

text \<open>\<^verbatim>\<open>s.encode('latin-1')\<close> of a string given by its code points.\<close>

definition latin1_encode :: "nat list \<Rightarrow> py_error + bytes" where
  "latin1_encode cps =
     (if list_all (\<lambda>c. c < 256) cps then Inr (map char_of cps) else Inl UnicodeEncodeError)"

fun encode_field :: "runtime \<Rightarrow> field \<Rightarrow> py_error + bytes" where
  "encode_field rt FNone = Inr [NUL]"
| "encode_field rt (FBool b) = Inr ((if b then ''1'' else ''0'') @ [NUL])"
| "encode_field rt (FInt i) =
     (case str_int i of Inl e \<Rightarrow> Inl e | Inr t \<Rightarrow> Inr (t @ [NUL]))"
| "encode_field rt (FFloat x) = Inr (float_str rt x @ [NUL])"
| "encode_field rt (FDatetime t) = Inr (t @ [NUL])"
| "encode_field rt (FStr s) = Inr (s @ [NUL])"
| "encode_field rt (FText cps) =
     (case latin1_encode cps of Inl e \<Rightarrow> Inl e | Inr b \<Rightarrow> Inr (b @ [NUL]))"

fun encode_loop :: "runtime \<Rightarrow> field list \<Rightarrow> bytes \<Rightarrow> py_error + bytes" where
  "encode_loop rt [] message = Inr message"
| "encode_loop rt (f # fs) message =
     (case encode_field rt f of
        Inl e \<Rightarrow> Inl e
      | Inr b \<Rightarrow> encode_loop rt fs (message @ b))"

definition encode_fields :: "runtime \<Rightarrow> field list \<Rightarrow> py_error + bytes" where
  "encode_fields rt flds =
     (case encode_loop rt flds [] of
        Inl e \<Rightarrow> Inl e
      | Inr message \<Rightarrow>
          (case struct_pack_I (length message) of
             Inl e \<Rightarrow> Inl e
           | Inr prefix \<Rightarrow> Inr (prefix @ message)))"

definition make_message :: "runtime \<Rightarrow> int \<Rightarrow> field list \<Rightarrow> py_error + bytes" where
  "make_message rt msg_id flds = encode_fields rt (FInt msg_id # flds)"

subsection \<open>\<^verbatim>\<open>MessageDecoder\<close>\<close>

fun decode_loop :: "bytes \<Rightarrow> string list \<Rightarrow> bytes \<Rightarrow> string list" where
  "decode_loop [] flds current_field =
     (if current_field \<noteq> [] then flds @ [current_field] else flds)"
| "decode_loop (byte # rest) flds current_field =
     (if byte = NUL then decode_loop rest (flds @ [current_field]) []
      else decode_loop rest flds (current_field @ [byte]))"

definition decode_fields :: "bytes \<Rightarrow> string list" where
  "decode_fields data = decode_loop data [] []"

definition decode_message :: "bytes \<Rightarrow> py_error + (int option \<times> string list)" where
  "decode_message data =
     (if length data < 4 then Inr (None, [])
      else let msg_length = struct_unpack_I (take 4 data)
           in if length data < 4 + msg_length then Inr (None, [])
              else let msg_body = take msg_length (drop 4 data);
                       flds = decode_fields msg_body
                   in if flds = [] then Inr (None, [])
                      else (case py_int (hd flds) of
                              None \<Rightarrow> Inl (ValueError (hd flds))
                            | Some msg_id \<Rightarrow> Inr (Some msg_id, tl flds)))"

text \<open>
  The text a field is rendered as, without its terminator, when the encoder renders it:
  the digits of an integer, the bytes of a string.
\<close>

fun field_text :: "runtime \<Rightarrow> field \<Rightarrow> string" where
  "field_text rt FNone = []"
| "field_text rt (FBool b) = (if b then ''1'' else ''0'')"
| "field_text rt (FInt i) = show_int i"
| "field_text rt (FFloat x) = float_str rt x"
| "field_text rt (FDatetime t) = t"
| "field_text rt (FStr s) = s"
| "field_text rt (FText cps) = map char_of cps"

section \<open>Message catalogue\<close>

text \<open>
  The module \<^verbatim>\<open>protocol/message_ids.py\<close> is not among the sources. The names of its
  members are known from their uses; the numbers they stand for are parameters of the
  model.
\<close>

datatype incoming_id =
    REQ_MKT_DATA | CANCEL_MKT_DATA | PLACE_ORDER | CANCEL_ORDER | REQ_OPEN_ORDERS
  | REQ_ACCT_DATA | REQ_POSITIONS | REQ_POSITIONS_MULTI | REQ_CONTRACT_DATA
  | REQ_SEC_DEF_OPT_PARAMS | REQ_EXECUTIONS | REQ_IDS | REQ_MANAGED_ACCTS
  | REQ_CURRENT_TIME | REQ_HISTORICAL_DATA | START_API

datatype outgoing_id =
    TICK_PRICE | TICK_SIZE | ORDER_STATUS | ERR_MSG | ACCT_VALUE | PORTFOLIO_VALUE
  | ACCT_UPDATE_TIME | NEXT_VALID_ID | CONTRACT_DATA | MANAGED_ACCTS | CURRENT_TIME
  | HISTORICAL_DATA | ACCT_DOWNLOAD_END | CONTRACT_DATA_END | EXECUTION_DATA_END
  | POSITION_DATA | POSITION_END | SECURITY_DEFINITION_OPTION_PARAMETER_END
  | OPEN_ORDER_END

datatype error_code = UNKNOWN_ID | SERVER_ERROR | MAX_RATE_EXCEEDED

record catalogue =
  incoming :: "incoming_id \<Rightarrow> int"
  outgoing :: "outgoing_id \<Rightarrow> int"
  errcode :: "error_code \<Rightarrow> int"

section \<open>Store adapter and configuration\<close>

text \<open>
  The session reads the store through three queries. Their results are the
  dictionaries that \<^verbatim>\<open>DatabaseManager\<close> builds; a value that goes to the encoder as it
  is has type \<open>field\<close>. \<^verbatim>\<open>get_account_summary\<close> returns the empty dictionary (\<open>None\<close>
  here) for an unknown account or on a database error, \<^verbatim>\<open>get_positions\<close> the empty list,
  \<^verbatim>\<open>get_contract_by_symbol\<close> \<^verbatim>\<open>None\<close>.
\<close>

record account_summary =
  net_liquidation :: pyfloat
  cash_balance :: pyfloat
  acct_unrealized_pnl :: pyfloat
  acct_realized_pnl :: pyfloat
  base_currency :: field

record position =
  pos_con_id :: field
  pos_symbol :: field
  pos_security_type :: field
  pos_currency :: field
  pos_position :: field
  pos_avg_cost :: field
  pos_market_price :: field
  pos_market_value :: field
  pos_unrealized_pnl :: field
  pos_realized_pnl :: field

record contract_info =
  ci_con_id :: field
  ci_symbol :: field
  ci_security_type :: field
  ci_exchange :: field
  ci_currency :: field
  ci_local_symbol :: field
  ci_trading_class :: field
  ci_multiplier :: field

record db_manager =
  get_account_summary :: "string \<Rightarrow> account_summary option"
  get_positions :: "string \<Rightarrow> position list"
  get_contract_by_symbol :: "string \<Rightarrow> string \<Rightarrow> contract_info option"

text \<open>
  The configuration entries the session engine and the listener read:
  \<^verbatim>\<open>protocol.version\<close>, \<^verbatim>\<open>protocol.message_rate_limit\<close>, \<^verbatim>\<open>server.max_clients\<close> and the
  \<^verbatim>\<open>account_id\<close> of each entry of \<^verbatim>\<open>authentication.accounts\<close>.
\<close>

record config =
  protocol_version :: int
  message_rate_limit :: int
  max_clients :: int
  accounts :: "string list"

record env =
  rtm :: runtime
  ids :: catalogue
  cfg :: config
  db :: db_manager

text \<open>
  What a handler reads from outside the session while it serves one frame:
  \<^verbatim>\<open>time.time()\<close> in the rate limiter, then at most one reading of the clock in the
  handler (\<^verbatim>\<open>time.time()\<close>, \<^verbatim>\<open>datetime.now().timestamp()\<close> and the text
  \<^verbatim>\<open>datetime.now().strftime('%H:%M:%S')\<close>), and the size of the server's registry.
\<close>

record world =
  time_time :: pyfloat
  now_timestamp :: pyfloat
  now_hms :: string
  n_clients :: nat

section \<open>Message builders\<close>

definition server_version_msg :: "env \<Rightarrow> field \<Rightarrow> field \<Rightarrow> py_error + bytes" where
  "server_version_msg env version connection_time =
     encode_fields (rtm env) [version, connection_time]"

definition next_valid_id :: "env \<Rightarrow> field \<Rightarrow> py_error + bytes" where
  "next_valid_id env order_id =
     make_message (rtm env) (outgoing (ids env) NEXT_VALID_ID) [order_id]"

definition managed_accounts :: "env \<Rightarrow> field \<Rightarrow> py_error + bytes" where
  "managed_accounts env accts =
     make_message (rtm env) (outgoing (ids env) MANAGED_ACCTS) [accts]"

definition error_message :: "env \<Rightarrow> field \<Rightarrow> field \<Rightarrow> field \<Rightarrow> py_error + bytes" where
  "error_message env req_id error_code error_msg =
     make_message (rtm env) (outgoing (ids env) ERR_MSG) [req_id, error_code, error_msg]"

definition tick_price ::
  "env \<Rightarrow> field \<Rightarrow> field \<Rightarrow> field \<Rightarrow> field \<Rightarrow> field \<Rightarrow> py_error + bytes" where
  "tick_price env req_id tick_type price can_auto_execute past_limit =
     make_message (rtm env) (outgoing (ids env) TICK_PRICE)
       ([req_id, tick_type, price] @ [can_auto_execute, past_limit])"

definition tick_size :: "env \<Rightarrow> field \<Rightarrow> field \<Rightarrow> field \<Rightarrow> py_error + bytes" where
  "tick_size env req_id tick_type sz =
     make_message (rtm env) (outgoing (ids env) TICK_SIZE) [req_id, tick_type, sz]"

definition account_value :: "env \<Rightarrow> field \<Rightarrow> field \<Rightarrow> field \<Rightarrow> field \<Rightarrow> py_error + bytes" where
  "account_value env key val currency account =
     make_message (rtm env) (outgoing (ids env) ACCT_VALUE) [key, val, currency, account]"

definition portfolio_value ::
  "env \<Rightarrow> field \<Rightarrow> field \<Rightarrow> field \<Rightarrow> field \<Rightarrow> field \<Rightarrow> field \<Rightarrow> field \<Rightarrow> field \<Rightarrow> field \<Rightarrow>
   field \<Rightarrow> field \<Rightarrow> field \<Rightarrow> field \<Rightarrow> field \<Rightarrow> field \<Rightarrow> field \<Rightarrow> field \<Rightarrow> field \<Rightarrow>
   py_error + bytes" where
  "portfolio_value env con_id symbol sec_type expiry strike right multiplier primary_exch
     currency local_symbol trading_class pos market_price market_value avg_cost
     unrealized_pnl realized_pnl account =
     make_message (rtm env) (outgoing (ids env) PORTFOLIO_VALUE)
       [con_id, symbol, sec_type, expiry, strike, right, multiplier,
        primary_exch, currency, local_symbol, trading_class,
        pos, market_price, market_value, avg_cost,
        unrealized_pnl, realized_pnl, account]"

definition account_update_time :: "env \<Rightarrow> field \<Rightarrow> py_error + bytes" where
  "account_update_time env timestamp =
     make_message (rtm env) (outgoing (ids env) ACCT_UPDATE_TIME) [timestamp]"

definition account_download_end :: "env \<Rightarrow> field \<Rightarrow> py_error + bytes" where
  "account_download_end env account =
     make_message (rtm env) (outgoing (ids env) ACCT_DOWNLOAD_END) [account]"

definition position_data ::
  "env \<Rightarrow> field \<Rightarrow> field \<Rightarrow> field \<Rightarrow> field \<Rightarrow> field \<Rightarrow> field \<Rightarrow> field \<Rightarrow> field \<Rightarrow> field \<Rightarrow>
   field \<Rightarrow> field \<Rightarrow> field \<Rightarrow> field \<Rightarrow> field \<Rightarrow> py_error + bytes" where
  "position_data env account con_id symbol sec_type expiry strike right multiplier exchange
     currency local_symbol trading_class pos avg_cost =
     make_message (rtm env) (outgoing (ids env) POSITION_DATA)
       [account, con_id, symbol, sec_type, expiry, strike, right,
        multiplier, exchange, currency, local_symbol, trading_class,
        pos, avg_cost]"

definition position_end :: "env \<Rightarrow> py_error + bytes" where
  "position_end env = make_message (rtm env) (outgoing (ids env) POSITION_END) []"

definition order_status ::
  "env \<Rightarrow> field \<Rightarrow> field \<Rightarrow> field \<Rightarrow> field \<Rightarrow> field \<Rightarrow> field \<Rightarrow> field \<Rightarrow> field \<Rightarrow> field \<Rightarrow>
   field \<Rightarrow> field \<Rightarrow> py_error + bytes" where
  "order_status env order_id status filled remaining avg_fill_price perm_id parent_id
     last_fill_price client_id why_held mkt_cap_price =
     make_message (rtm env) (outgoing (ids env) ORDER_STATUS)
       [order_id, status, filled, remaining, avg_fill_price,
        perm_id, parent_id, last_fill_price, client_id, why_held,
        mkt_cap_price]"

definition open_order_end :: "env \<Rightarrow> py_error + bytes" where
  "open_order_end env = make_message (rtm env) (outgoing (ids env) OPEN_ORDER_END) []"

definition execution_data_end :: "env \<Rightarrow> field \<Rightarrow> py_error + bytes" where
  "execution_data_end env req_id =
     make_message (rtm env) (outgoing (ids env) EXECUTION_DATA_END) [req_id]"

text \<open>
  \<^verbatim>\<open>contract_data\<close> takes 38 arguments and sends the first 30; the last eight
  (\<^verbatim>\<open>sec_id_list\<close> to \<^verbatim>\<open>stock_type\<close>) are ignored and given here as one list (without
  \<^verbatim>\<open>sec_id_list\<close>, which is itself a list).
\<close>

definition contract_data ::
  "env \<Rightarrow> field \<Rightarrow> field \<Rightarrow> field \<Rightarrow> field \<Rightarrow> field \<Rightarrow> field \<Rightarrow> field \<Rightarrow> field \<Rightarrow> field \<Rightarrow>
   field \<Rightarrow> field \<Rightarrow> field \<Rightarrow> field \<Rightarrow> field \<Rightarrow> field \<Rightarrow> field \<Rightarrow> field \<Rightarrow> field \<Rightarrow> field \<Rightarrow>
   field \<Rightarrow> field \<Rightarrow> field \<Rightarrow> field \<Rightarrow> field \<Rightarrow> field \<Rightarrow> field \<Rightarrow> field \<Rightarrow> field \<Rightarrow> field \<Rightarrow>
   field \<Rightarrow> field list \<Rightarrow> py_error + bytes" where
  "contract_data env req_id symbol sec_type expiry strike right exchange currency local_symbol
     trading_class con_id min_tick md_size_multiplier multiplier order_types
     valid_exchanges price_magnifier under_con_id long_name primary_exchange
     contract_month industry category subcategory time_zone trading_hours liquid_hours
     ev_rule ev_multiplier sec_id_list_count ignored =
     make_message (rtm env) (outgoing (ids env) CONTRACT_DATA)
       ([req_id, symbol, sec_type, expiry, strike, right, exchange,
         currency, local_symbol, trading_class, con_id, min_tick,
         md_size_multiplier, multiplier, order_types, valid_exchanges,
         price_magnifier, under_con_id, long_name, primary_exchange]
        @ [contract_month, industry, category, subcategory, time_zone,
           trading_hours, liquid_hours, ev_rule, ev_multiplier,
           sec_id_list_count])"

definition contract_data_end :: "env \<Rightarrow> field \<Rightarrow> py_error + bytes" where
  "contract_data_end env req_id =
     make_message (rtm env) (outgoing (ids env) CONTRACT_DATA_END) [req_id]"

definition security_definition_option_parameter_end :: "env \<Rightarrow> field \<Rightarrow> py_error + bytes" where
  "security_definition_option_parameter_end env req_id =
     make_message (rtm env) (outgoing (ids env) SECURITY_DEFINITION_OPTION_PARAMETER_END) [req_id]"

record bar =
  bar_date :: field
  bar_open :: field
  bar_high :: field
  bar_low :: field
  bar_close :: field
  bar_volume :: field
  bar_wap :: field
  bar_bar_count :: field

definition historical_data ::
  "env \<Rightarrow> field \<Rightarrow> field \<Rightarrow> field \<Rightarrow> field \<Rightarrow> bar list \<Rightarrow> py_error + bytes" where
  "historical_data env req_id start_date end_date bar_count bars =
     make_message (rtm env) (outgoing (ids env) HISTORICAL_DATA)
       ([req_id, start_date, end_date, bar_count]
        @ concat (map (\<lambda>b. [bar_date b, bar_open b, bar_high b, bar_low b,
                             bar_close b, bar_volume b, bar_wap b, bar_bar_count b]) bars))"

definition current_time :: "env \<Rightarrow> field \<Rightarrow> py_error + bytes" where
  "current_time env t = make_message (rtm env) (outgoing (ids env) CURRENT_TIME) [t]"

section \<open>Message parsers\<close>

definition read_int :: "string list \<Rightarrow> nat \<Rightarrow> int option \<times> nat" where
  "read_int flds index =
     (if index \<ge> length flds then (None, index)
      else ((if flds ! index \<noteq> [] then py_int (flds ! index) else None), index + 1))"

definition read_float :: "runtime \<Rightarrow> string list \<Rightarrow> nat \<Rightarrow> pyfloat option \<times> nat" where
  "read_float rt flds index =
     (if index \<ge> length flds then (None, index)
      else ((if flds ! index \<noteq> [] then float_parse rt (flds ! index) else None), index + 1))"

definition read_str :: "string list \<Rightarrow> nat \<Rightarrow> string \<times> nat" where
  "read_str flds index =
     (if index \<ge> length flds then ([], index) else (flds ! index, index + 1))"

definition read_bool :: "string list \<Rightarrow> nat \<Rightarrow> bool \<times> nat" where
  "read_bool flds index =
     (if index \<ge> length flds then (False, index) else (flds ! index = ''1'', index + 1))"

text \<open>The dictionaries the parsers return, one constructor for each set of keys.\<close>

record contract =
  c_con_id :: "int option"
  c_symbol :: string
  c_sec_type :: string
  c_expiry :: string
  c_strike :: "pyfloat option"
  c_right :: string
  c_multiplier :: "int option"
  c_exchange :: string
  c_primary_exchange :: string
  c_currency :: string
  c_local_symbol :: string
  c_trading_class :: string

record order =
  o_action :: string
  o_total_quantity :: "pyfloat option"
  o_order_type :: string
  o_limit_price :: "pyfloat option"
  o_aux_price :: "pyfloat option"
  o_tif :: string
  o_oca_group :: string
  o_account :: string
  o_open_close :: string
  o_origin :: "int option"
  o_order_ref :: string
  o_transmit :: bool
  o_parent_id :: "int option"

record exec_filter =
  f_client_id :: "int option"
  f_account_code :: string
  f_time :: string
  f_symbol :: string
  f_sec_type :: string
  f_exchange :: string
  f_side :: string

datatype parsed =
    P_empty
  | P_req_mkt_data "int option" contract string bool bool string
  | P_cancel_mkt_data "int option"
  | P_place_order "int option" contract order
  | P_cancel_order "int option"
  | P_req_acct_data bool string
  | P_req_positions_multi "int option" string string
  | P_req_contract_details "int option" contract bool
  | P_req_sec_def_opt_params "int option" string string string "int option"
  | P_req_executions "int option" exec_filter
  | P_req_ids "int option"
  | P_req_historical_data "int option" contract string string string bool string "int option"
  | P_start_api "int option" string

definition parse_req_mkt_data :: "runtime \<Rightarrow> string list \<Rightarrow> parsed" where
  "parse_req_mkt_data rt flds =
  (let index = 0;
       (req_id, index) = read_int flds index;
       (con_id, index) = read_int flds index;
       (symbol, index) = read_str flds index;
       (sec_type, index) = read_str flds index;
       (expiry, index) = read_str flds index;
       (strike, index) = read_float rt flds index;
       (right, index) = read_str flds index;
       (multiplier, index) = read_int flds index;
       (exchange, index) = read_str flds index;
       (primary_exchange, index) = read_str flds index;
       (currency, index) = read_str flds index;
       (local_symbol, index) = read_str flds index;
       (trading_class, index) = read_str flds index;
       (generic_tick_list, index) = read_str flds index;
       (snapshot, index) = read_bool flds index;
       (regulatory_snapshot, index) = read_bool flds index;
       (mkt_data_options, index) = read_str flds index
   in P_req_mkt_data req_id
        \<lparr>c_con_id = con_id, c_symbol = symbol, c_sec_type = sec_type, c_expiry = expiry,
          c_strike = strike, c_right = right, c_multiplier = multiplier,
          c_exchange = exchange, c_primary_exchange = primary_exchange,
          c_currency = currency, c_local_symbol = local_symbol,
          c_trading_class = trading_class\<rparr>
        generic_tick_list snapshot regulatory_snapshot mkt_data_options)"

definition parse_cancel_mkt_data :: "string list \<Rightarrow> parsed" where
  "parse_cancel_mkt_data flds = (let (req_id, _) = read_int flds 0 in P_cancel_mkt_data req_id)"

definition parse_place_order :: "runtime \<Rightarrow> string list \<Rightarrow> parsed" where
  "parse_place_order rt flds =
  (let index = 0;
       (order_id, index) = read_int flds index;
       (con_id, index) = read_int flds index;
       (symbol, index) = read_str flds index;
       (sec_type, index) = read_str flds index;
       (expiry, index) = read_str flds index;
       (strike, index) = read_float rt flds index;
       (right, index) = read_str flds index;
       (multiplier, index) = read_int flds index;
       (exchange, index) = read_str flds index;
       (primary_exchange, index) = read_str flds index;
       (currency, index) = read_str flds index;
       (local_symbol, index) = read_str flds index;
       (trading_class, index) = read_str flds index;
       (sec_id_type, index) = read_str flds index;
       (sec_id, index) = read_str flds index;
       (action, index) = read_str flds index;
       (total_quantity, index) = read_float rt flds index;
       (order_type, index) = read_str flds index;
       (limit_price, index) = read_float rt flds index;
       (aux_price, index) = read_float rt flds index;
       (tif, index) = read_str flds index;
       (oca_group, index) = read_str flds index;
       (account, index) = read_str flds index;
       (open_close, index) = read_str flds index;
       (origin, index) = read_int flds index;
       (order_ref, index) = read_str flds index;
       (transmit, index) = read_bool flds index;
       (parent_id, index) = read_int flds index
   in P_place_order order_id
        \<lparr>c_con_id = con_id, c_symbol = symbol, c_sec_type = sec_type, c_expiry = expiry,
          c_strike = strike, c_right = right, c_multiplier = multiplier,
          c_exchange = exchange, c_primary_exchange = primary_exchange,
          c_currency = currency, c_local_symbol = local_symbol,
          c_trading_class = trading_class\<rparr>
        \<lparr>o_action = action, o_total_quantity = total_quantity, o_order_type = order_type,
         o_limit_price = limit_price, o_aux_price = aux_price, o_tif = tif,
         o_oca_group = oca_group, o_account = account, o_open_close = open_close,
         o_origin = origin, o_order_ref = order_ref, o_transmit = transmit,
         o_parent_id = parent_id\<rparr>)"

definition parse_cancel_order :: "string list \<Rightarrow> parsed" where
  "parse_cancel_order flds = (let (order_id, _) = read_int flds 0 in P_cancel_order order_id)"

definition parse_req_open_orders :: "string list \<Rightarrow> parsed" where
  "parse_req_open_orders flds = P_empty"

definition parse_req_acct_data :: "string list \<Rightarrow> parsed" where
  "parse_req_acct_data flds =
  (let index = 0;
       (subscribe, index) = read_bool flds index;
       (account_code, index) = read_str flds index
   in P_req_acct_data subscribe account_code)"

definition parse_req_positions :: "string list \<Rightarrow> parsed" where
  "parse_req_positions flds = P_empty"

definition parse_req_positions_multi :: "string list \<Rightarrow> parsed" where
  "parse_req_positions_multi flds =
  (let index = 0;
       (req_id, index) = read_int flds index;
       (account, index) = read_str flds index;
       (model_code, index) = read_str flds index
   in P_req_positions_multi req_id account model_code)"

definition parse_req_contract_details :: "runtime \<Rightarrow> string list \<Rightarrow> parsed" where
  "parse_req_contract_details rt flds =
  (let index = 0;
       (req_id, index) = read_int flds index;
       (con_id, index) = read_int flds index;
       (symbol, index) = read_str flds index;
       (sec_type, index) = read_str flds index;
       (expiry, index) = read_str flds index;
       (strike, index) = read_float rt flds index;
       (right, index) = read_str flds index;
       (multiplier, index) = read_int flds index;
       (exchange, index) = read_str flds index;
       (primary_exchange, index) = read_str flds index;
       (currency, index) = read_str flds index;
       (local_symbol, index) = read_str flds index;
       (trading_class, index) = read_str flds index;
       (include_expired, index) = read_bool flds index
   in P_req_contract_details req_id
        \<lparr>c_con_id = con_id, c_symbol = symbol, c_sec_type = sec_type, c_expiry = expiry,
          c_strike = strike, c_right = right, c_multiplier = multiplier,
          c_exchange = exchange, c_primary_exchange = primary_exchange,
          c_currency = currency, c_local_symbol = local_symbol,
          c_trading_class = trading_class\<rparr>
        include_expired)"

definition parse_req_sec_def_opt_params :: "string list \<Rightarrow> parsed" where
  "parse_req_sec_def_opt_params flds =
  (let index = 0;
       (req_id, index) = read_int flds index;
       (underlying_symbol, index) = read_str flds index;
       (fut_fop_exchange, index) = read_str flds index;
       (underlying_sec_type, index) = read_str flds index;
       (underlying_con_id, index) = read_int flds index
   in P_req_sec_def_opt_params req_id underlying_symbol fut_fop_exchange
        underlying_sec_type underlying_con_id)"

definition parse_req_executions :: "string list \<Rightarrow> parsed" where
  "parse_req_executions flds =
  (let index = 0;
       (req_id, index) = read_int flds index;
       (client, index) = read_int flds index;
       (account_code, index) = read_str flds index;
       (time, index) = read_str flds index;
       (symbol, index) = read_str flds index;
       (sec_type, index) = read_str flds index;
       (exchange, index) = read_str flds index;
       (side, index) = read_str flds index
   in P_req_executions req_id
        \<lparr>f_client_id = client, f_account_code = account_code, f_time = time,
         f_symbol = symbol, f_sec_type = sec_type, f_exchange = exchange, f_side = side\<rparr>)"

definition parse_req_ids :: "string list \<Rightarrow> parsed" where
  "parse_req_ids flds =
  (let num_ids = Some 1;
       num_ids = (if flds \<noteq> [] then fst (read_int flds 0) else num_ids)
   in P_req_ids num_ids)"

definition parse_req_managed_accts :: "string list \<Rightarrow> parsed" where
  "parse_req_managed_accts flds = P_empty"

definition parse_req_current_time :: "string list \<Rightarrow> parsed" where
  "parse_req_current_time flds = P_empty"

definition parse_req_historical_data :: "runtime \<Rightarrow> string list \<Rightarrow> parsed" where
  "parse_req_historical_data rt flds =
  (let index = 0;
       (req_id, index) = read_int flds index;
       (con_id, index) = read_int flds index;
       (symbol, index) = read_str flds index;
       (sec_type, index) = read_str flds index;
       (expiry, index) = read_str flds index;
       (strike, index) = read_float rt flds index;
       (right, index) = read_str flds index;
       (multiplier, index) = read_int flds index;
       (exchange, index) = read_str flds index;
       (primary_exchange, index) = read_str flds index;
       (currency, index) = read_str flds index;
       (local_symbol, index) = read_str flds index;
       (trading_class, index) = read_str flds index;
       (include_expired, index) = read_bool flds index;
       (end_date_time, index) = read_str flds index;
       (bar_size_setting, index) = read_str flds index;
       (duration_str, index) = read_str flds index;
       (use_rth, index) = read_bool flds index;
       (what_to_show, index) = read_str flds index;
       (format_date, index) = read_int flds index
   in P_req_historical_data req_id
        \<lparr>c_con_id = con_id, c_symbol = symbol, c_sec_type = sec_type, c_expiry = expiry,
          c_strike = strike, c_right = right, c_multiplier = multiplier,
          c_exchange = exchange, c_primary_exchange = primary_exchange,
          c_currency = currency, c_local_symbol = local_symbol,
          c_trading_class = trading_class\<rparr>
        end_date_time bar_size_setting duration_str use_rth what_to_show format_date)"

definition parse_start_api :: "string list \<Rightarrow> parsed" where
  "parse_start_api flds =
  (let index = 0;
       (client, index) = read_int flds index;
       (optional_capabilities, index) = read_str flds index
   in P_start_api client optional_capabilities)"

text \<open>
  A dictionary literal keeps, of two entries with the same key, the later one;
  \<^verbatim>\<open>d.get(k)\<close> is \<open>dict_get\<close> on the entries in the order they are written.
\<close>

definition dict_get :: "('k \<times> 'v) list \<Rightarrow> 'k \<Rightarrow> 'v option" where
  "dict_get entries k = map_of (rev entries) k"

definition parsers :: "env \<Rightarrow> (int \<times> (string list \<Rightarrow> parsed)) list" where
  "parsers env =
     [(incoming (ids env) REQ_MKT_DATA, parse_req_mkt_data (rtm env)),
      (incoming (ids env) CANCEL_MKT_DATA, parse_cancel_mkt_data),
      (incoming (ids env) PLACE_ORDER, parse_place_order (rtm env)),
      (incoming (ids env) CANCEL_ORDER, parse_cancel_order),
      (incoming (ids env) REQ_OPEN_ORDERS, parse_req_open_orders),
      (incoming (ids env) REQ_ACCT_DATA, parse_req_acct_data),
      (incoming (ids env) REQ_POSITIONS, parse_req_positions),
      (incoming (ids env) REQ_POSITIONS_MULTI, parse_req_positions_multi),
      (incoming (ids env) REQ_CONTRACT_DATA, parse_req_contract_details (rtm env)),
      (incoming (ids env) REQ_SEC_DEF_OPT_PARAMS, parse_req_sec_def_opt_params),
      (incoming (ids env) REQ_EXECUTIONS, parse_req_executions),
      (incoming (ids env) REQ_IDS, parse_req_ids),
      (incoming (ids env) REQ_MANAGED_ACCTS, parse_req_managed_accts),
      (incoming (ids env) REQ_CURRENT_TIME, parse_req_current_time),
      (incoming (ids env) REQ_HISTORICAL_DATA, parse_req_historical_data (rtm env)),
      (incoming (ids env) START_API, parse_start_api)]"

text \<open>No parser raises, so the \<^verbatim>\<open>except\<close> branch of \<^verbatim>\<open>parse_message\<close> is never taken.\<close>

definition parse_message :: "env \<Rightarrow> int \<Rightarrow> string list \<Rightarrow> parsed" where
  "parse_message env msg_id flds =
     (case dict_get (parsers env) msg_id of
        Some parser \<Rightarrow> parser flds
      | None \<Rightarrow> P_empty)"

section \<open>Session engine\<close>

text \<open>
  The log lines of the session are not modelled. They format the client id, the kind of
  a frame and values that a parser has read; the client id is the listener's counter or
  an integer that \<^verbatim>\<open>int\<close> has read, as the others are, so that no log line raises.
\<close>

subsection \<open>Session state\<close>

record subscription =
  sub_contract :: "contract option"
  sub_generic_ticks :: string
  sub_snapshot :: bool
  sub_regulatory_snapshot :: bool

text \<open>
  The attributes of a \<^verbatim>\<open>ClientHandler\<close>. \<open>connection_time\<close> holds the text
  \<^verbatim>\<open>connection_time.strftime('%Y%m%d %H:%M:%S')\<close>, the only use made of that attribute.
  \<open>market_data_subscriptions\<close> is the dictionary as the list of its items in insertion
  order. \<open>written\<close> is the stream writer: the byte strings passed to \<^verbatim>\<open>writer.write\<close>, in
  order; writes succeed (a failing socket is outside the model).
\<close>

record session =
  client_id :: int
  api_connected :: bool
  server_version :: int
  client_version :: "int option"
  connection_time :: string
  authenticated :: bool
  account_id :: "string option"
  username :: "string option"
  market_data_subscriptions :: "(int option \<times> subscription) list"
  account_subscriptions :: "string set"
  position_subscriptions :: "string set"
  next_order_id :: "int option"
  last_message_time :: pyfloat
  message_count :: int
  rate_limit_window :: pyfloat
  written :: "bytes list"

definition new_session :: "env \<Rightarrow> int \<Rightarrow> pyfloat \<Rightarrow> string \<Rightarrow> session" where
  "new_session env cid now ctime =
     \<lparr>client_id = cid, api_connected = False,
      server_version = protocol_version (cfg env), client_version = None,
      connection_time = ctime, authenticated = False, account_id = None, username = None,
      market_data_subscriptions = [], account_subscriptions = {},
      position_subscriptions = {}, next_order_id = None,
      last_message_time = now, message_count = 0, rate_limit_window = 1,
      written = []\<rparr>"

text \<open>\<^verbatim>\<open>d[k] = v\<close>, \<^verbatim>\<open>del d[k]\<close> and \<^verbatim>\<open>k in d\<close> on the list of items.\<close>

fun dict_set :: "'k \<Rightarrow> 'v \<Rightarrow> ('k \<times> 'v) list \<Rightarrow> ('k \<times> 'v) list" where
  "dict_set k v [] = [(k, v)]"
| "dict_set k v ((k', v') # rest) =
     (if k' = k then (k, v) # rest else (k', v') # dict_set k v rest)"

definition dict_del :: "'k \<Rightarrow> ('k \<times> 'v) list \<Rightarrow> ('k \<times> 'v) list" where
  "dict_del k entries = filter (\<lambda>(k', v). k' \<noteq> k) entries"

definition dict_contains :: "'k \<Rightarrow> ('k \<times> 'v) list \<Rightarrow> bool" where
  "dict_contains k entries \<longleftrightarrow> k \<in> set (map fst entries)"

text \<open>
  What a coroutine of the handler leaves behind: the session as it is when the
  coroutine returns, or as it is when an exception leaves it (\<open>Some e\<close>).
\<close>

type_synonym outcome = "py_error option \<times> session"

fun run_steps :: "(session \<Rightarrow> outcome) list \<Rightarrow> session \<Rightarrow> outcome" where
  "run_steps [] s = (None, s)"
| "run_steps (step # rest) s =
     (case step s of
        (None, s') \<Rightarrow> run_steps rest s'
      | (Some e, s') \<Rightarrow> (Some e, s'))"

definition send_raw :: "bytes \<Rightarrow> session \<Rightarrow> outcome" where
  "send_raw data s = (None, s\<lparr>written := written s @ [data]\<rparr>)"

text \<open>\<^verbatim>\<open>await self._send_raw(self.encoder.f(...))\<close>: the builder may raise before anything is sent.\<close>

definition send :: "py_error + bytes \<Rightarrow> session \<Rightarrow> outcome" where
  "send built s = (case built of Inl e \<Rightarrow> (Some e, s) | Inr data \<Rightarrow> send_raw data s)"

definition send_error :: "env \<Rightarrow> field \<Rightarrow> field \<Rightarrow> field \<Rightarrow> session \<Rightarrow> outcome" where
  "send_error env req_id error_code error_msg s =
     send (error_message env req_id error_code error_msg) s"

definition opt_int :: "int option \<Rightarrow> field" where
  "opt_int v = (case v of None \<Rightarrow> FNone | Some i \<Rightarrow> FInt i)"

subsection \<open>Handshake\<close>

fun split_bytes :: "char \<Rightarrow> bytes \<Rightarrow> bytes \<Rightarrow> bytes list" where
  "split_bytes sep cur [] = [cur]"
| "split_bytes sep cur (b # bs) =
     (if b = sep then cur # split_bytes sep [] bs else split_bytes sep (cur @ [b]) bs)"

definition bytes_split :: "char \<Rightarrow> bytes \<Rightarrow> bytes list" where
  "bytes_split sep data = split_bytes sep [] data"

fun has_dotdot :: "string \<Rightarrow> bool" where
  "has_dotdot (c # d # rest) = ((c = CHR ''.'' \<and> d = CHR ''.'') \<or> has_dotdot (d # rest))"
| "has_dotdot _ = False"

fun split_dotdot :: "string \<Rightarrow> string \<Rightarrow> string list" where
  "split_dotdot cur (c # d # rest) =
     (if c = CHR ''.'' \<and> d = CHR ''.'' then cur # split_dotdot [] rest
      else split_dotdot (cur @ [c]) (d # rest))"
| "split_dotdot cur [c] = [cur @ [c]]"
| "split_dotdot cur [] = [cur]"

text \<open>
  The body of the inner \<^verbatim>\<open>try\<close> of the handshake; \<open>None\<close> when it raises (the unpacking
  of a split that has not two parts, or \<^verbatim>\<open>int\<close>).
\<close>

definition parse_client_version :: "string \<Rightarrow> int option" where
  "parse_client_version token =
     (let version_str = (if token \<noteq> [] \<and> hd token = CHR ''v'' then tl token else token)
      in if has_dotdot version_str
         then (case split_dotdot [] version_str of
                 [min_ver, max_ver] \<Rightarrow> py_int max_ver
               | _ \<Rightarrow> None)
         else py_int version_str)"

definition handle_initial_handshake :: "env \<Rightarrow> bytes \<Rightarrow> session \<Rightarrow> outcome" where
  "handle_initial_handshake env data s =
     (if data = [] then (None, s)
      else
        let s1 = (if take 4 data = ''API'' @ [NUL]
                  then (let parts = bytes_split NUL data
                        in if length parts \<ge> 2
                           then s\<lparr>client_version :=
                                    Some (case parse_client_version (parts ! 1) of
                                            Some v \<Rightarrow> v
                                          | None \<Rightarrow> 100)\<rparr>
                           else s)
                  else s)
        in case send (server_version_msg env (FInt (server_version s1))
                        (FStr (connection_time s1))) s1 of
             (None, s2) \<Rightarrow> (None, s2\<lparr>api_connected := True\<rparr>)
           | (Some e, s2) \<Rightarrow> (Some e, s2))"

subsection \<open>Helpers of the handlers\<close>

definition int_of_float :: "pyfloat \<Rightarrow> int" where
  "int_of_float x = (if x \<ge> 0 then \<lfloor>x\<rfloor> else \<lceil>x\<rceil>)"

definition float_mod :: "pyfloat \<Rightarrow> pyfloat \<Rightarrow> pyfloat" where
  "float_mod x m = x - m * of_int \<lfloor>x / m\<rfloor>"

definition get_next_order_id :: "world \<Rightarrow> int" where
  "get_next_order_id w =
     1000 + int (n_clients w) * 1000 + int_of_float (float_mod (now_timestamp w) 1000)"

fun py_join :: "string \<Rightarrow> string list \<Rightarrow> string" where
  "py_join sep [] = []"
| "py_join sep [x] = x"
| "py_join sep (x # y # rest) = x @ sep @ py_join sep (y # rest)"

text \<open>\<^verbatim>\<open>self.config['authentication']['accounts'][0]['account_id']\<close>\<close>

definition first_account :: "env \<Rightarrow> py_error + string" where
  "first_account env = (case accounts (cfg env) of [] \<Rightarrow> Inl IndexError | a # _ \<Rightarrow> Inr a)"

definition send_next_valid_id :: "env \<Rightarrow> world \<Rightarrow> session \<Rightarrow> outcome" where
  "send_next_valid_id env w s =
     (let s1 = s\<lparr>next_order_id := Some (get_next_order_id w)\<rparr>
      in send (next_valid_id env (opt_int (next_order_id s1))) s1)"

definition send_managed_accounts :: "env \<Rightarrow> session \<Rightarrow> outcome" where
  "send_managed_accounts env s =
     (let accounts_str = py_join '','' (accounts (cfg env))
      in send (managed_accounts env (FStr accounts_str)) s)"

definition send_account_download_end :: "env \<Rightarrow> string \<Rightarrow> session \<Rightarrow> outcome" where
  "send_account_download_end env acct s = send (account_download_end env (FStr acct)) s"

definition send_portfolio_position :: "env \<Rightarrow> string \<Rightarrow> position \<Rightarrow> session \<Rightarrow> outcome" where
  "send_portfolio_position env acct p s =
     send (portfolio_value env
             (pos_con_id p) (pos_symbol p) (pos_security_type p)
             (FStr []) (FInt 0) (FStr []) (FInt 1) (FStr [])
             (pos_currency p) (pos_symbol p) (pos_symbol p)
             (pos_position p) (pos_market_price p) (pos_market_value p) (pos_avg_cost p)
             (pos_unrealized_pnl p) (pos_realized_pnl p)
             (FStr acct)) s"

definition send_account_updates :: "env \<Rightarrow> world \<Rightarrow> string \<Rightarrow> session \<Rightarrow> outcome" where
  "send_account_updates env w acct s =
     run_steps
       ((case get_account_summary (db env) acct of
           None \<Rightarrow> []
         | Some account_data \<Rightarrow>
             (let currency = base_currency account_data
              in [send (account_value env (FStr ''NetLiquidation'')
                          (FStr (float_str (rtm env) (net_liquidation account_data)))
                          currency (FStr acct)),
                  send (account_value env (FStr ''TotalCashValue'')
                          (FStr (float_str (rtm env) (cash_balance account_data)))
                          currency (FStr acct)),
                  send (account_value env (FStr ''UnrealizedPnL'')
                          (FStr (float_str (rtm env) (acct_unrealized_pnl account_data)))
                          currency (FStr acct)),
                  send (account_value env (FStr ''RealizedPnL'')
                          (FStr (float_str (rtm env) (acct_realized_pnl account_data)))
                          currency (FStr acct)),
                  send (account_update_time env (FStr (now_hms w)))]))
        @ map (send_portfolio_position env acct) (get_positions (db env) acct)
        @ [send_account_download_end env acct]) s"

definition send_position_data :: "env \<Rightarrow> string \<Rightarrow> position \<Rightarrow> session \<Rightarrow> outcome" where
  "send_position_data env acct p s =
     send (position_data env (FStr acct)
             (pos_con_id p) (pos_symbol p) (pos_security_type p)
             (FStr []) (FInt 0) (FStr []) (FInt 1) (FStr ''SMART'')
             (pos_currency p) (pos_symbol p) (pos_symbol p)
             (pos_position p) (pos_avg_cost p)) s"

definition send_initial_market_data ::
  "env \<Rightarrow> int option \<Rightarrow> contract option \<Rightarrow> session \<Rightarrow> outcome" where
  "send_initial_market_data env req_id contract s =
     (let base_price = (100 :: pyfloat)
      in run_steps
           [send (tick_price env (opt_int req_id) (FInt 1) (FFloat (base_price - 1 / 100))
                    (FBool True) (FBool False)),
            send (tick_price env (opt_int req_id) (FInt 2) (FFloat (base_price + 1 / 100))
                    (FBool True) (FBool False)),
            send (tick_price env (opt_int req_id) (FInt 4) (FFloat base_price)
                    (FBool True) (FBool False)),
            send (tick_size env (opt_int req_id) (FInt 0) (FInt 100)),
            send (tick_size env (opt_int req_id) (FInt 3) (FInt 100)),
            send (tick_size env (opt_int req_id) (FInt 5) (FInt 50)),
            send (tick_size env (opt_int req_id) (FInt 8) (FInt 1000000))] s)"

definition send_contract_details :: "env \<Rightarrow> int option \<Rightarrow> contract_info \<Rightarrow> session \<Rightarrow> outcome" where
  "send_contract_details env req_id ci s =
     send (contract_data env (opt_int req_id)
             (ci_symbol ci) (ci_security_type ci) (FStr []) (FInt 0) (FStr [])
             (ci_exchange ci) (ci_currency ci) (ci_local_symbol ci) (ci_trading_class ci)
             (ci_con_id ci) (FFloat (1 / 100)) (FInt 1) (ci_multiplier ci)
             (FStr ''MKT,LMT,STP,STP_LMT'') (FStr ''SMART,NYSE,NASDAQ'')
             (FInt 1) (FInt 0) (ci_symbol ci) (FStr ''SMART'')
             (FStr []) (FStr []) (FStr []) (FStr []) (FStr ''EST'')
             (FStr ''09:30-16:00'') (FStr ''09:30-16:00'') (FStr []) (FInt 0) (FInt 0)
             [FInt 0, FStr [], FStr [], FStr [], FStr [], FStr [], FStr []]) s"

text \<open>\<^verbatim>\<open>order_id + 1000\<close> raises \<^verbatim>\<open>TypeError\<close> when the order id is \<^verbatim>\<open>None\<close>.\<close>

definition send_order_status ::
  "env \<Rightarrow> int option \<Rightarrow> string \<Rightarrow> field \<Rightarrow> field \<Rightarrow> field \<Rightarrow> session \<Rightarrow> outcome" where
  "send_order_status env order_id status filled remaining avg_fill_price s =
     (case order_id of
        None \<Rightarrow> (Some TypeError, s)
      | Some oid \<Rightarrow>
          send (order_status env (FInt oid) (FStr status) filled remaining avg_fill_price
                  (FInt (oid + 1000)) (FInt 0) avg_fill_price (FInt (client_id s))
                  (FStr []) (FInt 0)) s)"

subsection \<open>Reading the parsed dictionary\<close>

text \<open>\<^verbatim>\<open>data.get(key, default)\<close> for the keys the handlers read.\<close>

fun get_client_id :: "parsed \<Rightarrow> int option" where
  "get_client_id (P_start_api client caps) = client"
| "get_client_id _ = None"

fun get_account_code :: "parsed \<Rightarrow> string" where
  "get_account_code (P_req_acct_data subscribe account_code) = account_code"
| "get_account_code _ = []"

fun get_subscribe :: "parsed \<Rightarrow> bool" where
  "get_subscribe (P_req_acct_data subscribe account_code) = subscribe"
| "get_subscribe _ = True"

fun get_req_id :: "parsed \<Rightarrow> int option" where
  "get_req_id (P_req_mkt_data req_id c g sn rs opts) = req_id"
| "get_req_id (P_cancel_mkt_data req_id) = req_id"
| "get_req_id (P_req_positions_multi req_id a m) = req_id"
| "get_req_id (P_req_contract_details req_id c ie) = req_id"
| "get_req_id (P_req_sec_def_opt_params req_id u f t c) = req_id"
| "get_req_id (P_req_executions req_id flt) = req_id"
| "get_req_id (P_req_historical_data req_id c e b d u w f) = req_id"
| "get_req_id _ = Some (- 1)"

text \<open>\<open>None\<close> is the default \<^verbatim>\<open>{}\<close>.\<close>

fun get_contract :: "parsed \<Rightarrow> contract option" where
  "get_contract (P_req_mkt_data req_id c g sn rs opts) = Some c"
| "get_contract (P_place_order oid c ord) = Some c"
| "get_contract (P_req_contract_details req_id c ie) = Some c"
| "get_contract (P_req_historical_data req_id c e b d u w f) = Some c"
| "get_contract _ = None"

fun get_generic_tick_list :: "parsed \<Rightarrow> string" where
  "get_generic_tick_list (P_req_mkt_data req_id c g sn rs opts) = g"
| "get_generic_tick_list _ = []"

fun get_snapshot :: "parsed \<Rightarrow> bool" where
  "get_snapshot (P_req_mkt_data req_id c g sn rs opts) = sn"
| "get_snapshot _ = False"

fun get_regulatory_snapshot :: "parsed \<Rightarrow> bool" where
  "get_regulatory_snapshot (P_req_mkt_data req_id c g sn rs opts) = rs"
| "get_regulatory_snapshot _ = False"

fun get_order_id :: "parsed \<Rightarrow> int option" where
  "get_order_id (P_place_order oid c ord) = oid"
| "get_order_id (P_cancel_order oid) = oid"
| "get_order_id _ = Some (- 1)"

text \<open>\<^verbatim>\<open>contract.get('symbol')\<close> and \<^verbatim>\<open>contract.get('sec_type', 'STK')\<close>\<close>

definition contract_get_symbol :: "contract option \<Rightarrow> string option" where
  "contract_get_symbol c = map_option c_symbol c"

definition contract_get_sec_type :: "contract option \<Rightarrow> string" where
  "contract_get_sec_type c = (case c of None \<Rightarrow> ''STK'' | Some c' \<Rightarrow> c_sec_type c')"

subsection \<open>Message handlers\<close>

definition handle_start_api :: "env \<Rightarrow> world \<Rightarrow> parsed \<Rightarrow> session \<Rightarrow> outcome" where
  "handle_start_api env w data s =
     (let s1 = (case get_client_id data of
                  Some cid \<Rightarrow> s\<lparr>client_id := cid\<rparr>
                | None \<Rightarrow> s)
      in run_steps [send_next_valid_id env w, send_managed_accounts env] s1)"

definition handle_req_ids :: "env \<Rightarrow> world \<Rightarrow> parsed \<Rightarrow> session \<Rightarrow> outcome" where
  "handle_req_ids env w data s = send_next_valid_id env w s"

definition handle_req_managed_accounts :: "env \<Rightarrow> world \<Rightarrow> parsed \<Rightarrow> session \<Rightarrow> outcome" where
  "handle_req_managed_accounts env w data s = send_managed_accounts env s"

definition handle_req_account_data :: "env \<Rightarrow> world \<Rightarrow> parsed \<Rightarrow> session \<Rightarrow> outcome" where
  "handle_req_account_data env w data s =
     (let account_code = get_account_code data;
          subscribe = get_subscribe data
      in case (if account_code = [] then first_account env else Inr account_code) of
           Inl e \<Rightarrow> (Some e, s)
         | Inr account_code \<Rightarrow>
             if subscribe
             then send_account_updates env w account_code
                    (s\<lparr>account_subscriptions := insert account_code (account_subscriptions s)\<rparr>)
             else send_account_download_end env account_code
                    (s\<lparr>account_subscriptions := account_subscriptions s - {account_code}\<rparr>))"

definition handle_req_positions :: "env \<Rightarrow> world \<Rightarrow> parsed \<Rightarrow> session \<Rightarrow> outcome" where
  "handle_req_positions env w data s =
     (case first_account env of
        Inl e \<Rightarrow> (Some e, s)
      | Inr acct \<Rightarrow>
          run_steps (map (send_position_data env acct) (get_positions (db env) acct)
                     @ [send (position_end env)]) s)"

definition handle_req_market_data :: "env \<Rightarrow> world \<Rightarrow> parsed \<Rightarrow> session \<Rightarrow> outcome" where
  "handle_req_market_data env w data s =
     (let req_id = get_req_id data;
          contract = get_contract data;
          s1 = s\<lparr>market_data_subscriptions :=
                   dict_set req_id
                     \<lparr>sub_contract = contract,
                      sub_generic_ticks = get_generic_tick_list data,
                      sub_snapshot = get_snapshot data,
                      sub_regulatory_snapshot = get_regulatory_snapshot data\<rparr>
                     (market_data_subscriptions s)\<rparr>
      in send_initial_market_data env req_id contract s1)"

definition handle_cancel_market_data :: "env \<Rightarrow> world \<Rightarrow> parsed \<Rightarrow> session \<Rightarrow> outcome" where
  "handle_cancel_market_data env w data s =
     (let req_id = get_req_id data
      in if dict_contains req_id (market_data_subscriptions s)
         then (None, s\<lparr>market_data_subscriptions :=
                         dict_del req_id (market_data_subscriptions s)\<rparr>)
         else (None, s))"

text \<open>
  \<^verbatim>\<open>_handle_place_order\<close> builds a dictionary it does not use; building it raises
  \<^verbatim>\<open>IndexError\<close> without a configured account and \<^verbatim>\<open>KeyError\<close> when \<^verbatim>\<open>data\<close> has no
  \<^verbatim>\<open>'contract'\<close> or no \<^verbatim>\<open>'order'\<close> entry.
\<close>

definition handle_place_order :: "env \<Rightarrow> world \<Rightarrow> parsed \<Rightarrow> session \<Rightarrow> outcome" where
  "handle_place_order env w data s =
     (case first_account env of
        Inl e \<Rightarrow> (Some e, s)
      | Inr acct \<Rightarrow>
          (case data of
             P_place_order order_id c ord \<Rightarrow>
               run_steps
                 [send_order_status env order_id ''PendingSubmit'' (FInt 0) (FInt 0) (FInt 0),
                  send_order_status env order_id ''Submitted'' (FInt 0) (FInt 0) (FInt 0)] s
           | _ \<Rightarrow>
               (if get_contract data = None then (Some (KeyError ''contract''), s)
                else (Some (KeyError ''order''), s))))"

definition handle_cancel_order :: "env \<Rightarrow> world \<Rightarrow> parsed \<Rightarrow> session \<Rightarrow> outcome" where
  "handle_cancel_order env w data s =
     (let order_id = get_order_id data
      in run_steps
           [send_order_status env order_id ''PendingCancel'' (FInt 0) (FInt 0) (FInt 0),
            send_order_status env order_id ''Cancelled'' (FInt 0) (FInt 0) (FInt 0)] s)"

text \<open>The open orders that \<^verbatim>\<open>_handle_req_open_orders\<close> fetches are not sent.\<close>

definition handle_req_open_orders :: "env \<Rightarrow> world \<Rightarrow> parsed \<Rightarrow> session \<Rightarrow> outcome" where
  "handle_req_open_orders env w data s =
     (case first_account env of
        Inl e \<Rightarrow> (Some e, s)
      | Inr acct \<Rightarrow> send (open_order_end env) s)"

definition handle_req_contract_details :: "env \<Rightarrow> world \<Rightarrow> parsed \<Rightarrow> session \<Rightarrow> outcome" where
  "handle_req_contract_details env w data s =
     (let req_id = get_req_id data;
          contract = get_contract data
      in run_steps
           ((case contract_get_symbol contract of
               None \<Rightarrow> []
             | Some symbol \<Rightarrow>
                 (if symbol \<noteq> []
                  then (case get_contract_by_symbol (db env) symbol
                               (contract_get_sec_type contract) of
                          None \<Rightarrow> []
                        | Some contract_info \<Rightarrow> [send_contract_details env req_id contract_info])
                  else []))
            @ [send (contract_data_end env (opt_int req_id))]) s)"

definition handle_req_option_params :: "env \<Rightarrow> world \<Rightarrow> parsed \<Rightarrow> session \<Rightarrow> outcome" where
  "handle_req_option_params env w data s =
     (let req_id = get_req_id data
      in send (security_definition_option_parameter_end env (opt_int req_id)) s)"

definition handle_req_current_time :: "env \<Rightarrow> world \<Rightarrow> parsed \<Rightarrow> session \<Rightarrow> outcome" where
  "handle_req_current_time env w data s =
     (let now = int_of_float (now_timestamp w)
      in send (current_time env (FInt now)) s)"

definition handle_req_executions :: "env \<Rightarrow> world \<Rightarrow> parsed \<Rightarrow> session \<Rightarrow> outcome" where
  "handle_req_executions env w data s =
     (let req_id = get_req_id data
      in send (execution_data_end env (opt_int req_id)) s)"

definition handle_req_historical_data :: "env \<Rightarrow> world \<Rightarrow> parsed \<Rightarrow> session \<Rightarrow> outcome" where
  "handle_req_historical_data env w data s =
     (let req_id = get_req_id data
      in send (historical_data env (opt_int req_id) (FStr []) (FStr []) (FInt 0) []) s)"

subsection \<open>Dispatch, rate limiter and the processing of one frame\<close>

definition handlers ::
  "env \<Rightarrow> (int \<times> (env \<Rightarrow> world \<Rightarrow> parsed \<Rightarrow> session \<Rightarrow> outcome)) list" where
  "handlers env =
     [(incoming (ids env) START_API, handle_start_api),
      (incoming (ids env) REQ_IDS, handle_req_ids),
      (incoming (ids env) REQ_MANAGED_ACCTS, handle_req_managed_accounts),
      (incoming (ids env) REQ_ACCT_DATA, handle_req_account_data),
      (incoming (ids env) REQ_POSITIONS, handle_req_positions),
      (incoming (ids env) REQ_MKT_DATA, handle_req_market_data),
      (incoming (ids env) CANCEL_MKT_DATA, handle_cancel_market_data),
      (incoming (ids env) PLACE_ORDER, handle_place_order),
      (incoming (ids env) CANCEL_ORDER, handle_cancel_order),
      (incoming (ids env) REQ_OPEN_ORDERS, handle_req_open_orders),
      (incoming (ids env) REQ_CONTRACT_DATA, handle_req_contract_details),
      (incoming (ids env) REQ_SEC_DEF_OPT_PARAMS, handle_req_option_params),
      (incoming (ids env) REQ_CURRENT_TIME, handle_req_current_time),
      (incoming (ids env) REQ_EXECUTIONS, handle_req_executions),
      (incoming (ids env) REQ_HISTORICAL_DATA, handle_req_historical_data)]"

definition route_message :: "env \<Rightarrow> world \<Rightarrow> int \<Rightarrow> string list \<Rightarrow> session \<Rightarrow> outcome" where
  "route_message env w msg_id flds s =
     (case dict_get (handlers env) msg_id of
        Some handler \<Rightarrow>
          (let parsed_data = parse_message env msg_id flds
           in handler env w parsed_data s)
      | None \<Rightarrow>
          (case str_int msg_id of
             Inl e \<Rightarrow> (Some e, s)
           | Inr msg_id_text \<Rightarrow>
               send_error env (FInt (- 1)) (FInt (errcode (ids env) UNKNOWN_ID))
                 (FStr (''Unknown message ID: '' @ msg_id_text)) s))"

definition check_rate_limit :: "env \<Rightarrow> world \<Rightarrow> session \<Rightarrow> bool \<times> session" where
  "check_rate_limit env w s =
     (let now = time_time w;
          s1 = (if now - last_message_time s > rate_limit_window s
                then s\<lparr>message_count := 0, last_message_time := now\<rparr>
                else s);
          s2 = s1\<lparr>message_count := message_count s1 + 1\<rparr>;
          max_rate = message_rate_limit (cfg env)
      in (message_count s2 \<le> max_rate, s2))"

text \<open>The part of \<^verbatim>\<open>_process_message\<close> after the rate check: decode, then route.\<close>

definition decode_and_route :: "env \<Rightarrow> world \<Rightarrow> bytes \<Rightarrow> session \<Rightarrow> outcome" where
  "decode_and_route env w data s =
     (case decode_message data of
        Inl e \<Rightarrow> (Some e, s)
      | Inr (None, flds) \<Rightarrow> (None, s)
      | Inr (Some msg_id, flds) \<Rightarrow> route_message env w msg_id flds s)"

text \<open>The \<^verbatim>\<open>except Exception\<close> clause of \<^verbatim>\<open>_process_message\<close>.\<close>

definition on_exception :: "env \<Rightarrow> outcome \<Rightarrow> outcome" where
  "on_exception env r =
     (case r of
        (None, s) \<Rightarrow> (None, s)
      | (Some e, s) \<Rightarrow>
          send_error env (FInt (- 1)) (FInt (errcode (ids env) SERVER_ERROR))
            (FStr (exc_str (rtm env) e)) s)"

definition process_message :: "env \<Rightarrow> world \<Rightarrow> bytes \<Rightarrow> session \<Rightarrow> outcome" where
  "process_message env w data s =
     on_exception env
       (case check_rate_limit env w s of
          (False, s1) \<Rightarrow>
            send_error env (FInt (- 1)) (FInt (errcode (ids env) MAX_RATE_EXCEEDED))
              (FStr ''Max message rate exceeded'') s1
        | (True, s1) \<Rightarrow> decode_and_route env w data s1)"

text \<open>
  The calls of \<^verbatim>\<open>_process_message\<close> that the loop of \<^verbatim>\<open>handle\<close> makes for the complete
  frames it finds, each with what it reads from outside; an exception that leaves
  \<^verbatim>\<open>_process_message\<close> ends the loop, and the session is closed.
\<close>

fun process_all :: "env \<Rightarrow> (world \<times> bytes) list \<Rightarrow> session \<Rightarrow> outcome" where
  "process_all env [] s = (None, s)"
| "process_all env ((w, data) # rest) s =
     (case process_message env w data s of
        (None, s') \<Rightarrow> process_all env rest s'
      | (Some e, s') \<Rightarrow> (Some e, s'))"

subsection \<open>Broadcast sink\<close>

text \<open>The \<^verbatim>\<open>data\<close> dictionary of \<^verbatim>\<open>send_market_data\<close>: the keys it is asked for.\<close>

record ticks =
  t_bid :: "field option"
  t_ask :: "field option"
  t_last :: "field option"
  t_bid_size :: "field option"
  t_ask_size :: "field option"
  t_volume :: "field option"

definition is_subscribed_to_symbol :: "session \<Rightarrow> string \<Rightarrow> bool" where
  "is_subscribed_to_symbol s symbol \<longleftrightarrow>
     list_ex (\<lambda>(req_id, sub). contract_get_symbol (sub_contract sub) = Some symbol)
       (market_data_subscriptions s)"

text \<open>The body of the loop of \<^verbatim>\<open>send_market_data\<close> for one matching subscription.\<close>

definition send_ticks :: "env \<Rightarrow> int option \<Rightarrow> ticks \<Rightarrow> session \<Rightarrow> outcome" where
  "send_ticks env req_id data s =
     run_steps
       ((case t_bid data of None \<Rightarrow> []
         | Some v \<Rightarrow> [send (tick_price env (opt_int req_id) (FInt 1) v (FBool True) (FBool False))])
        @ (case t_ask data of None \<Rightarrow> []
           | Some v \<Rightarrow> [send (tick_price env (opt_int req_id) (FInt 2) v (FBool True) (FBool False))])
        @ (case t_last data of None \<Rightarrow> []
           | Some v \<Rightarrow> [send (tick_price env (opt_int req_id) (FInt 4) v (FBool True) (FBool False))])
        @ (case t_bid_size data of None \<Rightarrow> []
           | Some v \<Rightarrow> [send (tick_size env (opt_int req_id) (FInt 0) v)])
        @ (case t_ask_size data of None \<Rightarrow> []
           | Some v \<Rightarrow> [send (tick_size env (opt_int req_id) (FInt 3) v)])
        @ (case t_volume data of None \<Rightarrow> []
           | Some v \<Rightarrow> [send (tick_size env (opt_int req_id) (FInt 8) v)])) s"

fun send_market_data_loop ::
  "env \<Rightarrow> string \<Rightarrow> ticks \<Rightarrow> (int option \<times> subscription) list \<Rightarrow> session \<Rightarrow> outcome" where
  "send_market_data_loop env symbol data [] s = (None, s)"
| "send_market_data_loop env symbol data ((req_id, sub) # rest) s =
     (if contract_get_symbol (sub_contract sub) = Some symbol
      then (case send_ticks env req_id data s of
              (None, s') \<Rightarrow> send_market_data_loop env symbol data rest s'
            | (Some e, s') \<Rightarrow> (Some e, s'))
      else send_market_data_loop env symbol data rest s)"

definition send_market_data :: "env \<Rightarrow> string \<Rightarrow> ticks \<Rightarrow> session \<Rightarrow> outcome" where
  "send_market_data env symbol data s =
     send_market_data_loop env symbol data (market_data_subscriptions s) s"

section \<open>Listener and registry\<close>

text \<open>
  The registry \<^verbatim>\<open>clients\<close> is given by the list of its keys, in insertion order.
  A connection is its stream writer: what \<^verbatim>\<open>handle_client\<close> wrote to it and whether it
  closed it. \<open>accept\<close> is \<^verbatim>\<open>handle_client\<close> up to the call of the session's \<^verbatim>\<open>handle\<close>,
  which no other coroutine interleaves (there is no \<^verbatim>\<open>await\<close> before the registration);
  \<open>finish\<close> is its \<^verbatim>\<open>finally\<close> clause.
\<close>

record server =
  clients :: "int list"
  next_client_id :: int

record connection =
  conn_written :: "bytes list"
  conn_closed :: bool

definition new_server :: server where
  "new_server = \<lparr>clients = [], next_client_id = 1\<rparr>"

definition new_connection :: connection where
  "new_connection = \<lparr>conn_written = [], conn_closed = False\<rparr>"

definition accept :: "env \<Rightarrow> connection \<Rightarrow> server \<Rightarrow> int option \<times> connection \<times> server" where
  "accept env writer srv =
     (let cid = next_client_id srv;
          srv1 = srv\<lparr>next_client_id := next_client_id srv + 1\<rparr>
      in if int (length (clients srv1)) \<ge> max_clients (cfg env)
         then (None, writer\<lparr>conn_closed := True\<rparr>, srv1)
         else (Some cid, writer,
               srv1\<lparr>clients := (if cid \<in> set (clients srv1) then clients srv1
                                  else clients srv1 @ [cid])\<rparr>))"

definition finish :: "int \<Rightarrow> server \<Rightarrow> server" where
  "finish cid srv =
     (if cid \<in> set (clients srv) then srv\<lparr>clients := removeAll cid (clients srv)\<rparr> else srv)"

text \<open>A run of the listener: connections arrive and sessions end, in any order.\<close>

datatype event = Accept | Finish int

fun run :: "env \<Rightarrow> event list \<Rightarrow> server \<Rightarrow> server" where
  "run env [] srv = srv"
| "run env (Accept # evs) srv = run env evs (snd (snd (accept env new_connection srv)))"
| "run env (Finish cid # evs) srv = run env evs (finish cid srv)"

text \<open>The client ids given to the connections that were registered, in order of arrival.\<close>

fun registered_ids :: "env \<Rightarrow> event list \<Rightarrow> server \<Rightarrow> int list" where
  "registered_ids env [] srv = []"
| "registered_ids env (Accept # evs) srv =
     (case accept env new_connection srv of
        (None, writer, srv') \<Rightarrow> registered_ids env evs srv'
      | (Some cid, writer, srv') \<Rightarrow> cid # registered_ids env evs srv')"
| "registered_ids env (Finish cid # evs) srv = registered_ids env evs (finish cid srv)"


section \<open>An instance of the parameters\<close>

text \<open>
  One choice of the parameters, on which the definitions are evaluated: a runtime that
  renders the three prices of the initial burst, the vendor's numbering of the message
  kinds, three error codes, one configured account and a store with that account and
  one position.
\<close>

definition demo_runtime :: runtime where
  "demo_runtime =
     \<lparr>float_str = (\<lambda>x. if x = 9999 / 100 then ''99.99'' else if x = 10001 / 100 then ''100.01''
                        else if x = 100 then ''100.0'' else ''0.0''),
      float_parse = (\<lambda>s. None),
      exc_str = (\<lambda>e. ''error'')\<rparr>"

fun demo_incoming :: "incoming_id \<Rightarrow> int" where
  "demo_incoming REQ_MKT_DATA = 1"
| "demo_incoming CANCEL_MKT_DATA = 2"
| "demo_incoming PLACE_ORDER = 3"
| "demo_incoming CANCEL_ORDER = 4"
| "demo_incoming REQ_OPEN_ORDERS = 5"
| "demo_incoming REQ_ACCT_DATA = 6"
| "demo_incoming REQ_EXECUTIONS = 7"
| "demo_incoming REQ_IDS = 8"
| "demo_incoming REQ_CONTRACT_DATA = 9"
| "demo_incoming REQ_MANAGED_ACCTS = 17"
| "demo_incoming REQ_HISTORICAL_DATA = 20"
| "demo_incoming REQ_CURRENT_TIME = 49"
| "demo_incoming REQ_POSITIONS = 61"
| "demo_incoming START_API = 71"
| "demo_incoming REQ_POSITIONS_MULTI = 74"
| "demo_incoming REQ_SEC_DEF_OPT_PARAMS = 78"

fun demo_outgoing :: "outgoing_id \<Rightarrow> int" where
  "demo_outgoing TICK_PRICE = 1"
| "demo_outgoing TICK_SIZE = 2"
| "demo_outgoing ORDER_STATUS = 3"
| "demo_outgoing ERR_MSG = 4"
| "demo_outgoing ACCT_VALUE = 6"
| "demo_outgoing PORTFOLIO_VALUE = 7"
| "demo_outgoing ACCT_UPDATE_TIME = 8"
| "demo_outgoing NEXT_VALID_ID = 9"
| "demo_outgoing CONTRACT_DATA = 10"
| "demo_outgoing MANAGED_ACCTS = 15"
| "demo_outgoing HISTORICAL_DATA = 17"
| "demo_outgoing CURRENT_TIME = 49"
| "demo_outgoing CONTRACT_DATA_END = 52"
| "demo_outgoing OPEN_ORDER_END = 53"
| "demo_outgoing ACCT_DOWNLOAD_END = 54"
| "demo_outgoing EXECUTION_DATA_END = 55"
| "demo_outgoing POSITION_DATA = 61"
| "demo_outgoing POSITION_END = 62"
| "demo_outgoing SECURITY_DEFINITION_OPTION_PARAMETER_END = 76"

fun demo_errcode :: "error_code \<Rightarrow> int" where
  "demo_errcode MAX_RATE_EXCEEDED = 100"
| "demo_errcode SERVER_ERROR = 320"
| "demo_errcode UNKNOWN_ID = 505"

definition demo_position :: position where
  "demo_position =
     \<lparr>pos_con_id = FInt 4815747, pos_symbol = FStr ''NVDA'', pos_security_type = FStr ''STK'',
      pos_currency = FStr ''USD'', pos_position = FFloat 100, pos_avg_cost = FFloat 100,
      pos_market_price = FFloat 100, pos_market_value = FFloat 100,
      pos_unrealized_pnl = FInt 0, pos_realized_pnl = FInt 0\<rparr>"

definition demo_db :: db_manager where
  "demo_db =
     \<lparr>get_account_summary =
        (\<lambda>a. if a = ''DU000001''
              then Some \<lparr>net_liquidation = 100, cash_balance = 100, acct_unrealized_pnl = 100,
                         acct_realized_pnl = 100, base_currency = FStr ''USD''\<rparr>
              else None),
      get_positions = (\<lambda>a. if a = ''DU000001'' then [demo_position] else []),
      get_contract_by_symbol = (\<lambda>symbol sec_type. None)\<rparr>"

definition demo_env :: env where
  "demo_env =
     \<lparr>rtm = demo_runtime,
      ids = \<lparr>incoming = demo_incoming, outgoing = demo_outgoing, errcode = demo_errcode\<rparr>,
      cfg = \<lparr>protocol_version = 176, message_rate_limit = 2, max_clients = 2,
             accounts = [''DU000001'']\<rparr>,
      db = demo_db\<rparr>"

definition demo_world :: world where
  "demo_world = \<lparr>time_time = 0, now_timestamp = 0, now_hms = ''12:00:00'', n_clients = 1\<rparr>"

definition demo_session :: session where
  "demo_session = new_session demo_env 1 0 ''20240102 12:00:00''"

definition demo_contract :: contract where
  "demo_contract =
     \<lparr>c_con_id = Some 0, c_symbol = ''NVDA'', c_sec_type = ''STK'', c_expiry = [],
      c_strike = None, c_right = [], c_multiplier = None, c_exchange = [],
      c_primary_exchange = [], c_currency = [], c_local_symbol = [], c_trading_class = []\<rparr>"

definition demo_subscription :: subscription where
  "demo_subscription =
     \<lparr>sub_contract = Some demo_contract, sub_generic_ticks = [], sub_snapshot = False,
      sub_regulatory_snapshot = False\<rparr>"

definition demo_ticks :: ticks where
  "demo_ticks =
     \<lparr>t_bid = Some (FFloat (9999 / 100)), t_ask = None, t_last = None, t_bid_size = None,
      t_ask_size = None, t_volume = None\<rparr>"

section \<open>Notions used to state the properties\<close>

text \<open>
  A frame as the specification words it: the body is every field's text followed by one
  NUL, and it is prefixed with its length as four bytes, most significant first.
\<close>

definition frame_body :: "runtime \<Rightarrow> field list \<Rightarrow> bytes" where
  "frame_body rt flds = concat (map (\<lambda>f. field_text rt f @ [NUL]) flds)"

text \<open>
  The fields that the encoder renders: an integer of at most 4300 digits, a string
  whose code points are all below 256, and every field that is neither an integer nor a
  string.
\<close>

fun encodable :: "field \<Rightarrow> bool" where
  "encodable (FInt i) = (int_digits i \<le> int_max_str_digits)"
| "encodable (FText cps) = list_all (\<lambda>c. c < 256) cps"
| "encodable _ = True"

definition be32 :: "nat \<Rightarrow> bytes" where
  "be32 n = [char_of (n div 16777216), char_of (n div 65536 mod 256),
             char_of (n div 256 mod 256), char_of (n mod 256)]"

text \<open>
  A run of frames that are all counted and routed, none being refused: each is given
  by what is read from outside while it is served, its kind and its fields. This is
  what the text calls dispatching the frames.
\<close>

fun route_all :: "env \<Rightarrow> (world \<times> int \<times> string list) list \<Rightarrow> session \<Rightarrow> outcome" where
  "route_all env [] s = (None, s)"
| "route_all env ((w, msg_id, flds) # rest) s =
     (case on_exception env
             (route_message env w msg_id flds (s\<lparr>message_count := message_count s + 1\<rparr>)) of
        (None, s') \<Rightarrow> route_all env rest s'
      | (Some e, s') \<Rightarrow> (Some e, s'))"

text \<open>The state of the rate limiter.\<close>

definition rate_state :: "session \<Rightarrow> int \<times> pyfloat \<times> pyfloat" where
  "rate_state s = (message_count s, last_message_time s, rate_limit_window s)"



text \<open>A frame is a tick for the request id \<open>k\<close>: a \<^verbatim>\<open>TICK_PRICE\<close> or \<^verbatim>\<open>TICK_SIZE\<close> frame whose
  first field after the kind is \<open>k\<close>.\<close>

definition tick_frame_for :: "env \<Rightarrow> int option \<Rightarrow> bytes \<Rightarrow> bool" where
  "tick_frame_for env k b \<longleftrightarrow>
     (\<exists>tick_type v.
        Inr b = encode_fields (rtm env)
                  [FInt (outgoing (ids env) TICK_PRICE), opt_int k, tick_type, v,
                   FBool True, FBool False]
      \<or> Inr b = encode_fields (rtm env)
                  [FInt (outgoing (ids env) TICK_SIZE), opt_int k, tick_type, v])"

section \<open>Integers and their text\<close>

lemma digit_char_not_NUL: "d < 10 \<Longrightarrow> digit_char d \<noteq> NUL"
proof
  assume d: "d < 10" and "digit_char d = NUL"
  then have "(of_char (digit_char d) :: nat) = of_char NUL" by simp
  then show False using d by (simp add: digit_char_def NUL_def)
qed

lemma show_nat_digits: "c \<in> set (show_nat n) \<Longrightarrow> \<exists>d < 10. c = digit_char d"
proof (induction n rule: show_nat.induct)
  case (1 n)
  show ?case
  proof (cases "n < 10")
    case True
    with "1.prems" show ?thesis by (auto simp: show_nat.simps [of n])
  next
    case False
    with "1.prems" have "c \<in> set (show_nat (n div 10)) \<or> c = digit_char (n mod 10)"
      by (auto simp: show_nat.simps [of n])
    then show ?thesis
    proof
      assume "c \<in> set (show_nat (n div 10))"
      with False "1.IH" show ?thesis by blast
    next
      assume "c = digit_char (n mod 10)"
      moreover have "n mod 10 < 10" by simp
      ultimately show ?thesis by blast
    qed
  qed
qed

lemma show_int_no_NUL: "NUL \<notin> set (show_int i)"
proof
  assume a: "NUL \<in> set (show_int i)"
  have "NUL \<noteq> CHR ''-''" by (simp add: NUL_def)
  with a have "NUL \<in> set (show_nat (nat (- i))) \<or> NUL \<in> set (show_nat (nat i))"
    by (auto simp: show_int_def split: if_splits)
  then obtain d where "d < 10" "NUL = digit_char d" using show_nat_digits by blast
  then show False using digit_char_not_NUL by metis
qed

lemma py_isdigit_digit_char: "d < 10 \<Longrightarrow> py_isdigit (digit_char d)"
  by (simp add: py_isdigit_def digit_char_def)

lemma digit_val_digit_char: "d < 10 \<Longrightarrow> digit_val (digit_char d) = d"
  by (simp add: digit_val_def digit_char_def)

lemma not_space_digit: "py_isdigit c \<Longrightarrow> \<not> py_isspace c"
  by (auto simp: py_isspace_def py_isdigit_def Let_def)

lemma digit_not_sign: "py_isdigit c \<Longrightarrow> c \<noteq> CHR ''-'' \<and> c \<noteq> CHR ''+'' \<and> c \<noteq> CHR ''_''"
  by (auto simp: py_isdigit_def)

lemma show_nat_all_digits: "c \<in> set (show_nat n) \<Longrightarrow> py_isdigit c"
  using show_nat_digits [of c n] py_isdigit_digit_char by blast

lemma show_nat_nonempty: "show_nat n \<noteq> []"
  by (subst show_nat.simps) simp

lemma digits_ok_all_digits: "s \<noteq> [] \<Longrightarrow> \<forall>c \<in> set s. py_isdigit c \<Longrightarrow> digits_ok s"
proof (induction s rule: digits_ok.induct)
  case 1
  then show ?case by simp
next
  case (2 c)
  then show ?case by simp
next
  case (3 c d cs)
  from "3.prems"(2) have c: "py_isdigit c" and d: "py_isdigit d" by simp_all
  from d have nd: "d \<noteq> CHR ''_''" using digit_not_sign by blast
  have "digits_ok (d # cs)" using "3.IH"(2) [OF c nd] "3.prems"(2) by simp
  then show ?case using c nd by simp
qed

lemma digits_value_snoc:
  "\<forall>c \<in> set s. py_isdigit c \<Longrightarrow> py_isdigit c \<Longrightarrow>
   digits_value (s @ [c]) = 10 * digits_value s + digit_val c"
  by (simp add: digits_value_def)

lemma digits_value_show_nat: "digits_value (show_nat n) = n"
proof (induction n rule: show_nat.induct)
  case (1 n)
  show ?case
  proof (cases "n < 10")
    case True
    then show ?thesis
      by (simp add: show_nat.simps [of n] digits_value_def py_isdigit_digit_char
            digit_val_digit_char)
  next
    case False
    have m: "n mod 10 < 10" by simp
    have "digits_value (show_nat n)
            = digits_value (show_nat (n div 10) @ [digit_char (n mod 10)])"
      using False by (simp add: show_nat.simps [of n])
    also have "\<dots> = 10 * digits_value (show_nat (n div 10)) + digit_val (digit_char (n mod 10))"
      using show_nat_all_digits py_isdigit_digit_char [OF m] by (intro digits_value_snoc) auto
    also have "\<dots> = 10 * (n div 10) + n mod 10"
      using "1.IH" [OF False] digit_val_digit_char [OF m] by simp
    finally show ?thesis by simp
  qed
qed

lemma dropWhile_id: "s \<noteq> [] \<Longrightarrow> \<not> P (hd s) \<Longrightarrow> dropWhile P s = s"
  by (cases s) auto

lemma py_strip_id:
  assumes "s \<noteq> []" and "\<not> py_isspace (hd s)" and "\<not> py_isspace (last s)"
  shows "py_strip s = s"
proof -
  have a: "dropWhile py_isspace s = s" using assms(1,2) by (rule dropWhile_id)
  have "rev s \<noteq> []" using assms(1) by simp
  moreover have "\<not> py_isspace (hd (rev s))" using assms(1,3) by (simp add: hd_rev)
  ultimately have "dropWhile py_isspace (rev s) = rev s" by (rule dropWhile_id)
  then show ?thesis by (simp add: py_strip_def a)
qed

lemma length_show_nat_le: "n < 10 ^ k \<Longrightarrow> 0 < k \<Longrightarrow> length (show_nat n) \<le> k"
proof (induction n arbitrary: k rule: show_nat.induct)
  case (1 n)
  show ?case
  proof (cases "n < 10")
    case True
    with "1.prems" show ?thesis by (simp add: show_nat.simps [of n])
  next
    case False
    from "1.prems" obtain j where k: "k = Suc j" by (cases k) auto
    have j: "0 < j"
    proof (rule ccontr)
      assume "\<not> 0 < j"
      with k "1.prems"(1) have "n < 10" by simp
      with False show False by simp
    qed
    from "1.prems"(1) k have "n div 10 < 10 ^ j" by (simp add: less_mult_imp_div_less)
    from "1.IH" [OF False this j] have "length (show_nat (n div 10)) \<le> j" .
    with False k show ?thesis by (simp add: show_nat.simps [of n])
  qed
qed

lemma length_show_nat_gt: "10 ^ k \<le> n \<Longrightarrow> k < length (show_nat n)"
proof (induction n arbitrary: k rule: show_nat.induct)
  case (1 n)
  show ?case
  proof (cases "n < 10")
    case True
    have "k = 0"
    proof (rule ccontr)
      assume "k \<noteq> 0"
      then obtain j where "k = Suc j" by (cases k) auto
      then have "(10::nat) \<le> 10 ^ k" by simp
      with "1.prems" True show False by simp
    qed
    with True show ?thesis by (simp add: show_nat.simps [of n])
  next
    case False
    show ?thesis
    proof (cases k)
      case 0
      with False show ?thesis by (simp add: show_nat.simps [of n])
    next
      case (Suc j)
      with "1.prems" have "10 ^ j * 10 \<le> n" by simp
      then have "10 ^ j \<le> n div 10" by (simp add: less_eq_div_iff_mult_less_eq)
      from "1.IH" [OF False this] have "j < length (show_nat (n div 10))" .
      with False Suc show ?thesis by (simp add: show_nat.simps [of n])
    qed
  qed
qed

lemma int_digits_small [simp]: "\<bar>i\<bar> < 10000000000 \<Longrightarrow> int_digits i \<le> int_max_str_digits"
proof -
  assume "\<bar>i\<bar> < 10000000000"
  then have "nat \<bar>i\<bar> < 10 ^ 10" by simp
  then have "length (show_nat (nat \<bar>i\<bar>)) \<le> 10" by (rule length_show_nat_le) simp
  then show ?thesis by (simp add: int_digits_def int_max_str_digits_def)
qed

lemma str_int_ok: "int_digits i \<le> int_max_str_digits \<Longrightarrow> str_int i = Inr (show_int i)"
  by (simp add: str_int_def)

lemma str_int_Inr: "str_int i = Inr t \<Longrightarrow> int_digits i \<le> int_max_str_digits \<and> t = show_int i"
  by (simp add: str_int_def split: if_splits)

lemma digits_fold_bound:
  "\<forall>c \<in> set ds. py_isdigit c \<Longrightarrow>
   foldl (\<lambda>acc c. 10 * acc + digit_val c) a ds < 10 ^ length ds * (a + 1)"
proof (induction ds arbitrary: a)
  case Nil
  then show ?case by simp
next
  case (Cons d ds)
  from Cons.prems have "py_isdigit d" by simp
  then have v: "digit_val d \<le> 9" by (auto simp: py_isdigit_def digit_val_def Let_def)
  from Cons.prems have "\<forall>c \<in> set ds. py_isdigit c" by simp
  from Cons.IH [OF this, of "10 * a + digit_val d"]
  have "foldl (\<lambda>acc c. 10 * acc + digit_val c) (10 * a + digit_val d) ds
          < 10 ^ length ds * (10 * a + digit_val d + 1)" .
  also have "\<dots> \<le> 10 ^ length ds * (10 * (a + 1))"
    using v by (intro mult_le_mono2) simp
  also have "\<dots> = 10 ^ length (d # ds) * (a + 1)" by (simp add: algebra_simps)
  finally show ?case by simp
qed

lemma digits_value_bound: "digits_value u < 10 ^ length (filter py_isdigit u)"
  using digits_fold_bound [of "filter py_isdigit u" 0] by (simp add: digits_value_def)

lemma digits_ok_has_digit: "digits_ok u \<Longrightarrow> filter py_isdigit u \<noteq> []"
  by (induction u rule: digits_ok.induct) (auto split: if_splits)

lemma digits_value_digits:
  assumes "digits_ok u"
  shows "length (show_nat (digits_value u)) \<le> length (filter py_isdigit u)"
proof (rule length_show_nat_le)
  show "digits_value u < 10 ^ length (filter py_isdigit u)" by (rule digits_value_bound)
  show "0 < length (filter py_isdigit u)" using digits_ok_has_digit [OF assms] by simp
qed

lemma py_int_digits:
  assumes "py_int s = Some k"
  shows "int_digits k \<le> int_max_str_digits"
proof -
  let ?t = "py_strip s"
  let ?u = "if ?t \<noteq> [] \<and> (hd ?t = CHR ''-'' \<or> hd ?t = CHR ''+'') then tl ?t else ?t"
  from assms have ok: "digits_ok ?u" and lim: "length (filter py_isdigit ?u) \<le> int_max_str_digits"
    by (auto simp: py_int_def Let_def split: if_splits)
  from assms ok lim have "\<bar>k\<bar> = int (digits_value ?u)"
    by (auto simp: py_int_def Let_def split: if_splits)
  then have "int_digits k = length (show_nat (digits_value ?u))"
    by (simp add: int_digits_def)
  also have "\<dots> \<le> length (filter py_isdigit ?u)" by (rule digits_value_digits [OF ok])
  finally show ?thesis using lim by simp
qed

lemma filter_dropWhile: "(\<And>x. Q x \<Longrightarrow> \<not> P x) \<Longrightarrow> filter P (dropWhile Q s) = filter P s"
  by (induction s) auto

lemma digits_py_strip: "filter py_isdigit (py_strip s) = filter py_isdigit s"
proof -
  have sp: "\<And>x. py_isspace x \<Longrightarrow> \<not> py_isdigit x" using not_space_digit by blast
  have "filter py_isdigit (py_strip s)
          = rev (filter py_isdigit (dropWhile py_isspace (rev (dropWhile py_isspace s))))"
    by (simp add: py_strip_def rev_filter)
  also have "\<dots> = rev (filter py_isdigit (rev (dropWhile py_isspace s)))"
    by (simp only: filter_dropWhile [of py_isspace py_isdigit, OF sp])
  also have "\<dots> = filter py_isdigit (dropWhile py_isspace s)"
    by (simp add: rev_filter [symmetric])
  also have "\<dots> = filter py_isdigit s"
    by (simp only: filter_dropWhile [of py_isspace py_isdigit, OF sp])
  finally show ?thesis .
qed

lemma py_int_too_long:
  assumes "int_max_str_digits < length (filter py_isdigit s)"
  shows "py_int s = None"
proof -
  let ?t = "py_strip s"
  let ?u = "if ?t \<noteq> [] \<and> (hd ?t = CHR ''-'' \<or> hd ?t = CHR ''+'') then tl ?t else ?t"
  have "filter py_isdigit ?u = filter py_isdigit ?t"
    by (cases ?t) (auto simp: py_isdigit_def)
  then have "filter py_isdigit ?u = filter py_isdigit s" by (simp only: digits_py_strip)
  with assms have "\<not> length (filter py_isdigit ?u) \<le> int_max_str_digits" by simp
  then show ?thesis by (simp add: py_int_def Let_def)
qed

lemma read_int_too_long:
  assumes "index < length flds"
      and "int_max_str_digits < length (filter py_isdigit (flds ! index))"
  shows "read_int flds index = (None, index + 1)"
  using assms py_int_too_long [OF assms(2)] by (simp add: read_int_def)

lemma filter_all: "\<forall>c \<in> set s. P c \<Longrightarrow> filter P s = s"
  by (induction s) auto

lemma py_int_show_nat:
  assumes "length (show_nat n) \<le> int_max_str_digits"
  shows "py_int (show_nat n) = Some (int n)"
proof -
  let ?s = "show_nat n"
  have ne: "?s \<noteq> []" by (rule show_nat_nonempty)
  have hd: "py_isdigit (hd ?s)" using ne show_nat_all_digits [of "hd ?s" n] by simp
  have la: "py_isdigit (last ?s)" using ne show_nat_all_digits [of "last ?s" n] by simp
  have strip: "py_strip ?s = ?s"
    using ne not_space_digit [OF hd] not_space_digit [OF la] by (rule py_strip_id)
  have ok: "digits_ok ?s" using ne show_nat_all_digits by (intro digits_ok_all_digits) auto
  have all: "filter py_isdigit ?s = ?s" using show_nat_all_digits by (intro filter_all) auto
  show ?thesis
    using digit_not_sign [OF hd] ok assms
    by (simp add: py_int_def strip Let_def digits_value_show_nat all)
qed

lemma py_int_show_int:
  assumes "int_digits i \<le> int_max_str_digits"
  shows "py_int (show_int i) = Some i"
proof (cases "i < 0")
  case False
  with assms show ?thesis by (simp add: show_int_def py_int_show_nat int_digits_def)
next
  case True
  let ?s = "show_nat (nat (- i))"
  have ne: "?s \<noteq> []" by (rule show_nat_nonempty)
  have la: "py_isdigit (last ?s)" using ne show_nat_all_digits [of "last ?s" "nat (- i)"] by simp
  have "\<not> py_isspace (hd (CHR ''-'' # ?s))" by (simp add: py_isspace_def)
  moreover have "\<not> py_isspace (last (CHR ''-'' # ?s))" using ne not_space_digit [OF la] by simp
  ultimately have strip: "py_strip (CHR ''-'' # ?s) = CHR ''-'' # ?s"
    by (intro py_strip_id) simp_all
  have ok: "digits_ok ?s" using ne show_nat_all_digits by (intro digits_ok_all_digits) auto
  have all: "filter py_isdigit ?s = ?s" using show_nat_all_digits by (intro filter_all) auto
  from True have "nat \<bar>i\<bar> = nat (- i)" by simp
  with assms have lim: "length ?s \<le> int_max_str_digits" by (simp add: int_digits_def)
  show ?thesis
    using True ok lim
    by (simp add: show_int_def py_int_def strip Let_def digits_value_show_nat all)
qed

lemma show_nat_inj:
  assumes "show_nat a = show_nat b"
  shows "a = b"
proof -
  have "a = digits_value (show_nat a)" by (simp add: digits_value_show_nat)
  also have "\<dots> = digits_value (show_nat b)" by (simp only: assms)
  also have "\<dots> = b" by (rule digits_value_show_nat)
  finally show ?thesis .
qed

lemma show_nat_no_minus: "show_nat n \<noteq> CHR ''-'' # t"
proof
  assume a: "show_nat n = CHR ''-'' # t"
  then have "CHR ''-'' \<in> set (show_nat n)" by simp
  then have "py_isdigit (CHR ''-'')" by (rule show_nat_all_digits)
  then show False by (simp add: py_isdigit_def)
qed

lemma show_int_inj:
  assumes "show_int i = show_int j"
  shows "i = j"
proof (cases "i < 0")
  case True
  show ?thesis
  proof (cases "j < 0")
    case True
    with \<open>i < 0\<close> assms have "show_nat (nat (- i)) = show_nat (nat (- j))"
      by (simp add: show_int_def)
    then have "nat (- i) = nat (- j)" by (rule show_nat_inj)
    with True \<open>i < 0\<close> show ?thesis by simp
  next
    case False
    with \<open>i < 0\<close> assms have "show_nat (nat j) = CHR ''-'' # show_nat (nat (- i))"
      by (simp add: show_int_def)
    then show ?thesis using show_nat_no_minus by blast
  qed
next
  case False
  show ?thesis
  proof (cases "j < 0")
    case True
    with False assms have "show_nat (nat i) = CHR ''-'' # show_nat (nat (- j))"
      by (simp add: show_int_def)
    then show ?thesis using show_nat_no_minus by blast
  next
    case jn: False
    with False assms have "show_nat (nat i) = show_nat (nat j)" by (simp add: show_int_def)
    then have "nat i = nat j" by (rule show_nat_inj)
    with False jn show ?thesis by simp
  qed
qed

lemma show_int_nonempty: "show_int i \<noteq> []"
  by (simp add: show_int_def show_nat_nonempty)

lemma opt_int_text_inj:
  assumes "field_text rt (opt_int k) = field_text rt (opt_int k')"
  shows "k = k'"
proof (cases k)
  case None
  show ?thesis
  proof (cases k')
    case None
    with \<open>k = None\<close> show ?thesis by simp
  next
    case (Some b)
    with \<open>k = None\<close> assms have "[] = show_int b" by (simp add: opt_int_def)
    then show ?thesis using show_int_nonempty [of b] by simp
  qed
next
  case (Some a)
  show ?thesis
  proof (cases k')
    case None
    with \<open>k = Some a\<close> assms have "show_int a = []" by (simp add: opt_int_def)
    then show ?thesis using show_int_nonempty [of a] by simp
  next
    case (Some b)
    with \<open>k = Some a\<close> assms have "show_int a = show_int b" by (simp add: opt_int_def)
    then have "a = b" by (rule show_int_inj)
    then show ?thesis using \<open>k = Some a\<close> Some by simp
  qed
qed

lemma show_int_lits:
  "show_int 0 = ''0''" "show_int 1 = ''1''" "show_int 2 = ''2''" "show_int 3 = ''3''"
  "show_int 4 = ''4''" "show_int 5 = ''5''" "show_int 6 = ''6''" "show_int 7 = ''7''"
  "show_int 8 = ''8''" "show_int 9 = ''9''" "show_int 50 = ''50''" "show_int 54 = ''54''"
  "show_int 100 = ''100''" "show_int 176 = ''176''" "show_int 320 = ''320''"
  "show_int 505 = ''505''" "show_int 2000 = ''2000''" "show_int 9999 = ''9999''"
  "show_int 1000000 = ''1000000''" "show_int 4815747 = ''4815747''"
  by (simp_all add: show_int_def show_nat.simps digit_char_def char_of_def bit_Suc_0_iff)

lemma show_int_minus_1: "show_int (- 1) = ''-1''"
  by (simp add: show_int_def show_nat.simps digit_char_def char_of_def bit_Suc_0_iff)

lemma py_int_lits:
  "py_int ''0'' = Some 0" "py_int ''1'' = Some 1" "py_int ''2'' = Some 2"
  "py_int ''8'' = Some 8" "py_int ''10'' = Some 10" "py_int ''71'' = Some 71"
  "py_int ''100'' = Some 100" "py_int ''176'' = Some 176" "py_int ''9999'' = Some 9999"
  by (simp_all add: py_int_def py_strip_def py_isspace_def py_isdigit_def digits_value_def
        digit_val_def int_max_str_digits_def)
section \<open>Properties of the frame codec\<close>

lemma encode_field_ok: "encodable f \<Longrightarrow> encode_field rt f = Inr (field_text rt f @ [NUL])"
  by (cases f) (simp_all add: str_int_ok latin1_encode_def)

lemma encode_field_Inr:
  "encode_field rt f = Inr b \<Longrightarrow> encodable f \<and> b = field_text rt f @ [NUL]"
  by (cases f) (auto simp: str_int_def latin1_encode_def split: if_splits)

lemma encode_loop_ok:
  "list_all encodable fs \<Longrightarrow> encode_loop rt fs acc = Inr (acc @ frame_body rt fs)"
proof (induction fs arbitrary: acc)
  case Nil
  then show ?case by (simp add: frame_body_def)
next
  case (Cons f fs)
  from Cons.prems have f: "encodable f" and fs: "list_all encodable fs" by simp_all
  from Cons.IH [OF fs, of "acc @ field_text rt f @ [NUL]"] encode_field_ok [OF f, of rt]
  show ?case by (simp add: frame_body_def)
qed

lemma encode_loop_Inr:
  "encode_loop rt fs acc = Inr m \<Longrightarrow> list_all encodable fs \<and> m = acc @ frame_body rt fs"
proof (induction fs arbitrary: acc)
  case Nil
  then show ?case by (simp add: frame_body_def)
next
  case (Cons f fs)
  show ?case
  proof (cases "encode_field rt f")
    case (Inl e)
    with Cons.prems show ?thesis by simp
  next
    case (Inr b)
    from encode_field_Inr [OF Inr] have f: "encodable f" and b: "b = field_text rt f @ [NUL]"
      by simp_all
    from Cons.prems Inr have "encode_loop rt fs (acc @ b) = Inr m" by simp
    from Cons.IH [OF this] f b show ?thesis by (simp add: frame_body_def)
  qed
qed

lemma encode_fields_ok:
  "list_all encodable F \<Longrightarrow>
   encode_fields rt F =
     (if length (frame_body rt F) < 2 ^ 32
      then Inr (be32 (length (frame_body rt F)) @ frame_body rt F)
      else Inl StructError)"
  by (simp add: encode_fields_def encode_loop_ok struct_pack_I_def be32_def)

lemma encode_fields_Inr:
  assumes "encode_fields rt F = Inr fr"
  shows "list_all encodable F \<and> length (frame_body rt F) < 2 ^ 32
         \<and> fr = be32 (length (frame_body rt F)) @ frame_body rt F"
proof (cases "encode_loop rt F []")
  case (Inl e)
  with assms show ?thesis by (simp add: encode_fields_def)
next
  case (Inr m)
  from encode_loop_Inr [OF Inr] have F: "list_all encodable F" by simp
  from assms encode_fields_ok [OF F, of rt] show ?thesis using F by (simp split: if_splits)
qed

lemma encode_fields_not_encodable:
  assumes "\<not> list_all encodable F"
  shows "\<exists>e. encode_fields rt F = Inl e"
proof (cases "encode_fields rt F")
  case (Inl e)
  then show ?thesis by blast
next
  case (Inr fr)
  from encode_fields_Inr [OF Inr] assms show ?thesis by simp
qed

lemma encode_fields_lit:
  "list_all encodable F \<Longrightarrow> frame_body rt F = body \<Longrightarrow> length body = n \<Longrightarrow> n < 2 ^ 32 \<Longrightarrow>
   encode_fields rt F = Inr (be32 n @ body)"
  by (simp add: encode_fields_ok)

lemma length_be32: "length (be32 n) = 4"
  by (simp add: be32_def)

lemma decode_loop_field:
  "NUL \<notin> set t \<Longrightarrow> decode_loop (t @ NUL # rest) acc cur = decode_loop rest (acc @ [cur @ t]) []"
  by (induction t arbitrary: cur) auto

lemma decode_loop_fields:
  "\<forall>t \<in> set ts. NUL \<notin> set t \<Longrightarrow>
   decode_loop (concat (map (\<lambda>t. t @ [NUL]) ts)) acc [] = acc @ ts"
proof (induction ts arbitrary: acc)
  case Nil
  then show ?case by simp
next
  case (Cons t ts)
  then show ?case using decode_loop_field [of t "concat (map (\<lambda>t. t @ [NUL]) ts)" acc "[]"]
    by simp
qed

lemma of_char_char_of_small: "k < 256 \<Longrightarrow> (of_char (char_of (k::nat)) :: nat) = k"
  by simp

lemma unpack_pack:
  assumes "n < 2 ^ 32"
  shows "struct_unpack_I [char_of (n div 16777216), char_of (n div 65536 mod 256),
                char_of (n div 256 mod 256), char_of (n mod 256)] = n"
proof -
  have small: "n div 16777216 < 256" using assms by simp
  have d2: "n div 256 div 256 = n div 65536"
    by (simp add: div_mult2_eq [symmetric])
  have d3: "n div 65536 div 256 = n div 16777216"
    by (simp add: div_mult2_eq [symmetric])
  have e1: "n div 256 * 256 + n mod 256 = n" by simp
  have e2: "n div 65536 * 256 + n div 256 mod 256 = n div 256"
    using div_mult_mod_eq [of "n div 256" 256] by (simp only: d2)
  have e3: "n div 16777216 * 256 + n div 65536 mod 256 = n div 65536"
    using div_mult_mod_eq [of "n div 65536" 256] by (simp only: d3)
  have "struct_unpack_I [char_of (n div 16777216), char_of (n div 65536 mod 256),
                char_of (n div 256 mod 256), char_of (n mod 256)]
        = ((n div 16777216 * 256 + n div 65536 mod 256) * 256 + n div 256 mod 256) * 256 + n mod 256"
    unfolding struct_unpack_I_def using small by (simp add: of_char_char_of_small)
  also have "\<dots> = n" by (simp only: e3 e2 e1)
  finally show ?thesis .
qed

lemma unpack_be32: "n < 2 ^ 32 \<Longrightarrow> struct_unpack_I (be32 n) = n"
  unfolding be32_def by (rule unpack_pack)

lemma decode_fields_body:
  "\<forall>f \<in> set F. NUL \<notin> set (field_text rt f) \<Longrightarrow>
   decode_fields (frame_body rt F) = map (field_text rt) F"
proof -
  assume "\<forall>f \<in> set F. NUL \<notin> set (field_text rt f)"
  then have "\<forall>t \<in> set (map (field_text rt) F). NUL \<notin> set t" by simp
  then have "decode_loop (concat (map (\<lambda>t. t @ [NUL]) (map (field_text rt) F))) [] []
               = [] @ map (field_text rt) F"
    by (rule decode_loop_fields)
  then show ?thesis by (simp add: decode_fields_def frame_body_def comp_def)
qed

lemma char_of_not_NUL: "0 < c \<Longrightarrow> c < 256 \<Longrightarrow> char_of (c::nat) \<noteq> NUL"
proof
  assume c: "0 < c" "c < 256" and "char_of c = NUL"
  then have "(of_char (char_of c) :: nat) = of_char NUL" by simp
  with c show False by (simp add: NUL_def)
qed

lemma field_text_no_NUL:
  assumes "\<forall>s. FStr s \<in> set F \<longrightarrow> NUL \<notin> set s"
      and "\<forall>cps. FText cps \<in> set F \<longrightarrow> list_all (\<lambda>c. 0 < c \<and> c < 256) cps"
      and "\<forall>x. FFloat x \<in> set F \<longrightarrow> NUL \<notin> set (float_str rt x)"
      and "\<forall>t. FDatetime t \<in> set F \<longrightarrow> NUL \<notin> set t"
      and "f \<in> set F"
  shows "NUL \<notin> set (field_text rt f)"
proof (cases f)
  case (FBool b)
  then show ?thesis by (simp add: NUL_def)
next
  case (FInt i)
  then show ?thesis by (simp add: show_int_no_NUL)
next
  case (FText cps)
  with assms(2,5) have "list_all (\<lambda>c. 0 < c \<and> c < 256) cps" by blast
  then have "\<forall>c \<in> set cps. char_of c \<noteq> NUL"
    using char_of_not_NUL by (auto simp: list_all_iff)
  with FText show ?thesis by auto
qed (use assms in auto)

lemma str_int_big: "10 ^ int_max_str_digits \<le> \<bar>i\<bar> \<Longrightarrow> str_int i = Inl ValueError_str"
proof -
  assume "10 ^ int_max_str_digits \<le> \<bar>i\<bar>"
  then have "10 ^ int_max_str_digits \<le> nat \<bar>i\<bar>"
    by (metis nat_int of_nat_numeral of_nat_power nat_mono)
  then have "int_max_str_digits < length (show_nat (nat \<bar>i\<bar>))" by (rule length_show_nat_gt)
  then show ?thesis by (simp add: str_int_def int_digits_def)
qed

lemma decode_message_frame:
  assumes len: "length body < 2 ^ 32"
      and flds: "decode_fields body = k # rest" and k: "py_int k = Some kind"
  shows "decode_message (be32 (length body) @ body) = Inr (Some kind, rest)"
  using flds k unpack_be32 [OF len] by (simp add: decode_message_def length_be32)

text \<open>
  C1, amended. For every field vector \<open>F\<close> whose first element has a text that \<^verbatim>\<open>int\<close>
  accepts, whose integers have at most 4300 digits, whose strings have only code points
  below 256 and contain no NUL (nor do the texts of its floats and datetimes) and whose
  body is shorter than \<open>2 ^ 32\<close> bytes: \<^verbatim>\<open>encode_fields(F)\<close> is a 4-byte big-endian
  length followed by the body, in which every field is its text followed by one NUL,
  and \<^verbatim>\<open>decode_message\<close> of it returns \<^verbatim>\<open>int(F[0])\<close> and the texts of \<^verbatim>\<open>F[1:]\<close>, which are
  \<^verbatim>\<open>F[1:]\<close> itself when these are all strings.
\<close>

theorem C1_frame_round_trip:
  assumes first: "F = f0 # rest"
      and kind: "py_int (field_text rt f0) = Some kind"
      and ints: "\<forall>i. FInt i \<in> set F \<longrightarrow> int_digits i \<le> int_max_str_digits"
      and texts: "\<forall>cps. FText cps \<in> set F \<longrightarrow> list_all (\<lambda>c. 0 < c \<and> c < 256) cps"
      and strs: "\<forall>s. FStr s \<in> set F \<longrightarrow> NUL \<notin> set s"
      and floats: "\<forall>x. FFloat x \<in> set F \<longrightarrow> NUL \<notin> set (float_str rt x)"
      and dates: "\<forall>t. FDatetime t \<in> set F \<longrightarrow> NUL \<notin> set t"
      and len: "length (frame_body rt F) < 2 ^ 32"
  shows "encode_fields rt F = Inr (be32 (length (frame_body rt F)) @ frame_body rt F)
       \<and> frame_body rt F = concat (map (\<lambda>f. field_text rt f @ [NUL]) F)
       \<and> length (be32 (length (frame_body rt F))) = 4
       \<and> struct_unpack_I (be32 (length (frame_body rt F))) = length (frame_body rt F)
       \<and> decode_message (be32 (length (frame_body rt F)) @ frame_body rt F)
           = Inr (Some kind, map (field_text rt) rest)
       \<and> ((\<forall>f \<in> set rest. \<exists>s. f = FStr s) \<longrightarrow> map FStr (map (field_text rt) rest) = rest)"
proof -
  have "encodable f" if "f \<in> set F" for f
  proof (cases f)
    case (FInt i)
    with that ints show ?thesis by simp
  next
    case (FText cps)
    with that texts have "list_all (\<lambda>c. 0 < c \<and> c < 256) cps" by blast
    with FText show ?thesis by (simp add: list_all_iff)
  qed simp_all
  then have "list_all encodable F" by (simp add: list_all_iff)
  then have enc: "encode_fields rt F = Inr (be32 (length (frame_body rt F)) @ frame_body rt F)"
    using len by (simp add: encode_fields_ok)
  have "\<forall>f \<in> set F. NUL \<notin> set (field_text rt f)"
    using field_text_no_NUL [OF strs texts floats dates] by blast
  then have "decode_fields (frame_body rt F) = map (field_text rt) F"
    by (rule decode_fields_body)
  then have dec: "decode_fields (frame_body rt F) = field_text rt f0 # map (field_text rt) rest"
    by (simp add: first)
  have msg: "decode_message (be32 (length (frame_body rt F)) @ frame_body rt F)
               = Inr (Some kind, map (field_text rt) rest)"
    by (rule decode_message_frame [OF len dec kind])
  have strs_back: "(\<forall>f \<in> set rest. \<exists>s. f = FStr s) \<longrightarrow> map FStr (map (field_text rt) rest) = rest"
    by (induction rest) auto
  show ?thesis
    using enc msg strs_back unpack_be32 [OF len] by (simp add: length_be32 frame_body_def)
qed

text \<open>
  C1, witness: the frame of \<^verbatim>\<open>['71', 1, None, 'a']\<close> followed by a string given by
  its code points.
\<close>

theorem C1_frame_round_trip_witness:
  "encode_fields demo_runtime [FStr ''71'', FInt 1, FNone, FStr ''a'', FText [98, 233]]
     = Inr (be32 11 @ ''71'' @ [NUL] @ ''1'' @ [NUL] @ [NUL] @ ''a'' @ [NUL]
              @ [CHR ''b'', CHR 0xE9] @ [NUL])
   \<and> struct_unpack_I (be32 11) = 11
   \<and> decode_message (be32 11 @ ''71'' @ [NUL] @ ''1'' @ [NUL] @ [NUL] @ ''a'' @ [NUL]
                        @ [CHR ''b'', CHR 0xE9] @ [NUL])
       = Inr (Some 71, [''1'', [], ''a'', [CHR ''b'', CHR 0xE9]])"
proof -
  let ?F = "[FStr ''71'', FInt 1, FNone, FStr ''a'', FText [98, 233]]"
  have kind: "py_int (field_text demo_runtime (FStr ''71'')) = Some 71"
    by (simp add: py_int_def py_strip_def py_isspace_def py_isdigit_def digits_value_def
          digit_val_def int_max_str_digits_def)
  have ints: "\<forall>i. FInt i \<in> set ?F \<longrightarrow> int_digits i \<le> int_max_str_digits"
    by simp
  have texts: "\<forall>cps. FText cps \<in> set ?F \<longrightarrow> list_all (\<lambda>c. 0 < c \<and> c < 256) cps"
    by simp
  have strs: "\<forall>s. FStr s \<in> set ?F \<longrightarrow> NUL \<notin> set s"
    by (auto simp: NUL_def)
  have floats: "\<forall>x. FFloat x \<in> set ?F \<longrightarrow> NUL \<notin> set (float_str demo_runtime x)"
    by simp
  have dates: "\<forall>t. FDatetime t \<in> set ?F \<longrightarrow> NUL \<notin> set t"
    by simp
  have one: "show_int 1 = ''1''"
    by (simp add: show_int_def show_nat.simps digit_char_def char_of_def bit_Suc_0_iff)
  have chars: "char_of (98::nat) = CHR ''b''" "char_of (233::nat) = CHR 0xE9"
    by (simp_all add: char_of_def bit_Suc_0_iff)
  have body: "frame_body demo_runtime ?F
                = ''71'' @ [NUL] @ ''1'' @ [NUL] @ [NUL] @ ''a'' @ [NUL]
                    @ [CHR ''b'', CHR 0xE9] @ [NUL]"
    by (simp add: frame_body_def one chars)
  have n: "length (frame_body demo_runtime ?F) = 11"
    by (simp add: body)
  have len: "length (frame_body demo_runtime ?F) < 2 ^ 32"
    by (simp add: n)
  from C1_frame_round_trip [OF refl kind ints texts strs floats dates len, unfolded n]
  show ?thesis
    by (simp add: body one chars)
qed

text \<open>
  C1, counterexample. The claim as stated returns \<^verbatim>\<open>F[1:]\<close> for every field vector. For
  \<^verbatim>\<open>F = ['1', None]\<close> the frame is \<^verbatim>\<open>00 00 00 03 '1' 00 00\<close> and decodes to
  \<^verbatim>\<open>(1, [''])\<close>, and \<^verbatim>\<open>['']\<close> is not \<^verbatim>\<open>[None]\<close>. And some field vectors are not encoded
  at all: \<^verbatim>\<open>struct.pack\<close> raises for a body of \<open>2 ^ 32\<close> bytes or more, \<^verbatim>\<open>encode\<close> for a string
  with the code point U+20AC, \<^verbatim>\<open>str\<close> for an integer with more digits than the limit.
\<close>

theorem C1_frame_round_trip_counterexample:
  "encode_fields demo_runtime [FStr ''1'', FNone]
     = Inr ([CHR 0x00, CHR 0x00, CHR 0x00, CHR 0x03] @ ''1'' @ [NUL, NUL])
   \<and> decode_message ([CHR 0x00, CHR 0x00, CHR 0x00, CHR 0x03] @ ''1'' @ [NUL, NUL])
       = Inr (Some 1, [[]])
   \<and> map FStr [[]] \<noteq> tl [FStr ''1'', FNone]
   \<and> encode_fields demo_runtime [FStr ''1'', FStr (replicate 4294967296 (CHR ''a''))]
       = Inl StructError
   \<and> encode_fields demo_runtime [FStr ''1'', FText [8364]] = Inl UnicodeEncodeError
   \<and> encode_fields demo_runtime [FStr ''1'', FInt (10 ^ int_max_str_digits)]
       = Inl ValueError_str"
proof -
  have a: "encode_fields demo_runtime [FStr ''1'', FNone]
     = Inr ([CHR 0x00, CHR 0x00, CHR 0x00, CHR 0x03] @ ''1'' @ [NUL, NUL])"
    by (simp add: encode_fields_def struct_pack_I_def NUL_def char_of_def bit_Suc_0_iff)
  have k: "py_int ''1'' = Some 1"
    by (simp add: py_int_def py_strip_def py_isspace_def py_isdigit_def digits_value_def
          digit_val_def int_max_str_digits_def)
  have b: "decode_message ([CHR 0x00, CHR 0x00, CHR 0x00, CHR 0x03] @ ''1'' @ [NUL, NUL])
       = Inr (Some 1, [[]])"
    by (simp add: decode_message_def struct_unpack_I_def decode_fields_def NUL_def k)
  have c: "map FStr [[]] \<noteq> tl [FStr ''1'', FNone]" by simp
  have d: "encode_fields demo_runtime [FStr ''1'', FStr (replicate 4294967296 (CHR ''a''))]
       = Inl StructError"
    by (simp add: encode_fields_def struct_pack_I_def)
  have e: "encode_fields demo_runtime [FStr ''1'', FText [8364]] = Inl UnicodeEncodeError"
    by (simp add: encode_fields_def latin1_encode_def)
  have "str_int (10 ^ int_max_str_digits) = Inl ValueError_str"
    by (rule str_int_big) simp
  then have f: "encode_fields demo_runtime [FStr ''1'', FInt (10 ^ int_max_str_digits)]
       = Inl ValueError_str"
    by (simp add: encode_fields_def)
  show ?thesis using a b c d e f by blast
qed


section \<open>Properties of the handshake\<close>






lemma split_bytes_nonempty: "split_bytes sep cur xs \<noteq> []"
  by (induction xs arbitrary: cur) auto









lemma server_version_msg_shape:
  assumes "server_version_msg env (FInt sv) (FStr ct) = Inr reply"
  shows "reply = be32 (length (frame_body (rtm env) [FInt sv, FStr ct]))
                   @ frame_body (rtm env) [FInt sv, FStr ct]"
    and "frame_body (rtm env) [FInt sv, FStr ct] = show_int sv @ [NUL] @ ct @ [NUL]"
    and "NUL \<notin> set ct \<Longrightarrow>
           decode_fields (frame_body (rtm env) [FInt sv, FStr ct]) = [show_int sv, ct]"
proof -
  show "reply = be32 (length (frame_body (rtm env) [FInt sv, FStr ct]))
                   @ frame_body (rtm env) [FInt sv, FStr ct]"
    using assms encode_fields_Inr [of "rtm env" "[FInt sv, FStr ct]" reply]
    by (simp add: server_version_msg_def)
  show "frame_body (rtm env) [FInt sv, FStr ct] = show_int sv @ [NUL] @ ct @ [NUL]"
    by (simp add: frame_body_def)
  assume "NUL \<notin> set ct"
  then have "\<forall>f \<in> set [FInt sv, FStr ct]. NUL \<notin> set (field_text (rtm env) f)"
    by (simp add: show_int_no_NUL)
  then have "decode_fields (frame_body (rtm env) [FInt sv, FStr ct])
               = map (field_text (rtm env)) [FInt sv, FStr ct]"
    by (rule decode_fields_body)
  then show "decode_fields (frame_body (rtm env) [FInt sv, FStr ct]) = [show_int sv, ct]"
    by simp
qed


lemma demo_reply:
  "server_version_msg demo_env (FInt (server_version demo_session))
     (FStr (connection_time demo_session))
   = Inr (be32 22 @ ''176'' @ [NUL] @ ''20240102 12:00:00'' @ [NUL])"
proof -
  have "encode_fields demo_runtime [FInt 176, FStr ''20240102 12:00:00'']
          = Inr (be32 22 @ ''176'' @ [NUL] @ ''20240102 12:00:00'' @ [NUL])"
    by (rule encode_fields_lit) (simp_all add: frame_body_def show_int_lits)
  then show ?thesis
    by (simp add: server_version_msg_def demo_session_def new_session_def demo_env_def)
qed


text \<open>
  C10. A first read that is not empty and does not start with \<^verbatim>\<open>API\0\<close> is not
  refused: the two-field reply is written, the session is marked connected, no exception
  leaves the handshake (so \<^verbatim>\<open>handle\<close> goes on to its loop), and the client version is
  left as it was, which is \<^verbatim>\<open>None\<close> in a new session.
\<close>

theorem C10_handshake_without_prefix:
  assumes nonempty: "data \<noteq> []"
      and noprefix: "take 4 data \<noteq> ''API'' @ [NUL]"
      and reply: "server_version_msg env (FInt (server_version s)) (FStr (connection_time s))
                    = Inr reply"
  shows "handle_initial_handshake env data s
           = (None, s\<lparr>written := written s @ [reply], api_connected := True\<rparr>)
       \<and> client_version (snd (handle_initial_handshake env data s)) = client_version s
       \<and> client_version (new_session env cid now ct) = None
       \<and> reply = be32 (length (frame_body (rtm env)
                                   [FInt (server_version s), FStr (connection_time s)]))
                  @ frame_body (rtm env) [FInt (server_version s), FStr (connection_time s)]
       \<and> frame_body (rtm env) [FInt (server_version s), FStr (connection_time s)]
           = show_int (server_version s) @ [NUL] @ connection_time s @ [NUL]"
proof -
  have h: "handle_initial_handshake env data s
           = (None, s\<lparr>written := written s @ [reply], api_connected := True\<rparr>)"
    unfolding handle_initial_handshake_def using nonempty noprefix reply
    by (simp add: send_def send_raw_def)
  then have "client_version (snd (handle_initial_handshake env data s)) = client_version s"
    by simp
  moreover have "client_version (new_session env cid now ct) = None"
    by (simp add: new_session_def)
  ultimately show ?thesis using h server_version_msg_shape(1,2) [OF reply] by blast
qed

text \<open>
  C10, witness: the first read \<^verbatim>\<open>hello\<close> on a new session.
\<close>

theorem C10_handshake_without_prefix_witness:
  "handle_initial_handshake demo_env ''hello'' demo_session
     = (None, demo_session\<lparr>written := written demo_session
                       @ [be32 22 @ ''176'' @ [NUL] @ ''20240102 12:00:00'' @ [NUL]],
          api_connected := True\<rparr>)
   \<and> client_version (snd (handle_initial_handshake demo_env ''hello'' demo_session)) = None"
proof -
  have a: "''hello'' \<noteq> []" by simp
  have b: "take 4 ''hello'' \<noteq> ''API'' @ [NUL]" by simp
  have c: "client_version demo_session = None"
    by (simp add: demo_session_def new_session_def)
  from C10_handshake_without_prefix [OF a b demo_reply] c show ?thesis by simp
qed

section \<open>Properties of the session engine\<close>

lemma send_Inr: "send (Inr b) s = (None, s\<lparr>written := written s @ [b]\<rparr>)"
  by (simp add: send_def send_raw_def)

lemma send_Inl: "send (Inl e) s = (Some e, s)"
  by (simp add: send_def)

lemma run_steps_sends:
  "map Inr frames = builts \<Longrightarrow>
   run_steps (map send builts) s = (None, s\<lparr>written := written s @ frames\<rparr>)"
proof (induction frames arbitrary: s builts)
  case Nil
  then show ?case by auto
next
  case (Cons b frames)
  from Cons.prems have builts: "builts = Inr b # map Inr frames" by auto
  have "run_steps (map send (map Inr frames)) (s\<lparr>written := written s @ [b]\<rparr>)
          = (None, s\<lparr>written := written s @ [b]\<rparr>
                     \<lparr>written := written (s\<lparr>written := written s @ [b]\<rparr>) @ frames\<rparr>)"
    by (rule Cons.IH) simp
  then show ?case by (simp add: builts send_Inr)
qed

lemma run_steps_append:
  "run_steps (xs @ ys) s =
     (case run_steps xs s of (None, s') \<Rightarrow> run_steps ys s' | (Some e, s') \<Rightarrow> (Some e, s'))"
  by (induction xs arbitrary: s) (auto split: prod.splits option.splits)

lemma dict_get_absent: "k \<notin> fst ` set entries \<Longrightarrow> dict_get entries k = None"
  by (simp add: dict_get_def map_of_eq_None_iff)

lemma make_message_Inr:
  "make_message rt msg_id F = Inr fr \<Longrightarrow>
   fr = be32 (length (frame_body rt (FInt msg_id # F))) @ frame_body rt (FInt msg_id # F)"
  using encode_fields_Inr [of rt "FInt msg_id # F" fr] by (simp add: make_message_def)

lemma decode_message_kind_digits:
  "decode_message data = Inr (Some K, flds) \<Longrightarrow> int_digits K \<le> int_max_str_digits"
  by (auto simp: decode_message_def Let_def split: if_splits option.splits dest: py_int_digits)

text \<open>
  C6. A frame whose kind \<open>K\<close> is not a key of the dispatch table makes the session write
  exactly one frame, \<^verbatim>\<open>ERR_MSG\<close> with request id \<open>-1\<close>, the code \<^verbatim>\<open>UNKNOWN_ID\<close> and the text
  \<^verbatim>\<open>Unknown message ID: K\<close>, whatever its fields; no exception leaves the processing of
  the frame, and the loop goes on with the frames that follow. (\<open>err\<close> is the frame the
  encoder builds; the frame is one that the rate limiter lets through. The kind of a
  frame that \<^verbatim>\<open>decode_message\<close> accepts has at most 4300 digits, so that its text can be
  formatted; \<^verbatim>\<open>_route_message\<close> alone raises on a kind with more digits.)
\<close>

theorem C6_unknown_kind:
  assumes unknown: "K \<notin> fst ` set (handlers env)"
      and err: "error_message env (FInt (- 1)) (FInt (errcode (ids env) UNKNOWN_ID))
                  (FStr (''Unknown message ID: '' @ show_int K)) = Inr err"
  shows "(int_digits K \<le> int_max_str_digits \<longrightarrow>
            route_message env w K flds s = (None, s\<lparr>written := written s @ [err]\<rparr>))
       \<and> (int_max_str_digits < int_digits K \<longrightarrow>
            route_message env w K flds s = (Some ValueError_str, s))
       \<and> err = be32 (length (show_int (outgoing (ids env) ERR_MSG) @ [NUL] @ ''-1'' @ [NUL]
                               @ show_int (errcode (ids env) UNKNOWN_ID) @ [NUL]
                               @ ''Unknown message ID: '' @ show_int K @ [NUL]))
               @ show_int (outgoing (ids env) ERR_MSG) @ [NUL] @ ''-1'' @ [NUL]
               @ show_int (errcode (ids env) UNKNOWN_ID) @ [NUL]
               @ ''Unknown message ID: '' @ show_int K @ [NUL]
       \<and> (check_rate_limit env w s = (True, s1) \<and> decode_message data = Inr (Some K, flds) \<longrightarrow>
            process_message env w data s = (None, s1\<lparr>written := written s1 @ [err]\<rparr>)
          \<and> process_all env ((w, data) # rest) s
              = process_all env rest (s1\<lparr>written := written s1 @ [err]\<rparr>))"
proof -
  have route: "route_message env w K flds s' = (None, s'\<lparr>written := written s' @ [err]\<rparr>)"
    if "int_digits K \<le> int_max_str_digits" for s'
    using err that
    by (simp add: route_message_def dict_get_absent [OF unknown] str_int_ok send_error_def
          send_Inr)
  have raise: "route_message env w K flds s = (Some ValueError_str, s)"
    if "int_max_str_digits < int_digits K"
    using that by (simp add: route_message_def dict_get_absent [OF unknown] str_int_def)
  have shape: "err = be32 (length (show_int (outgoing (ids env) ERR_MSG) @ [NUL] @ ''-1'' @ [NUL]
                               @ show_int (errcode (ids env) UNKNOWN_ID) @ [NUL]
                               @ ''Unknown message ID: '' @ show_int K @ [NUL]))
               @ show_int (outgoing (ids env) ERR_MSG) @ [NUL] @ ''-1'' @ [NUL]
               @ show_int (errcode (ids env) UNKNOWN_ID) @ [NUL]
               @ ''Unknown message ID: '' @ show_int K @ [NUL]"
    using make_message_Inr [OF err [unfolded error_message_def]]
    by (simp add: frame_body_def show_int_minus_1)
  have proc: "process_message env w data s = (None, s1\<lparr>written := written s1 @ [err]\<rparr>)"
    if "check_rate_limit env w s = (True, s1)" and "decode_message data = Inr (Some K, flds)"
    using that route [OF decode_message_kind_digits [OF that(2)]]
    by (simp add: process_message_def decode_and_route_def on_exception_def)
  show ?thesis using route raise shape proc by simp
qed

lemma handlers_lookup:
  assumes "inj (incoming (ids env))"
  shows "dict_get (handlers env) (incoming (ids env) k) =
     (case k of
        START_API \<Rightarrow> Some handle_start_api
      | REQ_IDS \<Rightarrow> Some handle_req_ids
      | REQ_MANAGED_ACCTS \<Rightarrow> Some handle_req_managed_accounts
      | REQ_ACCT_DATA \<Rightarrow> Some handle_req_account_data
      | REQ_POSITIONS \<Rightarrow> Some handle_req_positions
      | REQ_MKT_DATA \<Rightarrow> Some handle_req_market_data
      | CANCEL_MKT_DATA \<Rightarrow> Some handle_cancel_market_data
      | PLACE_ORDER \<Rightarrow> Some handle_place_order
      | CANCEL_ORDER \<Rightarrow> Some handle_cancel_order
      | REQ_OPEN_ORDERS \<Rightarrow> Some handle_req_open_orders
      | REQ_CONTRACT_DATA \<Rightarrow> Some handle_req_contract_details
      | REQ_SEC_DEF_OPT_PARAMS \<Rightarrow> Some handle_req_option_params
      | REQ_CURRENT_TIME \<Rightarrow> Some handle_req_current_time
      | REQ_EXECUTIONS \<Rightarrow> Some handle_req_executions
      | REQ_HISTORICAL_DATA \<Rightarrow> Some handle_req_historical_data
      | REQ_POSITIONS_MULTI \<Rightarrow> None)"
  by (cases k) (simp_all add: dict_get_def handlers_def inj_eq [OF assms])

lemma parsers_lookup:
  assumes "inj (incoming (ids env))"
  shows "parse_message env (incoming (ids env) k) flds =
     (case k of
        REQ_MKT_DATA \<Rightarrow> parse_req_mkt_data (rtm env) flds
      | CANCEL_MKT_DATA \<Rightarrow> parse_cancel_mkt_data flds
      | PLACE_ORDER \<Rightarrow> parse_place_order (rtm env) flds
      | CANCEL_ORDER \<Rightarrow> parse_cancel_order flds
      | REQ_OPEN_ORDERS \<Rightarrow> parse_req_open_orders flds
      | REQ_ACCT_DATA \<Rightarrow> parse_req_acct_data flds
      | REQ_POSITIONS \<Rightarrow> parse_req_positions flds
      | REQ_POSITIONS_MULTI \<Rightarrow> parse_req_positions_multi flds
      | REQ_CONTRACT_DATA \<Rightarrow> parse_req_contract_details (rtm env) flds
      | REQ_SEC_DEF_OPT_PARAMS \<Rightarrow> parse_req_sec_def_opt_params flds
      | REQ_EXECUTIONS \<Rightarrow> parse_req_executions flds
      | REQ_IDS \<Rightarrow> parse_req_ids flds
      | REQ_MANAGED_ACCTS \<Rightarrow> parse_req_managed_accts flds
      | REQ_CURRENT_TIME \<Rightarrow> parse_req_current_time flds
      | REQ_HISTORICAL_DATA \<Rightarrow> parse_req_historical_data (rtm env) flds
      | START_API \<Rightarrow> parse_start_api flds)"
  by (cases k) (simp_all add: parse_message_def dict_get_def parsers_def inj_eq [OF assms])

lemma map_of_dict_set: "map_of (dict_set k v entries) k = Some v"
  by (induction entries) auto

lemma map_of_dict_set_other: "k' \<noteq> k \<Longrightarrow> map_of (dict_set k v entries) k' = map_of entries k'"
  by (induction entries) auto

lemma parse_req_mkt_data_req_id:
  "parse_req_mkt_data rt flds = P_req_mkt_data rid c g sn rs opts \<Longrightarrow> rid = fst (read_int flds 0)"
  by (simp add: parse_req_mkt_data_def Let_def split_beta)

text \<open>
  C5. A \<^verbatim>\<open>REQ_MKT_DATA\<close> request whose fields parse to the request id \<open>rid\<close> and the
  contract \<open>c\<close> stores the descriptor under \<open>rid\<close> and writes seven frames in this
  order: \<^verbatim>\<open>TICK_PRICE\<close> \<open>(rid, 1, 99.99)\<close>, \<open>(rid, 2, 100.01)\<close>, \<open>(rid, 4, 100)\<close>, each with
  the two flags true and false, then \<^verbatim>\<open>TICK_SIZE\<close> \<open>(rid, 0, 100)\<close>, \<open>(rid, 3, 100)\<close>,
  \<open>(rid, 5, 50)\<close>, \<open>(rid, 8, 1000000)\<close>. (\<open>frames\<close> are the frames the encoder builds from
  these field vectors; the message kinds have distinct numbers.)
\<close>

theorem C5_market_data_subscribe:
  assumes distinct: "inj (incoming (ids env))"
      and parsed: "parse_req_mkt_data (rtm env) flds = P_req_mkt_data rid c g sn rs opts"
      and frames: "map Inr frames = map (encode_fields (rtm env))
          [[FInt (outgoing (ids env) TICK_PRICE), opt_int rid, FInt 1, FFloat (9999 / 100),
            FBool True, FBool False],
           [FInt (outgoing (ids env) TICK_PRICE), opt_int rid, FInt 2, FFloat (10001 / 100),
            FBool True, FBool False],
           [FInt (outgoing (ids env) TICK_PRICE), opt_int rid, FInt 4, FFloat 100,
            FBool True, FBool False],
           [FInt (outgoing (ids env) TICK_SIZE), opt_int rid, FInt 0, FInt 100],
           [FInt (outgoing (ids env) TICK_SIZE), opt_int rid, FInt 3, FInt 100],
           [FInt (outgoing (ids env) TICK_SIZE), opt_int rid, FInt 5, FInt 50],
           [FInt (outgoing (ids env) TICK_SIZE), opt_int rid, FInt 8, FInt 1000000]]"
  shows "route_message env w (incoming (ids env) REQ_MKT_DATA) flds s
           = (None, s\<lparr>market_data_subscriptions :=
                          dict_set rid
                            \<lparr>sub_contract = Some c, sub_generic_ticks = g, sub_snapshot = sn,
                             sub_regulatory_snapshot = rs\<rparr>
                            (market_data_subscriptions s),
                        written := written s @ frames\<rparr>)
       \<and> map_of (dict_set rid
                    \<lparr>sub_contract = Some c, sub_generic_ticks = g, sub_snapshot = sn,
                     sub_regulatory_snapshot = rs\<rparr>
                    (market_data_subscriptions s)) rid
           = Some \<lparr>sub_contract = Some c, sub_generic_ticks = g, sub_snapshot = sn,
                   sub_regulatory_snapshot = rs\<rparr>
       \<and> rid = fst (read_int flds 0)
       \<and> length frames = 7"
proof -
  let ?s1 = "s\<lparr>market_data_subscriptions :=
                          dict_set rid
                            \<lparr>sub_contract = Some c, sub_generic_ticks = g, sub_snapshot = sn,
                             sub_regulatory_snapshot = rs\<rparr>
                            (market_data_subscriptions s)\<rparr>"
  have burst: "send_initial_market_data env rid (Some c) ?s1
                 = (None, ?s1\<lparr>written := written ?s1 @ frames\<rparr>)"
  proof -
    have "map Inr frames =
          [tick_price env (opt_int rid) (FInt 1) (FFloat (100 - 1 / 100)) (FBool True) (FBool False),
           tick_price env (opt_int rid) (FInt 2) (FFloat (100 + 1 / 100)) (FBool True) (FBool False),
           tick_price env (opt_int rid) (FInt 4) (FFloat 100) (FBool True) (FBool False),
           tick_size env (opt_int rid) (FInt 0) (FInt 100),
           tick_size env (opt_int rid) (FInt 3) (FInt 100),
           tick_size env (opt_int rid) (FInt 5) (FInt 50),
           tick_size env (opt_int rid) (FInt 8) (FInt 1000000)]"
      using frames by (simp add: tick_price_def tick_size_def make_message_def)
    from run_steps_sends [OF this, of ?s1] show ?thesis
      by (simp add: send_initial_market_data_def del: run_steps.simps)
  qed
  have "route_message env w (incoming (ids env) REQ_MKT_DATA) flds s
          = handle_req_market_data env w (P_req_mkt_data rid c g sn rs opts) s"
    by (simp add: route_message_def handlers_lookup [OF distinct] parsers_lookup [OF distinct]
          parsed)
  also have "\<dots> = (None, ?s1\<lparr>written := written ?s1 @ frames\<rparr>)"
    using burst by (simp add: handle_req_market_data_def)
  finally have route: "route_message env w (incoming (ids env) REQ_MKT_DATA) flds s
          = (None, ?s1\<lparr>written := written ?s1 @ frames\<rparr>)" .
  have len: "length frames = 7"
    using arg_cong [OF frames, of length] by simp
  show ?thesis
    using route map_of_dict_set parse_req_mkt_data_req_id [OF parsed] len by simp
qed

lemma decode_message_lit:
  assumes "length body = n" and "n < 2 ^ 32"
      and "decode_fields body = k # rest" and "py_int k = Some kind"
  shows "decode_message (be32 n @ body) = Inr (Some kind, rest)"
  using decode_message_frame [of body k rest kind] assms by simp

lemma inj_demo_incoming: "inj (incoming (ids demo_env))"
proof (rule injI)
  fix x y
  assume "incoming (ids demo_env) x = incoming (ids demo_env) y"
  then have "demo_incoming x = demo_incoming y" by (simp add: demo_env_def)
  then show "x = y" by (cases x; cases y; simp)
qed

lemma demo_env_sel:
  "rtm demo_env = demo_runtime" "incoming (ids demo_env) = demo_incoming"
  "outgoing (ids demo_env) = demo_outgoing" "errcode (ids demo_env) = demo_errcode"
  "db demo_env = demo_db" "accounts (cfg demo_env) = [''DU000001'']"
  "message_rate_limit (cfg demo_env) = 2" "max_clients (cfg demo_env) = 2"
  "protocol_version (cfg demo_env) = 176"
  by (simp_all add: demo_env_def)

text \<open>
  C6, witness: the frame of kind 9999 on a new session.
\<close>

theorem C6_unknown_kind_witness:
  "route_message demo_env demo_world 9999 [] demo_session
     = (None, demo_session\<lparr>written := written demo_session
          @ [be32 34 @ ''4'' @ [NUL] @ ''-1'' @ [NUL] @ ''505'' @ [NUL]
               @ ''Unknown message ID: 9999'' @ [NUL]]\<rparr>)
   \<and> process_message demo_env demo_world (be32 5 @ ''9999'' @ [NUL]) demo_session
     = (None, demo_session\<lparr>message_count := 1,
          written := written (demo_session\<lparr>message_count := 1\<rparr>)
          @ [be32 34 @ ''4'' @ [NUL] @ ''-1'' @ [NUL] @ ''505'' @ [NUL]
               @ ''Unknown message ID: 9999'' @ [NUL]]\<rparr>)"
proof -
  have unknown: "9999 \<notin> fst ` set (handlers demo_env)"
    by (simp add: handlers_def demo_env_sel)
  have err: "error_message demo_env (FInt (- 1)) (FInt (errcode (ids demo_env) UNKNOWN_ID))
               (FStr (''Unknown message ID: '' @ show_int 9999))
             = Inr (be32 34 @ ''4'' @ [NUL] @ ''-1'' @ [NUL] @ ''505'' @ [NUL]
                      @ ''Unknown message ID: 9999'' @ [NUL])"
    unfolding error_message_def make_message_def
    by (rule encode_fields_lit)
       (simp_all add: frame_body_def demo_env_sel show_int_lits show_int_minus_1)
  have rate: "check_rate_limit demo_env demo_world demo_session
                = (True, demo_session\<lparr>message_count := 1\<rparr>)"
    by (simp add: check_rate_limit_def demo_world_def demo_session_def new_session_def
          demo_env_sel Let_def)
  have k: "py_int ''9999'' = Some 9999" by (rule py_int_lits)
  have dec: "decode_message (be32 5 @ ''9999'' @ [NUL]) = Inr (Some 9999, [])"
    by (rule decode_message_lit [where k = "''9999''"])
       (simp_all add: decode_fields_def k NUL_def)
  from C6_unknown_kind [OF unknown err, of demo_world "[]" demo_session
         "demo_session\<lparr>message_count := 1\<rparr>" "be32 5 @ ''9999'' @ [NUL]" "[]"]
       rate dec
  show ?thesis by simp
qed

lemma demo_float_str:
  "float_str demo_runtime (9999 / 100) = ''99.99''"
  "float_str demo_runtime (10001 / 100) = ''100.01''"
  "float_str demo_runtime 100 = ''100.0''"
  by (simp_all add: demo_runtime_def)

text \<open>
  C5, witness: \<^verbatim>\<open>REQ_MKT_DATA(req_id=100, con_id=0, symbol=NVDA, sec_type=STK)\<close> on a new
  session.
\<close>

theorem C5_market_data_subscribe_witness:
  "route_message demo_env demo_world (incoming (ids demo_env) REQ_MKT_DATA)
     [''100'', ''0'', ''NVDA'', ''STK''] demo_session
   = (None, demo_session\<lparr>market_data_subscriptions :=
        dict_set (Some 100)
          \<lparr>sub_contract =
             Some \<lparr>c_con_id = Some 0, c_symbol = ''NVDA'', c_sec_type = ''STK'', c_expiry = [],
                   c_strike = None, c_right = [], c_multiplier = None, c_exchange = [],
                   c_primary_exchange = [], c_currency = [], c_local_symbol = [],
                   c_trading_class = []\<rparr>,
           sub_generic_ticks = [], sub_snapshot = False, sub_regulatory_snapshot = False\<rparr>
          (market_data_subscriptions demo_session),
        written := written demo_session
          @ [be32 18 @ ''1'' @ [NUL] @ ''100'' @ [NUL] @ ''1'' @ [NUL] @ ''99.99'' @ [NUL]
               @ ''1'' @ [NUL] @ ''0'' @ [NUL],
             be32 19 @ ''1'' @ [NUL] @ ''100'' @ [NUL] @ ''2'' @ [NUL] @ ''100.01'' @ [NUL]
               @ ''1'' @ [NUL] @ ''0'' @ [NUL],
             be32 18 @ ''1'' @ [NUL] @ ''100'' @ [NUL] @ ''4'' @ [NUL] @ ''100.0'' @ [NUL]
               @ ''1'' @ [NUL] @ ''0'' @ [NUL],
             be32 12 @ ''2'' @ [NUL] @ ''100'' @ [NUL] @ ''0'' @ [NUL] @ ''100'' @ [NUL],
             be32 12 @ ''2'' @ [NUL] @ ''100'' @ [NUL] @ ''3'' @ [NUL] @ ''100'' @ [NUL],
             be32 11 @ ''2'' @ [NUL] @ ''100'' @ [NUL] @ ''5'' @ [NUL] @ ''50'' @ [NUL],
             be32 16 @ ''2'' @ [NUL] @ ''100'' @ [NUL] @ ''8'' @ [NUL] @ ''1000000'' @ [NUL]]\<rparr>)"
proof -
  have parsed: "parse_req_mkt_data (rtm demo_env) [''100'', ''0'', ''NVDA'', ''STK'']
      = P_req_mkt_data (Some 100)
          \<lparr>c_con_id = Some 0, c_symbol = ''NVDA'', c_sec_type = ''STK'', c_expiry = [],
           c_strike = None, c_right = [], c_multiplier = None, c_exchange = [],
           c_primary_exchange = [], c_currency = [], c_local_symbol = [],
           c_trading_class = []\<rparr> [] False False []"
    by (simp add: parse_req_mkt_data_def read_int_def read_str_def read_float_def read_bool_def
          py_int_lits)
  have e1: "encode_fields demo_runtime
              [FInt 1, FInt 100, FInt 1, FFloat (9999 / 100), FBool True, FBool False]
            = Inr (be32 18 @ ''1'' @ [NUL] @ ''100'' @ [NUL] @ ''1'' @ [NUL] @ ''99.99'' @ [NUL]
                     @ ''1'' @ [NUL] @ ''0'' @ [NUL])"
    by (rule encode_fields_lit) (simp_all add: frame_body_def show_int_lits demo_float_str)
  have e2: "encode_fields demo_runtime
              [FInt 1, FInt 100, FInt 2, FFloat (10001 / 100), FBool True, FBool False]
            = Inr (be32 19 @ ''1'' @ [NUL] @ ''100'' @ [NUL] @ ''2'' @ [NUL] @ ''100.01'' @ [NUL]
                     @ ''1'' @ [NUL] @ ''0'' @ [NUL])"
    by (rule encode_fields_lit) (simp_all add: frame_body_def show_int_lits demo_float_str)
  have e3: "encode_fields demo_runtime
              [FInt 1, FInt 100, FInt 4, FFloat 100, FBool True, FBool False]
            = Inr (be32 18 @ ''1'' @ [NUL] @ ''100'' @ [NUL] @ ''4'' @ [NUL] @ ''100.0'' @ [NUL]
                     @ ''1'' @ [NUL] @ ''0'' @ [NUL])"
    by (rule encode_fields_lit) (simp_all add: frame_body_def show_int_lits demo_float_str)
  have e4: "encode_fields demo_runtime [FInt 2, FInt 100, FInt 0, FInt 100]
            = Inr (be32 12 @ ''2'' @ [NUL] @ ''100'' @ [NUL] @ ''0'' @ [NUL] @ ''100'' @ [NUL])"
    by (rule encode_fields_lit) (simp_all add: frame_body_def show_int_lits)
  have e5: "encode_fields demo_runtime [FInt 2, FInt 100, FInt 3, FInt 100]
            = Inr (be32 12 @ ''2'' @ [NUL] @ ''100'' @ [NUL] @ ''3'' @ [NUL] @ ''100'' @ [NUL])"
    by (rule encode_fields_lit) (simp_all add: frame_body_def show_int_lits)
  have e6: "encode_fields demo_runtime [FInt 2, FInt 100, FInt 5, FInt 50]
            = Inr (be32 11 @ ''2'' @ [NUL] @ ''100'' @ [NUL] @ ''5'' @ [NUL] @ ''50'' @ [NUL])"
    by (rule encode_fields_lit) (simp_all add: frame_body_def show_int_lits)
  have e7: "encode_fields demo_runtime [FInt 2, FInt 100, FInt 8, FInt 1000000]
            = Inr (be32 16 @ ''2'' @ [NUL] @ ''100'' @ [NUL] @ ''8'' @ [NUL] @ ''1000000'' @ [NUL])"
    by (rule encode_fields_lit) (simp_all add: frame_body_def show_int_lits)
  have frames: "map Inr
         [be32 18 @ ''1'' @ [NUL] @ ''100'' @ [NUL] @ ''1'' @ [NUL] @ ''99.99'' @ [NUL]
               @ ''1'' @ [NUL] @ ''0'' @ [NUL],
             be32 19 @ ''1'' @ [NUL] @ ''100'' @ [NUL] @ ''2'' @ [NUL] @ ''100.01'' @ [NUL]
               @ ''1'' @ [NUL] @ ''0'' @ [NUL],
             be32 18 @ ''1'' @ [NUL] @ ''100'' @ [NUL] @ ''4'' @ [NUL] @ ''100.0'' @ [NUL]
               @ ''1'' @ [NUL] @ ''0'' @ [NUL],
             be32 12 @ ''2'' @ [NUL] @ ''100'' @ [NUL] @ ''0'' @ [NUL] @ ''100'' @ [NUL],
             be32 12 @ ''2'' @ [NUL] @ ''100'' @ [NUL] @ ''3'' @ [NUL] @ ''100'' @ [NUL],
             be32 11 @ ''2'' @ [NUL] @ ''100'' @ [NUL] @ ''5'' @ [NUL] @ ''50'' @ [NUL],
             be32 16 @ ''2'' @ [NUL] @ ''100'' @ [NUL] @ ''8'' @ [NUL] @ ''1000000'' @ [NUL]]
        = map (encode_fields (rtm demo_env))
          [[FInt (outgoing (ids demo_env) TICK_PRICE), opt_int (Some 100), FInt 1,
            FFloat (9999 / 100), FBool True, FBool False],
           [FInt (outgoing (ids demo_env) TICK_PRICE), opt_int (Some 100), FInt 2,
            FFloat (10001 / 100), FBool True, FBool False],
           [FInt (outgoing (ids demo_env) TICK_PRICE), opt_int (Some 100), FInt 4, FFloat 100,
            FBool True, FBool False],
           [FInt (outgoing (ids demo_env) TICK_SIZE), opt_int (Some 100), FInt 0, FInt 100],
           [FInt (outgoing (ids demo_env) TICK_SIZE), opt_int (Some 100), FInt 3, FInt 100],
           [FInt (outgoing (ids demo_env) TICK_SIZE), opt_int (Some 100), FInt 5, FInt 50],
           [FInt (outgoing (ids demo_env) TICK_SIZE), opt_int (Some 100), FInt 8, FInt 1000000]]"
    by (simp add: demo_env_sel opt_int_def e1 e2 e3 e4 e5 e6 e7)
  from C5_market_data_subscribe [OF inj_demo_incoming parsed frames, of demo_world demo_session]
  show ?thesis by blast
qed

lemma send_portfolio_position_eq:
  "send_portfolio_position env acct =
     (\<lambda>p. send (portfolio_value env
             (pos_con_id p) (pos_symbol p) (pos_security_type p)
             (FStr []) (FInt 0) (FStr []) (FInt 1) (FStr [])
             (pos_currency p) (pos_symbol p) (pos_symbol p)
             (pos_position p) (pos_market_price p) (pos_market_value p) (pos_avg_cost p)
             (pos_unrealized_pnl p) (pos_realized_pnl p)
             (FStr acct)))"
  by (intro ext) (simp add: send_portfolio_position_def)

lemma send_account_download_end_eq:
  "send_account_download_end env acct = send (account_download_end env (FStr acct))"
  by (intro ext) (simp add: send_account_download_end_def)

lemma route_req_acct_data:
  assumes "inj (incoming (ids env))"
  shows "route_message env w (incoming (ids env) REQ_ACCT_DATA) flds s
           = handle_req_account_data env w (parse_req_acct_data flds) s"
  by (simp add: route_message_def handlers_lookup [OF assms] parsers_lookup [OF assms])

text \<open>
  C4, amended. A \<^verbatim>\<open>REQ_ACCT_DATA\<close> request names an account: its account code, or the
  first configured account when the code is empty. With subscribe true the session adds
  the account to its account subscriptions and writes, in this order: when the store has
  a summary for the account, four \<^verbatim>\<open>ACCT_VALUE\<close> frames with the keys
  \<^verbatim>\<open>NetLiquidation\<close>, \<^verbatim>\<open>TotalCashValue\<close>, \<^verbatim>\<open>UnrealizedPnL\<close>, \<^verbatim>\<open>RealizedPnL\<close> and then
  \<^verbatim>\<open>ACCT_UPDATE_TIME\<close> (none of the five when the store has no summary); then one
  \<^verbatim>\<open>PORTFOLIO_VALUE\<close> frame for each open position; then one \<^verbatim>\<open>ACCT_DOWNLOAD_END\<close>.
  With subscribe false the account is removed and only \<^verbatim>\<open>ACCT_DOWNLOAD_END\<close> is written.
  (\<open>frames\<close> are the frames the encoder builds from these field vectors.)
\<close>

theorem C4_account_data:
  assumes distinct: "inj (incoming (ids env))"
      and account: "(if code = [] then first_account env else Inr code) = Inr acct"
  shows "(parse_req_acct_data flds = P_req_acct_data True code
          \<and> get_account_summary (db env) acct = Some a
          \<and> map Inr frames = map (encode_fields (rtm env))
               ([[FInt (outgoing (ids env) ACCT_VALUE), FStr ''NetLiquidation'',
                  FStr (float_str (rtm env) (net_liquidation a)), base_currency a, FStr acct],
                 [FInt (outgoing (ids env) ACCT_VALUE), FStr ''TotalCashValue'',
                  FStr (float_str (rtm env) (cash_balance a)), base_currency a, FStr acct],
                 [FInt (outgoing (ids env) ACCT_VALUE), FStr ''UnrealizedPnL'',
                  FStr (float_str (rtm env) (acct_unrealized_pnl a)), base_currency a, FStr acct],
                 [FInt (outgoing (ids env) ACCT_VALUE), FStr ''RealizedPnL'',
                  FStr (float_str (rtm env) (acct_realized_pnl a)), base_currency a, FStr acct],
                 [FInt (outgoing (ids env) ACCT_UPDATE_TIME), FStr (now_hms w)]]
                @ map (\<lambda>p. [FInt (outgoing (ids env) PORTFOLIO_VALUE),
                              pos_con_id p, pos_symbol p, pos_security_type p,
                              FStr [], FInt 0, FStr [], FInt 1, FStr [],
                              pos_currency p, pos_symbol p, pos_symbol p,
                              pos_position p, pos_market_price p, pos_market_value p,
                              pos_avg_cost p, pos_unrealized_pnl p, pos_realized_pnl p,
                              FStr acct])
                    (get_positions (db env) acct)
                @ [[FInt (outgoing (ids env) ACCT_DOWNLOAD_END), FStr acct]])
          \<longrightarrow> route_message env w (incoming (ids env) REQ_ACCT_DATA) flds s
                = (None, s\<lparr>account_subscriptions := insert acct (account_subscriptions s),
                             written := written s @ frames\<rparr>))
       \<and> (parse_req_acct_data flds = P_req_acct_data True code
          \<and> get_account_summary (db env) acct = None
          \<and> map Inr frames' = map (encode_fields (rtm env))
               (map (\<lambda>p. [FInt (outgoing (ids env) PORTFOLIO_VALUE),
                              pos_con_id p, pos_symbol p, pos_security_type p,
                              FStr [], FInt 0, FStr [], FInt 1, FStr [],
                              pos_currency p, pos_symbol p, pos_symbol p,
                              pos_position p, pos_market_price p, pos_market_value p,
                              pos_avg_cost p, pos_unrealized_pnl p, pos_realized_pnl p,
                              FStr acct])
                    (get_positions (db env) acct)
                @ [[FInt (outgoing (ids env) ACCT_DOWNLOAD_END), FStr acct]])
          \<longrightarrow> route_message env w (incoming (ids env) REQ_ACCT_DATA) flds s
                = (None, s\<lparr>account_subscriptions := insert acct (account_subscriptions s),
                             written := written s @ frames'\<rparr>))
       \<and> (parse_req_acct_data flds = P_req_acct_data False code
          \<and> encode_fields (rtm env) [FInt (outgoing (ids env) ACCT_DOWNLOAD_END), FStr acct]
              = Inr fin
          \<longrightarrow> route_message env w (incoming (ids env) REQ_ACCT_DATA) flds s
                = (None, s\<lparr>account_subscriptions := account_subscriptions s - {acct},
                             written := written s @ [fin]\<rparr>))"
proof -
  let ?pf = "\<lambda>p. portfolio_value env
             (pos_con_id p) (pos_symbol p) (pos_security_type p)
             (FStr []) (FInt 0) (FStr []) (FInt 1) (FStr [])
             (pos_currency p) (pos_symbol p) (pos_symbol p)
             (pos_position p) (pos_market_price p) (pos_market_value p) (pos_avg_cost p)
             (pos_unrealized_pnl p) (pos_realized_pnl p)
             (FStr acct)"
  let ?s1 = "s\<lparr>account_subscriptions := insert acct (account_subscriptions s)\<rparr>"
  have sub: "handle_req_account_data env w (P_req_acct_data True code) s
               = send_account_updates env w acct ?s1"
    using account by (simp add: handle_req_account_data_def split: if_splits)
  have with_summary: "route_message env w (incoming (ids env) REQ_ACCT_DATA) flds s
                = (None, ?s1\<lparr>written := written ?s1 @ frames\<rparr>)"
    if p: "parse_req_acct_data flds = P_req_acct_data True code"
      and a: "get_account_summary (db env) acct = Some a"
      and f: "map Inr frames =
               [account_value env (FStr ''NetLiquidation'')
                  (FStr (float_str (rtm env) (net_liquidation a))) (base_currency a) (FStr acct),
                account_value env (FStr ''TotalCashValue'')
                  (FStr (float_str (rtm env) (cash_balance a))) (base_currency a) (FStr acct),
                account_value env (FStr ''UnrealizedPnL'')
                  (FStr (float_str (rtm env) (acct_unrealized_pnl a))) (base_currency a) (FStr acct),
                account_value env (FStr ''RealizedPnL'')
                  (FStr (float_str (rtm env) (acct_realized_pnl a))) (base_currency a) (FStr acct),
                account_update_time env (FStr (now_hms w))]
               @ map ?pf (get_positions (db env) acct)
               @ [account_download_end env (FStr acct)]"
  proof -
    from run_steps_sends [OF f, of ?s1]
    have "send_account_updates env w acct ?s1 = (None, ?s1\<lparr>written := written ?s1 @ frames\<rparr>)"
      by (simp add: send_account_updates_def Let_def a send_portfolio_position_eq
            send_account_download_end_eq comp_def del: run_steps.simps)
    then show ?thesis by (simp add: route_req_acct_data [OF distinct] p sub)
  qed
  have without_summary: "route_message env w (incoming (ids env) REQ_ACCT_DATA) flds s
                = (None, ?s1\<lparr>written := written ?s1 @ frames'\<rparr>)"
    if p: "parse_req_acct_data flds = P_req_acct_data True code"
      and a: "get_account_summary (db env) acct = None"
      and f: "map Inr frames' =
               map ?pf (get_positions (db env) acct) @ [account_download_end env (FStr acct)]"
  proof -
    from run_steps_sends [OF f, of ?s1]
    have "send_account_updates env w acct ?s1 = (None, ?s1\<lparr>written := written ?s1 @ frames'\<rparr>)"
      by (simp add: send_account_updates_def Let_def a send_portfolio_position_eq
            send_account_download_end_eq comp_def del: run_steps.simps)
    then show ?thesis by (simp add: route_req_acct_data [OF distinct] p sub)
  qed
  have unsub: "route_message env w (incoming (ids env) REQ_ACCT_DATA) flds s
                = (None, s\<lparr>account_subscriptions := account_subscriptions s - {acct},
                             written := written s @ [fin]\<rparr>)"
    if p: "parse_req_acct_data flds = P_req_acct_data False code"
      and f: "account_download_end env (FStr acct) = Inr fin"
    using account f
    by (simp add: route_req_acct_data [OF distinct] p handle_req_account_data_def
          send_account_download_end_def send_Inr split: if_splits)
  show ?thesis
    using with_summary without_summary unsub
    by (simp add: account_value_def account_update_time_def portfolio_value_def
          account_download_end_def make_message_def comp_def)
qed

lemma demo_db_sel:
  "get_account_summary demo_db ''DU000001''
     = Some \<lparr>net_liquidation = 100, cash_balance = 100, acct_unrealized_pnl = 100,
              acct_realized_pnl = 100, base_currency = FStr ''USD''\<rparr>"
  "get_account_summary demo_db ''NOPE'' = None"
  "get_positions demo_db ''DU000001'' = [demo_position]"
  "get_positions demo_db ''NOPE'' = []"
  by (simp_all add: demo_db_def)

lemma demo_end_frame:
  "encode_fields demo_runtime [FInt 54, FStr ''DU000001'']
     = Inr (be32 12 @ ''54'' @ [NUL] @ ''DU000001'' @ [NUL])"
  by (rule encode_fields_lit) (simp_all add: frame_body_def show_int_lits)

lemma demo_end_frame_nope:
  "encode_fields demo_runtime [FInt 54, FStr ''NOPE'']
     = Inr (be32 8 @ ''54'' @ [NUL] @ ''NOPE'' @ [NUL])"
  by (rule encode_fields_lit) (simp_all add: frame_body_def show_int_lits)

text \<open>
  C4, witness: subscribing to the configured account (one position), subscribing to an
  account the store does not know, and unsubscribing.
\<close>

theorem C4_account_data_witness:
  "route_message demo_env demo_world (incoming (ids demo_env) REQ_ACCT_DATA) [''1'', []]
     demo_session
   = (None, demo_session\<lparr>account_subscriptions :=
                insert ''DU000001'' (account_subscriptions demo_session),
        written := written demo_session
          @ [be32 36 @ ''6'' @ [NUL] @ ''NetLiquidation'' @ [NUL] @ ''100.0'' @ [NUL]
               @ ''USD'' @ [NUL] @ ''DU000001'' @ [NUL],
             be32 36 @ ''6'' @ [NUL] @ ''TotalCashValue'' @ [NUL] @ ''100.0'' @ [NUL]
               @ ''USD'' @ [NUL] @ ''DU000001'' @ [NUL],
             be32 35 @ ''6'' @ [NUL] @ ''UnrealizedPnL'' @ [NUL] @ ''100.0'' @ [NUL]
               @ ''USD'' @ [NUL] @ ''DU000001'' @ [NUL],
             be32 33 @ ''6'' @ [NUL] @ ''RealizedPnL'' @ [NUL] @ ''100.0'' @ [NUL]
               @ ''USD'' @ [NUL] @ ''DU000001'' @ [NUL],
             be32 11 @ ''8'' @ [NUL] @ ''12:00:00'' @ [NUL],
             be32 77 @ ''7'' @ [NUL] @ ''4815747'' @ [NUL] @ ''NVDA'' @ [NUL] @ ''STK'' @ [NUL]
               @ [NUL] @ ''0'' @ [NUL] @ [NUL] @ ''1'' @ [NUL] @ [NUL] @ ''USD'' @ [NUL]
               @ ''NVDA'' @ [NUL] @ ''NVDA'' @ [NUL] @ ''100.0'' @ [NUL] @ ''100.0'' @ [NUL]
               @ ''100.0'' @ [NUL] @ ''100.0'' @ [NUL] @ ''0'' @ [NUL] @ ''0'' @ [NUL]
               @ ''DU000001'' @ [NUL],
             be32 12 @ ''54'' @ [NUL] @ ''DU000001'' @ [NUL]]\<rparr>)
   \<and> route_message demo_env demo_world (incoming (ids demo_env) REQ_ACCT_DATA)
       [''1'', ''NOPE''] demo_session
     = (None, demo_session\<lparr>account_subscriptions :=
                insert ''NOPE'' (account_subscriptions demo_session),
          written := written demo_session @ [be32 8 @ ''54'' @ [NUL] @ ''NOPE'' @ [NUL]]\<rparr>)
   \<and> route_message demo_env demo_world (incoming (ids demo_env) REQ_ACCT_DATA)
       [''0'', []] demo_session
     = (None, demo_session\<lparr>account_subscriptions :=
                account_subscriptions demo_session - {''DU000001''},
          written := written demo_session
                       @ [be32 12 @ ''54'' @ [NUL] @ ''DU000001'' @ [NUL]]\<rparr>)"
proof -
  have acct1: "(if [] = [] then first_account demo_env else Inr []) = Inr ''DU000001''"
    by (simp add: first_account_def demo_env_sel)
  have acct2: "(if ''NOPE'' = [] then first_account demo_env else Inr ''NOPE'') = Inr ''NOPE''"
    by simp
  have p1: "parse_req_acct_data [''1'', []] = P_req_acct_data True []"
    by (simp add: parse_req_acct_data_def read_bool_def read_str_def)
  have p2: "parse_req_acct_data [''1'', ''NOPE''] = P_req_acct_data True ''NOPE''"
    by (simp add: parse_req_acct_data_def read_bool_def read_str_def)
  have p3: "parse_req_acct_data [''0'', []] = P_req_acct_data False []"
    by (simp add: parse_req_acct_data_def read_bool_def read_str_def)
  have e1: "encode_fields demo_runtime
              [FInt 6, FStr ''NetLiquidation'', FStr ''100.0'', FStr ''USD'', FStr ''DU000001'']
            = Inr (be32 36 @ ''6'' @ [NUL] @ ''NetLiquidation'' @ [NUL] @ ''100.0'' @ [NUL]
                     @ ''USD'' @ [NUL] @ ''DU000001'' @ [NUL])"
    by (rule encode_fields_lit) (simp_all add: frame_body_def show_int_lits)
  have e2: "encode_fields demo_runtime
              [FInt 6, FStr ''TotalCashValue'', FStr ''100.0'', FStr ''USD'', FStr ''DU000001'']
            = Inr (be32 36 @ ''6'' @ [NUL] @ ''TotalCashValue'' @ [NUL] @ ''100.0'' @ [NUL]
                     @ ''USD'' @ [NUL] @ ''DU000001'' @ [NUL])"
    by (rule encode_fields_lit) (simp_all add: frame_body_def show_int_lits)
  have e3: "encode_fields demo_runtime
              [FInt 6, FStr ''UnrealizedPnL'', FStr ''100.0'', FStr ''USD'', FStr ''DU000001'']
            = Inr (be32 35 @ ''6'' @ [NUL] @ ''UnrealizedPnL'' @ [NUL] @ ''100.0'' @ [NUL]
                     @ ''USD'' @ [NUL] @ ''DU000001'' @ [NUL])"
    by (rule encode_fields_lit) (simp_all add: frame_body_def show_int_lits)
  have e4: "encode_fields demo_runtime
              [FInt 6, FStr ''RealizedPnL'', FStr ''100.0'', FStr ''USD'', FStr ''DU000001'']
            = Inr (be32 33 @ ''6'' @ [NUL] @ ''RealizedPnL'' @ [NUL] @ ''100.0'' @ [NUL]
                     @ ''USD'' @ [NUL] @ ''DU000001'' @ [NUL])"
    by (rule encode_fields_lit) (simp_all add: frame_body_def show_int_lits)
  have e5: "encode_fields demo_runtime [FInt 8, FStr ''12:00:00'']
            = Inr (be32 11 @ ''8'' @ [NUL] @ ''12:00:00'' @ [NUL])"
    by (rule encode_fields_lit) (simp_all add: frame_body_def show_int_lits)
  have e6: "encode_fields demo_runtime
              [FInt 7, FInt 4815747, FStr ''NVDA'', FStr ''STK'', FStr [], FInt 0, FStr [],
               FInt 1, FStr [], FStr ''USD'', FStr ''NVDA'', FStr ''NVDA'', FFloat 100,
               FFloat 100, FFloat 100, FFloat 100, FInt 0, FInt 0, FStr ''DU000001'']
            = Inr (be32 77 @ ''7'' @ [NUL] @ ''4815747'' @ [NUL] @ ''NVDA'' @ [NUL] @ ''STK'' @ [NUL]
               @ [NUL] @ ''0'' @ [NUL] @ [NUL] @ ''1'' @ [NUL] @ [NUL] @ ''USD'' @ [NUL]
               @ ''NVDA'' @ [NUL] @ ''NVDA'' @ [NUL] @ ''100.0'' @ [NUL] @ ''100.0'' @ [NUL]
               @ ''100.0'' @ [NUL] @ ''100.0'' @ [NUL] @ ''0'' @ [NUL] @ ''0'' @ [NUL]
               @ ''DU000001'' @ [NUL])"
    by (rule encode_fields_lit) (simp_all add: frame_body_def show_int_lits demo_float_str)
  have c1: "route_message demo_env demo_world (incoming (ids demo_env) REQ_ACCT_DATA) [''1'', []]
     demo_session
   = (None, demo_session\<lparr>account_subscriptions :=
                insert ''DU000001'' (account_subscriptions demo_session),
        written := written demo_session
          @ [be32 36 @ ''6'' @ [NUL] @ ''NetLiquidation'' @ [NUL] @ ''100.0'' @ [NUL]
               @ ''USD'' @ [NUL] @ ''DU000001'' @ [NUL],
             be32 36 @ ''6'' @ [NUL] @ ''TotalCashValue'' @ [NUL] @ ''100.0'' @ [NUL]
               @ ''USD'' @ [NUL] @ ''DU000001'' @ [NUL],
             be32 35 @ ''6'' @ [NUL] @ ''UnrealizedPnL'' @ [NUL] @ ''100.0'' @ [NUL]
               @ ''USD'' @ [NUL] @ ''DU000001'' @ [NUL],
             be32 33 @ ''6'' @ [NUL] @ ''RealizedPnL'' @ [NUL] @ ''100.0'' @ [NUL]
               @ ''USD'' @ [NUL] @ ''DU000001'' @ [NUL],
             be32 11 @ ''8'' @ [NUL] @ ''12:00:00'' @ [NUL],
             be32 77 @ ''7'' @ [NUL] @ ''4815747'' @ [NUL] @ ''NVDA'' @ [NUL] @ ''STK'' @ [NUL]
               @ [NUL] @ ''0'' @ [NUL] @ [NUL] @ ''1'' @ [NUL] @ [NUL] @ ''USD'' @ [NUL]
               @ ''NVDA'' @ [NUL] @ ''NVDA'' @ [NUL] @ ''100.0'' @ [NUL] @ ''100.0'' @ [NUL]
               @ ''100.0'' @ [NUL] @ ''100.0'' @ [NUL] @ ''0'' @ [NUL] @ ''0'' @ [NUL]
               @ ''DU000001'' @ [NUL],
             be32 12 @ ''54'' @ [NUL] @ ''DU000001'' @ [NUL]]\<rparr>)"
    by (rule C4_account_data [where a = "\<lparr>net_liquidation = 100, cash_balance = 100,
            acct_unrealized_pnl = 100, acct_realized_pnl = 100, base_currency = FStr ''USD''\<rparr>",
          OF inj_demo_incoming acct1, THEN conjunct1, rule_format])
       (simp add: p1 demo_env_sel demo_db_sel demo_position_def demo_world_def demo_float_str
          e1 e2 e3 e4 e5 e6 demo_end_frame)
  have c2: "route_message demo_env demo_world (incoming (ids demo_env) REQ_ACCT_DATA)
       [''1'', ''NOPE''] demo_session
     = (None, demo_session\<lparr>account_subscriptions :=
                insert ''NOPE'' (account_subscriptions demo_session),
          written := written demo_session @ [be32 8 @ ''54'' @ [NUL] @ ''NOPE'' @ [NUL]]\<rparr>)"
    by (rule C4_account_data [OF inj_demo_incoming acct2, THEN conjunct2, THEN conjunct1,
          rule_format])
       (simp add: p2 demo_env_sel demo_db_sel demo_end_frame_nope)
  have c3: "route_message demo_env demo_world (incoming (ids demo_env) REQ_ACCT_DATA)
       [''0'', []] demo_session
     = (None, demo_session\<lparr>account_subscriptions :=
                account_subscriptions demo_session - {''DU000001''},
          written := written demo_session
                       @ [be32 12 @ ''54'' @ [NUL] @ ''DU000001'' @ [NUL]]\<rparr>)"
    by (rule C4_account_data [OF inj_demo_incoming acct1, THEN conjunct2, THEN conjunct2,
          rule_format])
       (simp add: p3 demo_env_sel demo_end_frame)
  show ?thesis using c1 c2 c3 by blast
qed

text \<open>
  C4, counterexample. The claim promises the four \<^verbatim>\<open>ACCT_VALUE\<close> frames and
  \<^verbatim>\<open>ACCT_UPDATE_TIME\<close> for every subscribing request. The frame
  \<^verbatim>\<open>REQ_ACCT_DATA(subscribe=1, account_code=NOPE)\<close>, for an account of which the store has
  no summary, makes a new session write \<^verbatim>\<open>ACCT_DOWNLOAD_END\<close> and nothing else.
\<close>

theorem C4_account_data_counterexample:
  "process_message demo_env demo_world
     (be32 9 @ ''6'' @ [NUL] @ ''1'' @ [NUL] @ ''NOPE'' @ [NUL]) demo_session
   = (None, demo_session\<lparr>account_subscriptions := {''NOPE''}, message_count := 1,
        written := [be32 8 @ ''54'' @ [NUL] @ ''NOPE'' @ [NUL]]\<rparr>)"
proof -
  have rate: "check_rate_limit demo_env demo_world demo_session
                = (True, demo_session\<lparr>message_count := 1\<rparr>)"
    by (simp add: check_rate_limit_def demo_world_def demo_session_def new_session_def
          demo_env_sel Let_def)
  have k: "py_int ''6'' = Some 6"
    by (simp add: py_int_def py_strip_def py_isspace_def py_isdigit_def digits_value_def
          digit_val_def int_max_str_digits_def)
  have dec: "decode_message (be32 9 @ ''6'' @ [NUL] @ ''1'' @ [NUL] @ ''NOPE'' @ [NUL])
               = Inr (Some 6, [''1'', ''NOPE''])"
    by (rule decode_message_lit [where k = "''6''"])
       (simp_all add: decode_fields_def k NUL_def)
  have six: "incoming (ids demo_env) REQ_ACCT_DATA = 6" by (simp add: demo_env_sel)
  have p2: "parse_req_acct_data [''1'', ''NOPE''] = P_req_acct_data True ''NOPE''"
    by (simp add: parse_req_acct_data_def read_bool_def read_str_def)
  have sess: "written demo_session = []" "account_subscriptions demo_session = {}"
    by (simp_all add: demo_session_def new_session_def)
  have route: "route_message demo_env demo_world 6 [''1'', ''NOPE'']
                 (demo_session\<lparr>message_count := 1\<rparr>)
     = (None, demo_session\<lparr>account_subscriptions := {''NOPE''}, message_count := 1,
          written := [be32 8 @ ''54'' @ [NUL] @ ''NOPE'' @ [NUL]]\<rparr>)"
    using route_req_acct_data [OF inj_demo_incoming, of demo_world "[''1'', ''NOPE'']"
            "demo_session\<lparr>message_count := 1\<rparr>"]
    by (simp add: six p2 handle_req_account_data_def send_account_updates_def demo_env_sel
          demo_db_sel send_account_download_end_def account_download_end_def make_message_def
          demo_end_frame_nope send_Inr sess)
  show ?thesis
    using dec route by (simp add: process_message_def rate decode_and_route_def on_exception_def)
qed

section \<open>Cancelling a market data subscription\<close>

lemma run_steps_written:
  "run_steps (map send builts) s = (r, s') \<Longrightarrow>
   \<exists>frames. written s' = written s @ frames \<and> (\<forall>b \<in> set frames. Inr b \<in> set builts)"
proof (induction builts arbitrary: s)
  case Nil
  then show ?case by simp
next
  case (Cons built builts)
  show ?case
  proof (cases built)
    case (Inl e)
    with Cons.prems have "s' = s" by (simp add: send_Inl)
    then show ?thesis by simp
  next
    case (Inr b)
    with Cons.prems
    have "run_steps (map send builts) (s\<lparr>written := written s @ [b]\<rparr>) = (r, s')"
      by (simp add: send_Inr)
    from Cons.IH [OF this] obtain frames
      where f: "written s' = written (s\<lparr>written := written s @ [b]\<rparr>) @ frames"
        and m: "\<forall>x \<in> set frames. Inr x \<in> set builts" by blast
    have "written s' = written s @ (b # frames)" using f by simp
    moreover have "\<forall>x \<in> set (b # frames). Inr x \<in> set (built # builts)"
      using m Inr by simp
    ultimately show ?thesis by blast
  qed
qed

lemma send_ticks_written:
  assumes "send_ticks env k data s = (r, s')"
  shows "\<exists>frames. written s' = written s @ frames \<and> (\<forall>b \<in> set frames. tick_frame_for env k b)"
proof -
  let ?builts =
    "(case t_bid data of None \<Rightarrow> []
      | Some v \<Rightarrow> [tick_price env (opt_int k) (FInt 1) v (FBool True) (FBool False)])
     @ (case t_ask data of None \<Rightarrow> []
        | Some v \<Rightarrow> [tick_price env (opt_int k) (FInt 2) v (FBool True) (FBool False)])
     @ (case t_last data of None \<Rightarrow> []
        | Some v \<Rightarrow> [tick_price env (opt_int k) (FInt 4) v (FBool True) (FBool False)])
     @ (case t_bid_size data of None \<Rightarrow> []
        | Some v \<Rightarrow> [tick_size env (opt_int k) (FInt 0) v])
     @ (case t_ask_size data of None \<Rightarrow> []
        | Some v \<Rightarrow> [tick_size env (opt_int k) (FInt 3) v])
     @ (case t_volume data of None \<Rightarrow> []
        | Some v \<Rightarrow> [tick_size env (opt_int k) (FInt 8) v])"
  have steps: "send_ticks env k data s = run_steps (map send ?builts) s"
    by (simp add: send_ticks_def split: option.split del: run_steps.simps)
  have ticks: "tick_frame_for env k b" if "Inr b \<in> set ?builts" for b
    using that
    by (auto simp: tick_frame_for_def tick_price_def tick_size_def make_message_def
          split: option.splits)
  from assms steps have "run_steps (map send ?builts) s = (r, s')" by simp
  from run_steps_written [OF this] ticks show ?thesis by blast
qed

lemma send_market_data_loop_written:
  "send_market_data_loop env symbol data entries s = (r, s') \<Longrightarrow>
   \<exists>frames. written s' = written s @ frames
      \<and> (\<forall>b \<in> set frames. \<exists>k \<in> fst ` set entries. tick_frame_for env k b)"
proof (induction entries arbitrary: s)
  case Nil
  then show ?case by simp
next
  case (Cons entry entries)
  obtain k sub where entry: "entry = (k, sub)" by (cases entry)
  show ?case
  proof (cases "contract_get_symbol (sub_contract sub) = Some symbol")
    case False
    with Cons.prems entry
    have "send_market_data_loop env symbol data entries s = (r, s')" by simp
    from Cons.IH [OF this] show ?thesis by auto
  next
    case True
    obtain r1 s1 where t: "send_ticks env k data s = (r1, s1)" by (cases "send_ticks env k data s")
    from send_ticks_written [OF t] obtain f1
      where f1: "written s1 = written s @ f1" "\<forall>b \<in> set f1. tick_frame_for env k b" by blast
    show ?thesis
    proof (cases r1)
      case (Some e)
      with Cons.prems entry True t have "s' = s1" by simp
      with f1 entry show ?thesis by auto
    next
      case None
      with Cons.prems entry True t
      have "send_market_data_loop env symbol data entries s1 = (r, s')" by simp
      from Cons.IH [OF this] obtain f2
        where f2: "written s' = written s1 @ f2"
          "\<forall>b \<in> set f2. \<exists>k \<in> fst ` set entries. tick_frame_for env k b" by blast
      have "written s' = written s @ (f1 @ f2)" using f1(1) f2(1) by simp
      moreover have "\<forall>b \<in> set (f1 @ f2). \<exists>k \<in> fst ` set (entry # entries). tick_frame_for env k b"
        using f1(2) f2(2) entry by auto
      ultimately show ?thesis by blast
    qed
  qed
qed

lemma split_at_NUL:
  "NUL \<notin> set a \<Longrightarrow> NUL \<notin> set b \<Longrightarrow> a @ NUL # x = b @ NUL # y \<Longrightarrow> a = b \<and> x = y"
proof (induction a arbitrary: b)
  case Nil
  then show ?case by (cases b) auto
next
  case (Cons c a)
  then show ?case by (cases b) auto
qed

lemma opt_int_no_NUL: "NUL \<notin> set (field_text rt (opt_int k))"
  by (cases k) (simp_all add: opt_int_def show_int_no_NUL)

lemma frame_second_field:
  assumes "Inr b = encode_fields rt (FInt i # f # F)"
  shows "drop 4 b = show_int i @ NUL # field_text rt f @ NUL # frame_body rt F"
proof -
  from assms have "encode_fields rt (FInt i # f # F) = Inr b" by simp
  from encode_fields_Inr [OF this]
  have "b = be32 (length (frame_body rt (FInt i # f # F))) @ frame_body rt (FInt i # f # F)"
    by simp
  then have "drop 4 b = frame_body rt (FInt i # f # F)" by (simp add: length_be32)
  then show ?thesis by (simp add: frame_body_def)
qed

lemma same_frame_same_key:
  assumes "Inr b = encode_fields rt (FInt i # opt_int k # F)"
      and "Inr b = encode_fields rt (FInt i' # opt_int k' # F')"
  shows "k = k'"
proof -
  from frame_second_field [OF assms(1)] frame_second_field [OF assms(2)]
  have eq: "show_int i @ NUL # (field_text rt (opt_int k) @ NUL # frame_body rt F)
          = show_int i' @ NUL # (field_text rt (opt_int k') @ NUL # frame_body rt F')"
    by simp
  from split_at_NUL [OF show_int_no_NUL show_int_no_NUL eq]
  have "field_text rt (opt_int k) @ NUL # frame_body rt F
          = field_text rt (opt_int k') @ NUL # frame_body rt F'" by simp
  from split_at_NUL [OF opt_int_no_NUL opt_int_no_NUL this]
  have "field_text rt (opt_int k) = field_text rt (opt_int k')" by simp
  then show ?thesis by (rule opt_int_text_inj)
qed

lemma tick_frame_unique:
  "tick_frame_for env k b \<Longrightarrow> tick_frame_for env k' b \<Longrightarrow> k = k'"
  unfolding tick_frame_for_def using same_frame_same_key by blast

lemma dict_del_absent: "\<not> dict_contains k entries \<Longrightarrow> dict_del k entries = entries"
  unfolding dict_del_def dict_contains_def
  by (induction entries) auto

lemma dict_del_removes: "\<not> dict_contains k (dict_del k entries)"
  by (auto simp: dict_del_def dict_contains_def)

lemma dict_del_others: "k' \<noteq> k \<Longrightarrow> map_of (dict_del k entries) k' = map_of entries k'"
  unfolding dict_del_def by (induction entries) auto

lemma route_cancel_mkt_data:
  assumes "inj (incoming (ids env))"
  shows "route_message env w (incoming (ids env) CANCEL_MKT_DATA) flds s
     = (None, s\<lparr>market_data_subscriptions :=
                  dict_del (fst (read_int flds 0)) (market_data_subscriptions s)\<rparr>)"
proof -
  obtain rid index where r: "read_int flds 0 = (rid, index)" by (cases "read_int flds 0")
  have "handle_cancel_market_data env w (P_cancel_mkt_data rid) s
      = (None, s\<lparr>market_data_subscriptions := dict_del rid (market_data_subscriptions s)\<rparr>)"
    by (simp add: handle_cancel_market_data_def dict_del_absent)
  then show ?thesis
    by (simp add: route_message_def handlers_lookup [OF assms] parsers_lookup [OF assms]
          parse_cancel_mkt_data_def r)
qed

lemma broadcast_without_key:
  assumes absent: "\<not> dict_contains rid (market_data_subscriptions t)"
      and run: "send_market_data env symbol data t = (r, t')"
  shows "\<exists>frames. written t' = written t @ frames
           \<and> (\<forall>b \<in> set frames. \<not> tick_frame_for env rid b)"
proof -
  from run have "send_market_data_loop env symbol data (market_data_subscriptions t) t = (r, t')"
    by (simp add: send_market_data_def)
  from send_market_data_loop_written [OF this] obtain frames
    where w: "written t' = written t @ frames"
      and f: "\<forall>b \<in> set frames. \<exists>k \<in> fst ` set (market_data_subscriptions t). tick_frame_for env k b"
    by blast
  have "\<not> tick_frame_for env rid b" if "b \<in> set frames" for b
  proof
    assume rid: "tick_frame_for env rid b"
    from f that obtain k where k: "k \<in> fst ` set (market_data_subscriptions t)"
      "tick_frame_for env k b" by blast
    from tick_frame_unique [OF k(2) rid] have "k = rid" .
    with k(1) absent show False by (simp add: dict_contains_def)
  qed
  with w show ?thesis by blast
qed

text \<open>
  C8. Handling \<^verbatim>\<open>CANCEL_MKT_DATA\<close> with request id \<open>rid\<close> (the first field read as an
  integer) returns without an exception and changes nothing of the session but the
  subscription table, from which the entry with key \<open>rid\<close> is removed: nothing changes at
  all when the table has no such key, the other entries stay as they were and in their
  order. On every session whose table has no key \<open>rid\<close>, as the session after the
  cancellation is, a broadcast \<^verbatim>\<open>send_market_data\<close> for any symbol only appends frames to
  the stream, and none of them is a tick frame for \<open>rid\<close>.
\<close>

theorem C8_cancel_market_data:
  assumes "inj (incoming (ids env))"
      and "rid = fst (read_int flds 0)"
      and "s' = s\<lparr>market_data_subscriptions := dict_del rid (market_data_subscriptions s)\<rparr>"
  shows "route_message env w (incoming (ids env) CANCEL_MKT_DATA) flds s = (None, s')
       \<and> (\<not> dict_contains rid (market_data_subscriptions s) \<longrightarrow> s' = s)
       \<and> \<not> dict_contains rid (market_data_subscriptions s')
       \<and> market_data_subscriptions s'
            = filter (\<lambda>(k, sub). k \<noteq> rid) (market_data_subscriptions s)
       \<and> (\<forall>k. k \<noteq> rid \<longrightarrow>
             map_of (market_data_subscriptions s') k = map_of (market_data_subscriptions s) k)
       \<and> (\<forall>t symbol data r t'.
             \<not> dict_contains rid (market_data_subscriptions t)
             \<and> send_market_data env symbol data t = (r, t')
             \<longrightarrow> (\<exists>frames. written t' = written t @ frames
                     \<and> (\<forall>b \<in> set frames. \<not> tick_frame_for env rid b)))"
proof -
  have "route_message env w (incoming (ids env) CANCEL_MKT_DATA) flds s = (None, s')"
    using assms by (simp add: route_cancel_mkt_data)
  moreover have "\<not> dict_contains rid (market_data_subscriptions s) \<longrightarrow> s' = s"
    using assms(3) by (simp add: dict_del_absent)
  moreover have "\<not> dict_contains rid (market_data_subscriptions s')"
    using assms(3) by (simp add: dict_del_removes)
  moreover have "market_data_subscriptions s'
            = filter (\<lambda>(k, sub). k \<noteq> rid) (market_data_subscriptions s)"
    using assms(3) by (simp add: dict_del_def)
  moreover have "\<forall>k. k \<noteq> rid \<longrightarrow>
             map_of (market_data_subscriptions s') k = map_of (market_data_subscriptions s) k"
    using assms(3) by (simp add: dict_del_others)
  moreover have "\<forall>t symbol data r t'.
             \<not> dict_contains rid (market_data_subscriptions t)
             \<and> send_market_data env symbol data t = (r, t')
             \<longrightarrow> (\<exists>frames. written t' = written t @ frames
                     \<and> (\<forall>b \<in> set frames. \<not> tick_frame_for env rid b))"
    using broadcast_without_key by blast
  ultimately show ?thesis by blast
qed

text \<open>
  C8, witness: a session subscribed to NVDA under the request ids 100 and 7 cancels 100;
  a broadcast of a bid for NVDA then writes the one \<^verbatim>\<open>TICK_PRICE\<close> frame of request 7.
\<close>

theorem C8_cancel_market_data_witness:
  "route_message demo_env demo_world (incoming (ids demo_env) CANCEL_MKT_DATA) [''100'']
     (demo_session\<lparr>market_data_subscriptions :=
        [(Some 100, demo_subscription), (Some 7, demo_subscription)]\<rparr>)
   = (None, demo_session\<lparr>market_data_subscriptions := [(Some 7, demo_subscription)]\<rparr>)
   \<and> send_market_data demo_env ''NVDA'' demo_ticks
       (demo_session\<lparr>market_data_subscriptions := [(Some 7, demo_subscription)]\<rparr>)
     = (None, demo_session\<lparr>market_data_subscriptions := [(Some 7, demo_subscription)],
          written := written demo_session
            @ [be32 16 @ ''1'' @ [NUL] @ ''7'' @ [NUL] @ ''1'' @ [NUL] @ ''99.99'' @ [NUL]
                 @ ''1'' @ [NUL] @ ''0'' @ [NUL]]\<rparr>)
   \<and> \<not> tick_frame_for demo_env (Some 100)
         (be32 16 @ ''1'' @ [NUL] @ ''7'' @ [NUL] @ ''1'' @ [NUL] @ ''99.99'' @ [NUL]
            @ ''1'' @ [NUL] @ ''0'' @ [NUL])"
proof -
  let ?s = "demo_session\<lparr>market_data_subscriptions :=
              [(Some 100, demo_subscription), (Some 7, demo_subscription)]\<rparr>"
  let ?s' = "demo_session\<lparr>market_data_subscriptions := [(Some 7, demo_subscription)]\<rparr>"
  let ?b = "be32 16 @ ''1'' @ [NUL] @ ''7'' @ [NUL] @ ''1'' @ [NUL] @ ''99.99'' @ [NUL]
              @ ''1'' @ [NUL] @ ''0'' @ [NUL]"
  have rid: "Some 100 = fst (read_int [''100''] 0)"
    by (simp add: read_int_def py_int_lits)
  have s': "?s' = ?s\<lparr>market_data_subscriptions :=
                       dict_del (Some 100) (market_data_subscriptions ?s)\<rparr>"
    by (simp add: dict_del_def)
  note c8 = C8_cancel_market_data [OF inj_demo_incoming rid s', of demo_world]
  have e: "encode_fields demo_runtime
              [FInt 1, FInt 7, FInt 1, FFloat (9999 / 100), FBool True, FBool False]
            = Inr ?b"
    by (rule encode_fields_lit) (simp_all add: frame_body_def show_int_lits demo_float_str)
  have bc: "send_market_data demo_env ''NVDA'' demo_ticks ?s'
      = (None, ?s'\<lparr>written := written demo_session @ [?b]\<rparr>)"
    using e
    by (simp add: send_market_data_def send_ticks_def demo_ticks_def demo_subscription_def
          demo_contract_def tick_price_def make_message_def demo_env_sel opt_int_def send_def
          send_raw_def demo_outgoing.simps contract_get_symbol_def)
  have absent: "\<not> dict_contains (Some 100) (market_data_subscriptions ?s')"
    by (simp add: dict_contains_def)
  from c8 absent bc obtain frames
    where f: "written (?s'\<lparr>written := written demo_session @ [?b]\<rparr>) = written ?s' @ frames"
             "\<forall>b \<in> set frames. \<not> tick_frame_for demo_env (Some 100) b"
    by blast
  from f(1) have "frames = [?b]" by simp
  with f(2) have "\<not> tick_frame_for demo_env (Some 100) ?b" by simp
  with c8 bc show ?thesis by simp
qed

section \<open>Rate limiter\<close>

lemma rate_state_updates [simp]:
  "rate_state (s\<lparr>written := x1\<rparr>) = rate_state s"
  "rate_state (s\<lparr>client_id := x2\<rparr>) = rate_state s"
  "rate_state (s\<lparr>next_order_id := x3\<rparr>) = rate_state s"
  "rate_state (s\<lparr>market_data_subscriptions := x4\<rparr>) = rate_state s"
  "rate_state (s\<lparr>account_subscriptions := x5\<rparr>) = rate_state s"
  by (simp_all add: rate_state_def)

lemma rate_send [simp]: "rate_state (snd (send built s)) = rate_state s"
  by (cases built) (simp_all add: send_def send_raw_def)

lemma rate_run_steps:
  assumes "\<And>step t. step \<in> set steps \<Longrightarrow> rate_state (snd (step t)) = rate_state t"
  shows "rate_state (snd (run_steps steps s)) = rate_state s"
  using assms
proof (induction steps arbitrary: s)
  case Nil
  then show ?case by simp
next
  case (Cons step steps)
  obtain r s1 where st: "step s = (r, s1)" by (cases "step s")
  have "rate_state (snd (step s)) = rate_state s" using Cons.prems by simp
  with st have s1: "rate_state s1 = rate_state s" by simp
  show ?case
  proof (cases r)
    case None
    have "rate_state (snd (run_steps steps s1)) = rate_state s1"
      using Cons.IH Cons.prems by simp
    with st None s1 show ?thesis by simp
  next
    case (Some e)
    with st s1 show ?thesis by simp
  qed
qed

lemma rate_send_error [simp]: "rate_state (snd (send_error env a b c s)) = rate_state s"
  by (simp add: send_error_def)

lemma rate_send_next_valid_id [simp]:
  "rate_state (snd (send_next_valid_id env w s)) = rate_state s"
  by (simp add: send_next_valid_id_def Let_def)

lemma rate_send_managed_accounts [simp]:
  "rate_state (snd (send_managed_accounts env s)) = rate_state s"
  by (simp add: send_managed_accounts_def Let_def)

lemma rate_send_account_download_end [simp]:
  "rate_state (snd (send_account_download_end env acct s)) = rate_state s"
  by (simp add: send_account_download_end_def)

lemma rate_send_portfolio_position [simp]:
  "rate_state (snd (send_portfolio_position env acct p s)) = rate_state s"
  by (simp add: send_portfolio_position_def)

lemma rate_send_position_data [simp]:
  "rate_state (snd (send_position_data env acct p s)) = rate_state s"
  by (simp add: send_position_data_def)

lemma rate_send_contract_details [simp]:
  "rate_state (snd (send_contract_details env k ci s)) = rate_state s"
  by (simp add: send_contract_details_def)

lemma rate_send_order_status [simp]:
  "rate_state (snd (send_order_status env oid st a b c s)) = rate_state s"
  by (cases oid) (simp_all add: send_order_status_def)

lemma rate_send_account_updates [simp]:
  "rate_state (snd (send_account_updates env w acct s)) = rate_state s"
  unfolding send_account_updates_def
  by (rule rate_run_steps) (auto simp: Let_def split: option.splits)

lemma rate_send_initial_market_data [simp]:
  "rate_state (snd (send_initial_market_data env k c s)) = rate_state s"
  unfolding send_initial_market_data_def Let_def
  by (rule rate_run_steps) auto

lemma rate_handle_start_api:
  "rate_state (snd (handle_start_api env w data s)) = rate_state s"
proof -
  have "rate_state (snd (run_steps [send_next_valid_id env w, send_managed_accounts env] t))
          = rate_state t" for t
    by (rule rate_run_steps) auto
  then show ?thesis
    by (simp add: handle_start_api_def Let_def split: option.split del: run_steps.simps)
qed

lemma rate_handle_req_account_data:
  "rate_state (snd (handle_req_account_data env w data s)) = rate_state s"
  by (simp add: handle_req_account_data_def Let_def split: sum.split)

lemma rate_handle_req_positions:
  "rate_state (snd (handle_req_positions env w data s)) = rate_state s"
proof (cases "first_account env")
  case (Inl e)
  then show ?thesis by (simp add: handle_req_positions_def)
next
  case (Inr acct)
  have "rate_state (snd (run_steps (map (send_position_data env acct) (get_positions (db env) acct)
                     @ [send (position_end env)]) s)) = rate_state s"
    by (rule rate_run_steps) auto
  with Inr show ?thesis by (simp add: handle_req_positions_def del: run_steps.simps)
qed

lemma rate_handle_req_market_data:
  "rate_state (snd (handle_req_market_data env w data s)) = rate_state s"
  by (simp add: handle_req_market_data_def Let_def)

lemma rate_handle_cancel_market_data:
  "rate_state (snd (handle_cancel_market_data env w data s)) = rate_state s"
  by (simp add: handle_cancel_market_data_def Let_def)

lemma rate_order_steps:
  "rate_state (snd (run_steps [send_order_status env oid st1 a b c,
                               send_order_status env oid st2 a' b' c'] s)) = rate_state s"
  by (rule rate_run_steps) auto

lemma rate_handle_place_order:
  "rate_state (snd (handle_place_order env w data s)) = rate_state s"
  by (cases "first_account env"; cases data)
     (simp_all add: handle_place_order_def rate_order_steps del: run_steps.simps)

lemma rate_handle_cancel_order:
  "rate_state (snd (handle_cancel_order env w data s)) = rate_state s"
  by (simp add: handle_cancel_order_def Let_def rate_order_steps del: run_steps.simps)

lemma rate_handle_req_open_orders:
  "rate_state (snd (handle_req_open_orders env w data s)) = rate_state s"
  by (simp add: handle_req_open_orders_def split: sum.split)

lemma rate_handle_req_contract_details:
  "rate_state (snd (handle_req_contract_details env w data s)) = rate_state s"
proof -
  have one: "rate_state (snd (run_steps [send built] s)) = rate_state s" for built
    by (rule rate_run_steps) auto
  have two: "rate_state (snd (run_steps [send_contract_details env k ci, send built] s))
               = rate_state s" for built k ci
    by (rule rate_run_steps) auto
  show ?thesis
    by (simp add: handle_req_contract_details_def Let_def one two split: option.split
          del: run_steps.simps)
qed

lemma rate_handlers:
  assumes "h \<in> snd ` set (handlers env)"
  shows "rate_state (snd (h env' w data s)) = rate_state s"
proof -
  from assms have "h \<in> {handle_start_api, handle_req_ids, handle_req_managed_accounts,
      handle_req_account_data, handle_req_positions, handle_req_market_data,
      handle_cancel_market_data, handle_place_order, handle_cancel_order,
      handle_req_open_orders, handle_req_contract_details, handle_req_option_params,
      handle_req_current_time, handle_req_executions, handle_req_historical_data}"
    by (auto simp: handlers_def)
  then show ?thesis
    by (auto simp: rate_handle_start_api handle_req_ids_def handle_req_managed_accounts_def
          rate_handle_req_account_data rate_handle_req_positions rate_handle_req_market_data
          rate_handle_cancel_market_data rate_handle_place_order rate_handle_cancel_order
          rate_handle_req_open_orders rate_handle_req_contract_details
          handle_req_option_params_def handle_req_current_time_def handle_req_executions_def
          handle_req_historical_data_def Let_def)
qed

lemma rate_route_message:
  "rate_state (snd (route_message env w msg_id flds s)) = rate_state s"
proof (cases "dict_get (handlers env) msg_id")
  case None
  then show ?thesis by (simp add: route_message_def split: sum.split)
next
  case (Some h)
  then have "(msg_id, h) \<in> set (rev (handlers env))"
    unfolding dict_get_def by (rule map_of_SomeD)
  then have "h \<in> snd ` set (handlers env)" by force
  from rate_handlers [OF this] Some show ?thesis by (simp add: route_message_def)
qed

lemma rate_decode_and_route:
  "rate_state (snd (decode_and_route env w data s)) = rate_state s"
  by (simp add: decode_and_route_def rate_route_message split: sum.split prod.split option.split)

lemma rate_on_exception: "rate_state (snd (on_exception env r)) = rate_state (snd r)"
  by (cases r; cases "fst r") (simp_all add: on_exception_def)

lemma check_rate_limit_within:
  "time_time w - last_message_time s \<le> rate_limit_window s \<Longrightarrow>
   check_rate_limit env w s
     = (message_count s + 1 \<le> message_rate_limit (cfg env),
        s\<lparr>message_count := message_count s + 1\<rparr>)"
  by (simp add: check_rate_limit_def Let_def)

lemma check_rate_limit_reset:
  "time_time w - last_message_time s > rate_limit_window s \<Longrightarrow>
   check_rate_limit env w s
     = (1 \<le> message_rate_limit (cfg env),
        s\<lparr>message_count := 1, last_message_time := time_time w\<rparr>)"
  by (simp add: check_rate_limit_def Let_def)

lemma process_message_allowed:
  assumes "time_time w - last_message_time s \<le> rate_limit_window s"
      and "message_count s + 1 \<le> message_rate_limit (cfg env)"
  shows "process_message env w d s
     = on_exception env (decode_and_route env w d (s\<lparr>message_count := message_count s + 1\<rparr>))"
  using assms by (simp add: process_message_def check_rate_limit_within)

lemma process_message_routed:
  assumes "time_time w - last_message_time s \<le> rate_limit_window s"
      and "message_count s + 1 \<le> message_rate_limit (cfg env)"
      and "decode_message d = Inr (Some k, flds)"
  shows "process_message env w d s
     = on_exception env (route_message env w k flds (s\<lparr>message_count := message_count s + 1\<rparr>))"
  using assms by (simp add: process_message_allowed decode_and_route_def)

lemma process_message_refused:
  assumes "time_time w - last_message_time s \<le> rate_limit_window s"
      and "message_rate_limit (cfg env) \<le> message_count s"
      and "error_message env (FInt (- 1)) (FInt (errcode (ids env) MAX_RATE_EXCEEDED))
             (FStr ''Max message rate exceeded'') = Inr err"
  shows "process_message env w d s
     = (None, s\<lparr>message_count := message_count s + 1, written := written s @ [err]\<rparr>)"
  using assms
  by (simp add: process_message_def check_rate_limit_within send_error_def send_def
        send_raw_def on_exception_def)

lemma rate_route_step:
  assumes "on_exception env (route_message env w k flds (s\<lparr>message_count := message_count s + 1\<rparr>))
             = (r, s1)"
  shows "rate_state s1 = (message_count s + 1, last_message_time s, rate_limit_window s)"
proof -
  have "rate_state s1
      = rate_state (snd (on_exception env
          (route_message env w k flds (s\<lparr>message_count := message_count s + 1\<rparr>))))"
    using assms by simp
  also have "\<dots> = rate_state (s\<lparr>message_count := message_count s + 1\<rparr>)"
    by (simp add: rate_on_exception rate_route_message)
  also have "\<dots> = (message_count s + 1, last_message_time s, rate_limit_window s)"
    by (simp add: rate_state_def)
  finally show ?thesis .
qed

lemma process_all_route_all:
  assumes "\<forall>(w, d, k, flds) \<in> set qs.
             time_time w - last_message_time s \<le> rate_limit_window s
             \<and> decode_message d = Inr (Some k, flds)"
      and "message_count s + int (length qs) \<le> message_rate_limit (cfg env)"
  shows "process_all env (map (\<lambda>(w, d, k, flds). (w, d)) qs) s
           = route_all env (map (\<lambda>(w, d, k, flds). (w, k, flds)) qs) s"
  using assms
proof (induction qs arbitrary: s)
  case Nil
  then show ?case by simp
next
  case (Cons q qs)
  obtain w d k flds where q: "q = (w, d, k, flds)" by (cases q)
  obtain r s1 where step:
    "on_exception env (route_message env w k flds (s\<lparr>message_count := message_count s + 1\<rparr>))
       = (r, s1)"
    by (cases "on_exception env
                 (route_message env w k flds (s\<lparr>message_count := message_count s + 1\<rparr>))")
  from Cons.prems q have "time_time w - last_message_time s \<le> rate_limit_window s"
    and "decode_message d = Inr (Some k, flds)"
    and "message_count s + 1 \<le> message_rate_limit (cfg env)" by auto
  then have pm: "process_message env w d s = (r, s1)"
    using step by (simp add: process_message_routed)
  show ?case
  proof (cases r)
    case (Some e)
    with pm step q show ?thesis by simp
  next
    case None
    from rate_route_step [OF step]
    have rs: "message_count s1 = message_count s + 1"
      "last_message_time s1 = last_message_time s" "rate_limit_window s1 = rate_limit_window s"
      by (simp_all add: rate_state_def)
    have "process_all env (map (\<lambda>(w, d, k, flds). (w, d)) qs) s1
            = route_all env (map (\<lambda>(w, d, k, flds). (w, k, flds)) qs) s1"
    proof (rule Cons.IH)
      show "\<forall>(w, d, k, flds) \<in> set qs.
              time_time w - last_message_time s1 \<le> rate_limit_window s1
              \<and> decode_message d = Inr (Some k, flds)"
        using Cons.prems(1) rs by auto
      show "message_count s1 + int (length qs) \<le> message_rate_limit (cfg env)"
        using Cons.prems(2) rs by simp
    qed
    with pm step q None show ?thesis by (simp add: split_def)
  qed
qed

lemma route_all_rate:
  "route_all env ds s = (None, s') \<Longrightarrow>
   rate_state s' = (message_count s + int (length ds), last_message_time s, rate_limit_window s)"
proof (induction ds arbitrary: s)
  case Nil
  then show ?case by (simp add: rate_state_def)
next
  case (Cons f ds)
  obtain w k flds where f: "f = (w, k, flds)" by (cases f)
  obtain r s1 where step:
    "on_exception env (route_message env w k flds (s\<lparr>message_count := message_count s + 1\<rparr>))
       = (r, s1)"
    by (cases "on_exception env
                 (route_message env w k flds (s\<lparr>message_count := message_count s + 1\<rparr>))")
  from rate_route_step [OF step]
  have rs: "message_count s1 = message_count s + 1"
    "last_message_time s1 = last_message_time s" "rate_limit_window s1 = rate_limit_window s"
    by (simp_all add: rate_state_def)
  show ?case
  proof (cases r)
    case (Some e)
    with Cons.prems step f show ?thesis by simp
  next
    case None
    with Cons.prems step f have "route_all env ds s1 = (None, s')" by simp
    from Cons.IH [OF this] rs show ?thesis by simp
  qed
qed

text \<open>
  C3. Let \<open>M\<close> be the configured message rate limit, on a session whose window is one
  second, as every session is created.
  \<^item> A frame that arrives no later than one second after the start of the window, while
    the counter is below \<open>M\<close>, is counted and decoded, and its kind and fields are routed:
    the limiter writes nothing. This is so for every frame of a run of such frames that
    leaves the counter at \<open>M\<close> at most: the run is dispatched, the counter grows by the
    number of the frames and the start of the window does not move.
  \<^item> A frame that arrives in the window when the counter has reached \<open>M\<close> is counted and
    answered by exactly one \<^verbatim>\<open>ERR_MSG\<close> with request id \<open>-1\<close> and the code
    \<^verbatim>\<open>MAX_RATE_EXCEEDED\<close>; it is neither decoded nor routed, whatever its bytes are.
  \<^item> A frame that arrives more than one second after the start of the window is checked
    as on a session whose counter is 0 and whose window starts now: it is the first
    frame of the new window.
\<close>

theorem C3_rate_limiter:
  assumes "M = message_rate_limit (cfg env)"
      and "rate_limit_window s = 1"
      and "error_message env (FInt (- 1)) (FInt (errcode (ids env) MAX_RATE_EXCEEDED))
             (FStr ''Max message rate exceeded'') = Inr err"
  shows "(time_time w - last_message_time s \<le> 1 \<and> message_count s < M
          \<longrightarrow> process_message env w d s
                = on_exception env
                    (case decode_message d of
                       Inl e \<Rightarrow> (Some e, s\<lparr>message_count := message_count s + 1\<rparr>)
                     | Inr (None, flds) \<Rightarrow> (None, s\<lparr>message_count := message_count s + 1\<rparr>)
                     | Inr (Some k, flds) \<Rightarrow>
                         route_message env w k flds
                           (s\<lparr>message_count := message_count s + 1\<rparr>)))
       \<and> ((\<forall>(w', d', k, flds) \<in> set qs.
               time_time w' - last_message_time s \<le> 1
               \<and> decode_message d' = Inr (Some k, flds))
            \<and> message_count s + int (length qs) \<le> M
          \<longrightarrow> process_all env (map (\<lambda>(w', d', k, flds). (w', d')) qs) s
                = route_all env (map (\<lambda>(w', d', k, flds). (w', k, flds)) qs) s
            \<and> (\<forall>s'. process_all env (map (\<lambda>(w', d', k, flds). (w', d')) qs) s = (None, s')
                  \<longrightarrow> rate_state s'
                        = (message_count s + int (length qs), last_message_time s, 1)))
       \<and> (time_time w - last_message_time s \<le> 1 \<and> M \<le> message_count s
          \<longrightarrow> process_message env w d s
                = (None, s\<lparr>message_count := message_count s + 1,
                            written := written s @ [err]\<rparr>))
       \<and> (time_time w - last_message_time s > 1
          \<longrightarrow> check_rate_limit env w s
                = check_rate_limit env w (s\<lparr>message_count := 0, last_message_time := time_time w\<rparr>)
            \<and> check_rate_limit env w s
                = (1 \<le> M, s\<lparr>message_count := 1, last_message_time := time_time w\<rparr>))"
proof (intro conjI impI)
  assume "time_time w - last_message_time s \<le> 1 \<and> message_count s < M"
  with assms(1,2) have "process_message env w d s
      = on_exception env (decode_and_route env w d (s\<lparr>message_count := message_count s + 1\<rparr>))"
    by (intro process_message_allowed) simp_all
  then show "process_message env w d s
      = on_exception env
          (case decode_message d of
             Inl e \<Rightarrow> (Some e, s\<lparr>message_count := message_count s + 1\<rparr>)
           | Inr (None, flds) \<Rightarrow> (None, s\<lparr>message_count := message_count s + 1\<rparr>)
           | Inr (Some k, flds) \<Rightarrow>
               route_message env w k flds (s\<lparr>message_count := message_count s + 1\<rparr>))"
    by (simp add: decode_and_route_def)
next
  assume a: "(\<forall>(w', d', k, flds) \<in> set qs.
               time_time w' - last_message_time s \<le> 1
               \<and> decode_message d' = Inr (Some k, flds))
            \<and> message_count s + int (length qs) \<le> M"
  with assms(1,2) show eq: "process_all env (map (\<lambda>(w', d', k, flds). (w', d')) qs) s
                = route_all env (map (\<lambda>(w', d', k, flds). (w', k, flds)) qs) s"
    by (intro process_all_route_all) simp_all
  show "\<forall>s'. process_all env (map (\<lambda>(w', d', k, flds). (w', d')) qs) s = (None, s')
          \<longrightarrow> rate_state s' = (message_count s + int (length qs), last_message_time s, 1)"
    using eq route_all_rate [of env "map (\<lambda>(w', d', k, flds). (w', k, flds)) qs" s] assms(2)
    by simp
next
  assume "time_time w - last_message_time s \<le> 1 \<and> M \<le> message_count s"
  with assms show "process_message env w d s
      = (None, s\<lparr>message_count := message_count s + 1, written := written s @ [err]\<rparr>)"
    by (intro process_message_refused) simp_all
next
  assume r: "time_time w - last_message_time s > 1"
  with assms(1,2) show "check_rate_limit env w s
      = (1 \<le> M, s\<lparr>message_count := 1, last_message_time := time_time w\<rparr>)"
    by (simp add: check_rate_limit_reset)
  with assms(1,2) show "check_rate_limit env w s
      = check_rate_limit env w (s\<lparr>message_count := 0, last_message_time := time_time w\<rparr>)"
    by (simp add: check_rate_limit_within)
qed

lemma demo_req_ids_frame:
  "decode_message (be32 4 @ ''8'' @ [NUL] @ ''1'' @ [NUL]) = Inr (Some 8, [''1''])"
  by (rule decode_message_lit [where k = "''8''"])
     (simp_all add: decode_fields_def py_int_lits NUL_def)

lemma demo_next_valid_id:
  "next_valid_id demo_env (FInt 2000) = Inr (be32 7 @ ''9'' @ [NUL] @ ''2000'' @ [NUL])"
  unfolding next_valid_id_def make_message_def
  by (rule encode_fields_lit) (simp_all add: frame_body_def demo_env_sel show_int_lits)

lemma demo_req_ids_step:
  "on_exception demo_env (route_message demo_env demo_world 8 [''1''] t)
     = (None, t\<lparr>next_order_id := Some 2000,
                 written := written t @ [be32 7 @ ''9'' @ [NUL] @ ''2000'' @ [NUL]]\<rparr>)"
proof -
  have h: "dict_get (handlers demo_env) 8 = Some handle_req_ids"
    using handlers_lookup [OF inj_demo_incoming, of REQ_IDS] by (simp add: demo_env_sel)
  have n: "get_next_order_id demo_world = 2000"
    by (simp add: get_next_order_id_def demo_world_def float_mod_def int_of_float_def)
  show ?thesis
    using demo_next_valid_id
    by (simp add: on_exception_def route_message_def h handle_req_ids_def
          send_next_valid_id_def n opt_int_def send_Inr)
qed

text \<open>
  C3, witness: with a limit of two frames per second, two \<^verbatim>\<open>REQ_IDS\<close> frames at time 0
  are each answered by \<^verbatim>\<open>NEXT_VALID_ID\<close>, a third one is answered by the error frame only,
  and a frame at time 2 starts a new window.
\<close>

theorem C3_rate_limiter_witness:
  "process_message demo_env demo_world (be32 4 @ ''8'' @ [NUL] @ ''1'' @ [NUL]) demo_session
     = (None, demo_session\<lparr>next_order_id := Some 2000, message_count := 1,
          written := [be32 7 @ ''9'' @ [NUL] @ ''2000'' @ [NUL]]\<rparr>)
   \<and> process_all demo_env
       [(demo_world, be32 4 @ ''8'' @ [NUL] @ ''1'' @ [NUL]),
        (demo_world, be32 4 @ ''8'' @ [NUL] @ ''1'' @ [NUL])] demo_session
     = (None, demo_session\<lparr>next_order_id := Some 2000, message_count := 2,
          written := [be32 7 @ ''9'' @ [NUL] @ ''2000'' @ [NUL],
                      be32 7 @ ''9'' @ [NUL] @ ''2000'' @ [NUL]]\<rparr>)
   \<and> process_message demo_env demo_world (be32 4 @ ''8'' @ [NUL] @ ''1'' @ [NUL])
       (demo_session\<lparr>message_count := 2\<rparr>)
     = (None, demo_session\<lparr>message_count := 3,
          written := [be32 35 @ ''4'' @ [NUL] @ ''-1'' @ [NUL] @ ''100'' @ [NUL]
                        @ ''Max message rate exceeded'' @ [NUL]]\<rparr>)
   \<and> check_rate_limit demo_env (demo_world\<lparr>time_time := 2\<rparr>)
       (demo_session\<lparr>message_count := 3\<rparr>)
     = (True, demo_session\<lparr>message_count := 1, last_message_time := 2\<rparr>)"
proof -
  let ?f = "be32 4 @ ''8'' @ [NUL] @ ''1'' @ [NUL]"
  let ?nvid = "be32 7 @ ''9'' @ [NUL] @ ''2000'' @ [NUL]"
  let ?err = "be32 35 @ ''4'' @ [NUL] @ ''-1'' @ [NUL] @ ''100'' @ [NUL]
                @ ''Max message rate exceeded'' @ [NUL]"
  let ?qs = "[(demo_world, ?f, 8, [''1'']), (demo_world, ?f, 8, [''1''])]"
  have M: "(2::int) = message_rate_limit (cfg demo_env)" by (simp add: demo_env_sel)
  have err: "error_message demo_env (FInt (- 1)) (FInt (errcode (ids demo_env) MAX_RATE_EXCEEDED))
               (FStr ''Max message rate exceeded'') = Inr ?err"
    unfolding error_message_def make_message_def
    by (rule encode_fields_lit)
       (simp_all add: frame_body_def demo_env_sel show_int_lits show_int_minus_1)
  have sel: "rate_limit_window demo_session = 1" "last_message_time demo_session = 0"
    "message_count demo_session = 0" "market_data_subscriptions demo_session = []"
    "written demo_session = []" "time_time demo_world = 0"
    by (simp_all add: demo_session_def new_session_def demo_world_def)
  have one: "process_message demo_env demo_world ?f demo_session
             = (None, demo_session\<lparr>next_order_id := Some 2000, message_count := 1,
                  written := [?nvid]\<rparr>)"
    using C3_rate_limiter [OF M sel(1) err, of demo_world ?f] demo_req_ids_frame
    by (simp add: sel demo_req_ids_step)
  have r2: "route_all demo_env [(demo_world, 8, [''1'']), (demo_world, 8, [''1''])] demo_session
              = (None, demo_session\<lparr>next_order_id := Some 2000, message_count := 2,
                   written := [?nvid, ?nvid]\<rparr>)"
    by (simp add: sel demo_req_ids_step)
  have two: "process_all demo_env [(demo_world, ?f), (demo_world, ?f)] demo_session
             = (None, demo_session\<lparr>next_order_id := Some 2000, message_count := 2,
                  written := [?nvid, ?nvid]\<rparr>)"
    using C3_rate_limiter [OF M sel(1) err, of _ _ ?qs] demo_req_ids_frame r2
    by (simp add: sel del: process_all.simps route_all.simps)
  have three: "process_message demo_env demo_world ?f (demo_session\<lparr>message_count := 2\<rparr>)
             = (None, demo_session\<lparr>message_count := 3, written := [?err]\<rparr>)"
    using C3_rate_limiter [OF M _ err, of "demo_session\<lparr>message_count := 2\<rparr>" demo_world ?f]
    by (simp add: sel)
  have w3: "rate_limit_window (demo_session\<lparr>message_count := 3\<rparr>) = 1"
    by (simp add: sel)
  have late: "1 < time_time (demo_world\<lparr>time_time := 2\<rparr>)
                    - last_message_time (demo_session\<lparr>message_count := 3\<rparr>)"
    by (simp add: sel)
  note reset = C3_rate_limiter [OF M w3 err, of "demo_world\<lparr>time_time := 2\<rparr>",
                  THEN conjunct2, THEN conjunct2, THEN conjunct2, THEN mp, OF late,
                  THEN conjunct2]
  have four: "check_rate_limit demo_env (demo_world\<lparr>time_time := 2\<rparr>)
             (demo_session\<lparr>message_count := 3\<rparr>)
           = (True, demo_session\<lparr>message_count := 1, last_message_time := 2\<rparr>)"
    using reset by simp
  from one two three four show ?thesis by simp
qed
section \<open>Properties of the listener\<close>

lemma accept_full:
  "max_clients (cfg env) \<le> int (length (clients srv)) \<Longrightarrow>
   accept env writer srv
     = (None, writer\<lparr>conn_closed := True\<rparr>, srv\<lparr>next_client_id := next_client_id srv + 1\<rparr>)"
  by (simp add: accept_def Let_def)

lemma accept_room:
  "int (length (clients srv)) < max_clients (cfg env) \<Longrightarrow>
   accept env writer srv
     = (Some (next_client_id srv), writer,
        srv\<lparr>next_client_id := next_client_id srv + 1,
            clients := (if next_client_id srv \<in> set (clients srv) then clients srv
                        else clients srv @ [next_client_id srv])\<rparr>)"
  by (simp add: accept_def Let_def)

lemma accept_cases:
  obtains (full) "max_clients (cfg env) \<le> int (length (clients srv))"
      "accept env writer srv
         = (None, writer\<lparr>conn_closed := True\<rparr>, srv\<lparr>next_client_id := next_client_id srv + 1\<rparr>)"
  | (room) "int (length (clients srv)) < max_clients (cfg env)"
      "accept env writer srv
         = (Some (next_client_id srv), writer,
            srv\<lparr>next_client_id := next_client_id srv + 1,
                clients := (if next_client_id srv \<in> set (clients srv) then clients srv
                            else clients srv @ [next_client_id srv])\<rparr>)"
  using accept_full [of env srv writer] accept_room [of srv env writer] by fastforce

lemma length_finish: "length (clients (finish cid srv)) \<le> length (clients srv)"
  by (simp add: finish_def removeAll_filter_not_eq)

lemma next_finish [simp]: "next_client_id (finish cid srv) = next_client_id srv"
  by (simp add: finish_def)

lemma registry_bound:
  "int (length (clients srv)) \<le> max 0 (max_clients (cfg env)) \<Longrightarrow>
   int (length (clients (run env evs srv))) \<le> max 0 (max_clients (cfg env))"
proof (induction evs arbitrary: srv)
  case Nil
  then show ?case by simp
next
  case (Cons ev evs)
  show ?case
  proof (cases ev)
    case Accept
    have "int (length (clients (snd (snd (accept env new_connection srv)))))
            \<le> max 0 (max_clients (cfg env))"
      using Cons.prems by (cases rule: accept_cases [of env srv new_connection]) auto
    from Cons.IH [OF this] Accept show ?thesis by simp
  next
    case (Finish cid)
    have "int (length (clients (finish cid srv))) \<le> max 0 (max_clients (cfg env))"
      using Cons.prems length_finish [of cid srv] by linarith
    from Cons.IH [OF this] Finish show ?thesis by simp
  qed
qed

lemma registered_ids_increasing:
  "sorted_wrt (<) (registered_ids env evs srv)
   \<and> (\<forall>c \<in> set (registered_ids env evs srv). next_client_id srv \<le> c)"
proof (induction evs arbitrary: srv)
  case Nil
  then show ?case by simp
next
  case (Cons ev evs)
  show ?case
  proof (cases ev)
    case Accept
    show ?thesis
    proof (cases rule: accept_cases [of env srv new_connection])
      case full
      with Accept Cons.IH [of "srv\<lparr>next_client_id := next_client_id srv + 1\<rparr>"]
      show ?thesis by force
    next
      case room
      let ?srv' = "srv\<lparr>next_client_id := next_client_id srv + 1,
                       clients := (if next_client_id srv \<in> set (clients srv) then clients srv
                                   else clients srv @ [next_client_id srv])\<rparr>"
      from Cons.IH [of ?srv']
      have "sorted_wrt (<) (registered_ids env evs ?srv')"
        and "\<forall>c \<in> set (registered_ids env evs ?srv'). next_client_id srv + 1 \<le> c"
        by simp_all
      with Accept room show ?thesis by force
    qed
  next
    case (Finish cid)
    with Cons.IH [of "finish cid srv"] show ?thesis by simp
  qed
qed

lemma registered_ids_none:
  "max_clients (cfg env) \<le> 0 \<Longrightarrow> registered_ids env evs srv = []"
proof (induction evs arbitrary: srv)
  case Nil
  then show ?case by simp
next
  case (Cons ev evs)
  show ?case
  proof (cases ev)
    case Accept
    from Cons.prems have "max_clients (cfg env) \<le> int (length (clients srv))" by simp
    from accept_full [OF this] Accept Cons.IH [OF Cons.prems] show ?thesis by simp
  next
    case (Finish cid)
    with Cons.IH [OF Cons.prems] show ?thesis by simp
  qed
qed

lemma registered_ids_first:
  "0 < max_clients (cfg env) \<Longrightarrow> clients srv = [] \<Longrightarrow>
   registered_ids env evs srv \<noteq> [] \<Longrightarrow>
   hd (registered_ids env evs srv) = next_client_id srv"
proof (induction evs arbitrary: srv)
  case Nil
  then show ?case by simp
next
  case (Cons ev evs)
  show ?case
  proof (cases ev)
    case Accept
    from Cons.prems have "int (length (clients srv)) < max_clients (cfg env)" by simp
    from accept_room [OF this] Accept show ?thesis by simp
  next
    case (Finish cid)
    from Cons.prems(2) have f: "finish cid srv = srv" by (simp add: finish_def)
    with Cons.prems Finish have "registered_ids env evs srv \<noteq> []" by simp
    from Cons.IH [OF Cons.prems(1,2) this] Finish f show ?thesis by simp
  qed
qed

text \<open>
  C9. Whatever connections arrive and whatever sessions end, the registry of a server
  that starts empty never holds more than \<^verbatim>\<open>max_clients\<close> sessions. A connection that
  arrives when the registry holds \<^verbatim>\<open>max_clients\<close> sessions or more is closed: nothing is
  written to it, no session is registered, and the counter of client ids advances. A
  connection that arrives below the cap gets the current value of the counter as its
  client id, so that the ids of the registered connections are strictly increasing in
  order of arrival, and the first of them is 1.
\<close>

theorem C9_max_clients:
  "int (length (clients (run env evs new_server))) \<le> max 0 (max_clients (cfg env))
   \<and> (max_clients (cfg env) \<le> int (length (clients srv)) \<longrightarrow>
        accept env writer srv
          = (None, writer\<lparr>conn_closed := True\<rparr>,
             srv\<lparr>next_client_id := next_client_id srv + 1\<rparr>)
        \<and> conn_written (fst (snd (accept env writer srv))) = conn_written writer
        \<and> conn_closed (fst (snd (accept env writer srv)))
        \<and> clients (snd (snd (accept env writer srv))) = clients srv)
   \<and> (int (length (clients srv)) < max_clients (cfg env) \<longrightarrow>
        fst (accept env writer srv) = Some (next_client_id srv)
        \<and> fst (snd (accept env writer srv)) = writer
        \<and> next_client_id srv \<in> set (clients (snd (snd (accept env writer srv)))))
   \<and> sorted_wrt (<) (registered_ids env evs new_server)
   \<and> (registered_ids env evs new_server \<noteq> [] \<longrightarrow>
        hd (registered_ids env evs new_server) = 1)"
proof -
  have "int (length (clients (run env evs new_server))) \<le> max 0 (max_clients (cfg env))"
    by (rule registry_bound) (simp add: new_server_def)
  moreover have "max_clients (cfg env) \<le> int (length (clients srv)) \<longrightarrow>
        accept env writer srv
          = (None, writer\<lparr>conn_closed := True\<rparr>,
             srv\<lparr>next_client_id := next_client_id srv + 1\<rparr>)
        \<and> conn_written (fst (snd (accept env writer srv))) = conn_written writer
        \<and> conn_closed (fst (snd (accept env writer srv)))
        \<and> clients (snd (snd (accept env writer srv))) = clients srv"
    by (simp add: accept_full)
  moreover have "int (length (clients srv)) < max_clients (cfg env) \<longrightarrow>
        fst (accept env writer srv) = Some (next_client_id srv)
        \<and> fst (snd (accept env writer srv)) = writer
        \<and> next_client_id srv \<in> set (clients (snd (snd (accept env writer srv))))"
    by (simp add: accept_room)
  moreover have "sorted_wrt (<) (registered_ids env evs new_server)"
    using registered_ids_increasing by blast
  moreover have "registered_ids env evs new_server \<noteq> [] \<longrightarrow>
        hd (registered_ids env evs new_server) = 1"
  proof (cases "0 < max_clients (cfg env)")
    case True
    from registered_ids_first [OF True, of new_server evs] show ?thesis
      by (simp add: new_server_def)
  next
    case False
    then show ?thesis by (simp add: registered_ids_none)
  qed
  ultimately show ?thesis by blast
qed

text \<open>
  C9, witness: with a cap of two sessions, three connections arrive, the session of
  client 1 ends and a fourth connection arrives. The third connection is closed with
  nothing written; the registered ids are 1, 2 and 4.
\<close>

theorem C9_max_clients_witness:
  "clients (run demo_env [Accept, Accept, Accept, Finish 1, Accept] new_server) = [2, 4]
   \<and> accept demo_env new_connection \<lparr>clients = [1, 2], next_client_id = 3\<rparr>
       = (None, \<lparr>conn_written = [], conn_closed = True\<rparr>,
          \<lparr>clients = [1, 2], next_client_id = 4\<rparr>)
   \<and> fst (accept demo_env new_connection \<lparr>clients = [2], next_client_id = 4\<rparr>) = Some 4
   \<and> registered_ids demo_env [Accept, Accept, Accept, Finish 1, Accept] new_server = [1, 2, 4]"
proof -
  have run: "clients (run demo_env [Accept, Accept, Accept, Finish 1, Accept] new_server) = [2, 4]"
    by (simp add: accept_def finish_def new_server_def new_connection_def demo_env_sel Let_def)
  have ids: "registered_ids demo_env [Accept, Accept, Accept, Finish 1, Accept] new_server
               = [1, 2, 4]"
    by (simp add: accept_def finish_def new_server_def new_connection_def demo_env_sel Let_def)
  from C9_max_clients [of demo_env "[Accept, Accept, Accept, Finish 1, Accept]"
         "\<lparr>clients = [1, 2], next_client_id = 3\<rparr>" new_connection]
       C9_max_clients [of demo_env "[Accept, Accept, Accept, Finish 1, Accept]"
         "\<lparr>clients = [2], next_client_id = 4\<rparr>" new_connection]
       run ids
  show ?thesis by (simp add: demo_env_sel new_connection_def)
qed
section \<open>Missing and trailing fields\<close>






























end
